theory Spec2Isabelle
  imports Complex_Main
begin

section \<open>Python values and errors\<close>

text \<open>
  The notebook \<^verbatim>\<open>Model-training.ipynb\<close> is Python on top of a tensor framework.
  Every exception that the modelled code can raise is a value of \<open>py_error\<close>; a
  computation that may raise returns \<open>py_error + 'a\<close>, with \<open>Inl\<close> for the exception.
  Numbers that the framework holds as floating point are exact rationals here.
\<close>

datatype py_error =
    ValueError string
  | RuntimeError string
  | IndexError
  | KeyError string
  | ZeroDivisionError
  | FileNotFoundError string
  | TypeError string

text \<open>Sequencing of computations that may raise: the first exception wins.\<close>

definition bind_err :: "py_error + 'a \<Rightarrow> ('a \<Rightarrow> py_error + 'b) \<Rightarrow> py_error + 'b" where
  "bind_err r f = (case r of Inl e \<Rightarrow> Inl e | Inr v \<Rightarrow> f v)"

text \<open>
  Indexing \<^verbatim>\<open>xs[i]\<close> along the first dimension: a negative index counts from the end,
  an index out of range raises \<^verbatim>\<open>IndexError\<close>.
\<close>

definition py_index :: "'a list \<Rightarrow> int \<Rightarrow> py_error + 'a" where
  "py_index xs i =
     (if 0 \<le> i \<and> i < int (length xs) then Inr (xs ! nat i)
      else if i < 0 \<and> - int (length xs) \<le> i then Inr (xs ! nat (int (length xs) + i))
      else Inl IndexError)"

text \<open>Subscription \<^verbatim>\<open>d[k]\<close> of a dictionary: a missing key raises \<^verbatim>\<open>KeyError\<close>.\<close>

definition py_getitem :: "(string \<rightharpoonup> 'v) \<Rightarrow> string \<Rightarrow> py_error + 'v" where
  "py_getitem d k = (case d k of None \<Rightarrow> Inl (KeyError k) | Some v \<Rightarrow> Inr v)"

section \<open>CustomDataset\<close>

text \<open>
  \<^verbatim>\<open>
  class CustomDataset(Dataset):
      def __init__(self, inputs, labels):
          self.inputs = inputs
          self.labels = labels
      def __len__(self):
          return len(self.inputs['input_ids'])
      def __getitem__(self, idx):
          input_ids = self.inputs['input_ids'][idx]
          attention_mask = self.inputs['attention_mask'][idx]
          label = self.labels[idx]
          return {'input_ids': input_ids, 'attention_mask': attention_mask, 'labels': label}
  \<close>
  \<open>inputs\<close> is the dictionary of tokenized tensors loaded from disk (one row of token
  ids, respectively of mask bits, per example); \<open>labels\<close> is the tensor of class labels.
\<close>

record CustomDataset =
  inputs :: "string \<rightharpoonup> int list list"
  labels :: "int list"

datatype item_value = Row "int list" | Scalar int

definition CustomDataset_init :: "(string \<rightharpoonup> int list list) \<Rightarrow> int list \<Rightarrow> CustomDataset" where
  "CustomDataset_init inp lab = \<lparr>inputs = inp, labels = lab\<rparr>"

definition CustomDataset_len :: "CustomDataset \<Rightarrow> py_error + nat" where
  "CustomDataset_len self =
     bind_err (py_getitem (inputs self) ''input_ids'') (\<lambda>t. Inr (length t))"

definition CustomDataset_getitem :: "CustomDataset \<Rightarrow> int \<Rightarrow> py_error + (string \<rightharpoonup> item_value)" where
  "CustomDataset_getitem self idx =
     bind_err (bind_err (py_getitem (inputs self) ''input_ids'') (\<lambda>t. py_index t idx)) (\<lambda>input_ids.
     bind_err (bind_err (py_getitem (inputs self) ''attention_mask'') (\<lambda>t. py_index t idx)) (\<lambda>attention_mask.
     bind_err (py_index (labels self) idx) (\<lambda>label.
       Inr [''input_ids'' \<mapsto> Row input_ids,
            ''attention_mask'' \<mapsto> Row attention_mask,
            ''labels'' \<mapsto> Scalar label])))"

section \<open>Tensors\<close>

text \<open>
  A tensor of rank 3 is a list of matrices, a matrix a list of rows. The hidden states of
  an encoder have the layout (batch, sequence position, feature). \<open>shape_sig\<close> records
  the length of every row; two rectangular tensors have the same shape exactly when
  their signatures agree.
\<close>

type_synonym vec = "rat list"
type_synonym matrix = "rat list list"
type_synonym tensor3 = "rat list list list"

definition shape_sig :: "tensor3 \<Rightarrow> nat list list" where
  "shape_sig t = map (map length) t"

definition has_shape :: "nat \<Rightarrow> nat \<Rightarrow> nat \<Rightarrow> tensor3 \<Rightarrow> bool" where
  "has_shape b s c t = (shape_sig t = replicate b (replicate s c))"

definition tensor_add :: "tensor3 \<Rightarrow> tensor3 \<Rightarrow> tensor3" where
  "tensor_add x y = map2 (map2 (map2 (+))) x y"

text \<open>
  The slice \<^verbatim>\<open>xs[-k:]\<close>: the last \<open>k\<close> elements, all of \<open>xs\<close> when it has fewer
  than \<open>k\<close>; \<^verbatim>\<open>xs[-0:]\<close> is \<^verbatim>\<open>xs[0:]\<close>, the whole sequence.
\<close>

definition py_slice_last :: "nat \<Rightarrow> 'a list \<Rightarrow> 'a list" where
  "py_slice_last k xs = (if k = 0 then xs else drop (length xs - k) xs)"

text \<open>
  \<^verbatim>\<open>torch.stack\<close> puts tensors of one shape along a new first dimension; it raises
  \<^verbatim>\<open>RuntimeError\<close> on an empty sequence and on tensors of different shapes.
\<close>

definition torch_stack :: "tensor3 list \<Rightarrow> py_error + tensor3 list" where
  "torch_stack ts =
     (case ts of
        [] \<Rightarrow> Inl (RuntimeError ''stack expects a non-empty TensorList'')
      | t # rest \<Rightarrow>
          if list_all (\<lambda>u. shape_sig u = shape_sig t) rest then Inr ts
          else Inl (RuntimeError ''stack expects each tensor to be equal size''))"

text \<open>\<^verbatim>\<open>.sum(dim=0)\<close> of a stacked tensor adds its slices element by element.\<close>

fun sum_dim0 :: "tensor3 list \<Rightarrow> tensor3" where
  "sum_dim0 [] = []"
| "sum_dim0 (t # ts) = foldl tensor_add t ts"

text \<open>\<^verbatim>\<open>.permute(0, 2, 1)\<close> exchanges the last two dimensions of every batch entry.\<close>

definition permute_0_2_1 :: "tensor3 \<Rightarrow> tensor3" where
  "permute_0_2_1 t = map transpose t"

section \<open>sum_model_layers\<close>

text \<open>
  \<^verbatim>\<open>
  def sum_model_layers(model_name, hidden_states):
      if model_name == 'distilbert':
          return torch.stack(hidden_states[-6:]).sum(dim=0)
      elif model_name == 'tinybert':
          return torch.stack(hidden_states[-4:]).sum(dim=0)
      elif model_name == 'electra':
          return torch.stack(hidden_states[-12:]).sum(dim=0)
      else:
          raise ValueError(f"Unsupported model: {model_name}")
  \<close>
\<close>

definition sum_model_layers :: "string \<Rightarrow> tensor3 list \<Rightarrow> py_error + tensor3" where
  "sum_model_layers model_name hidden_states =
     (if model_name = ''distilbert'' then
        bind_err (torch_stack (py_slice_last 6 hidden_states)) (\<lambda>st. Inr (sum_dim0 st))
      else if model_name = ''tinybert'' then
        bind_err (torch_stack (py_slice_last 4 hidden_states)) (\<lambda>st. Inr (sum_dim0 st))
      else if model_name = ''electra'' then
        bind_err (torch_stack (py_slice_last 12 hidden_states)) (\<lambda>st. Inr (sum_dim0 st))
      else Inl (ValueError (''Unsupported model: '' @ model_name)))"

section \<open>Layers of the classification head\<close>

text \<open>
  The layers are the framework's \<^verbatim>\<open>nn.Conv1d\<close>, \<^verbatim>\<open>nn.LSTM\<close> and \<^verbatim>\<open>nn.Linear\<close>. Each
  is a record of its configuration and its weights. A constructor takes the initial
  weights as functions of their indices, so that a constructed layer has weights of the
  configured shape whatever the random initialisation was.
\<close>

definition dot :: "vec \<Rightarrow> vec \<Rightarrow> rat" where
  "dot u v = sum_list (map2 (*) u v)"

definition matvec :: "matrix \<Rightarrow> vec \<Rightarrow> vec" where
  "matvec w v = map (\<lambda>row. dot row v) w"

definition vec_add :: "vec \<Rightarrow> vec \<Rightarrow> vec" where
  "vec_add u v = map2 (+) u v"

text \<open>Applying a function that may raise to every entry of a batch, in order.\<close>

fun map_err :: "('a \<Rightarrow> py_error + 'b) \<Rightarrow> 'a list \<Rightarrow> py_error + 'b list" where
  "map_err f [] = Inr []"
| "map_err f (x # xs) =
     (case f x of
        Inl e \<Rightarrow> Inl e
      | Inr y \<Rightarrow> (case map_err f xs of Inl e \<Rightarrow> Inl e | Inr ys \<Rightarrow> Inr (y # ys)))"

record Conv1d =
  in_channels :: nat
  out_channels :: nat
  kernel_size :: nat
  padding :: nat
  conv_weight :: "rat list list list"
  conv_bias :: vec

definition Conv1d_init ::
  "nat \<Rightarrow> nat \<Rightarrow> nat \<Rightarrow> nat \<Rightarrow> (nat \<Rightarrow> nat \<Rightarrow> nat \<Rightarrow> rat) \<Rightarrow> (nat \<Rightarrow> rat) \<Rightarrow> Conv1d" where
  "Conv1d_init ic oc k p w0 b0 =
     \<lparr>in_channels = ic, out_channels = oc, kernel_size = k, padding = p,
      conv_weight = map (\<lambda>out. map (\<lambda>c. map (\<lambda>q. w0 out c q) [0..<k]) [0..<ic]) [0..<oc],
      conv_bias = map b0 [0..<oc]\<rparr>"

definition pad_row :: "nat \<Rightarrow> vec \<Rightarrow> vec" where
  "pad_row p row = replicate p 0 @ row @ replicate p 0"

text \<open>
  One batch entry, channels first: output channel \<open>out\<close> at position \<open>t\<close> is the bias plus
  the sum over the input channels of the kernel applied to the zero-padded window that
  starts at \<open>t\<close>. The framework raises when the channel count is not \<open>in_channels\<close> and
  when the padded input is shorter than the kernel.
\<close>

definition conv1d_example :: "Conv1d \<Rightarrow> matrix \<Rightarrow> py_error + matrix" where
  "conv1d_example cv x =
     (if length x \<noteq> in_channels cv then
        Inl (RuntimeError ''expected input to have in_channels channels'')
      else
        let xp = map (pad_row (padding cv)) x;
            lp = (case x of [] \<Rightarrow> 0 | r # _ \<Rightarrow> length r) + 2 * padding cv
        in if lp < kernel_size cv then
             Inl (RuntimeError ''kernel size cannot be greater than actual input size'')
           else
             Inr (map2 (\<lambda>w_out b_out.
                    map (\<lambda>t. b_out + sum_list (map2 (\<lambda>w_c row.
                                 dot w_c (take (kernel_size cv) (drop t row))) w_out xp))
                      [0..<lp + 1 - kernel_size cv])
                  (conv_weight cv) (conv_bias cv)))"

definition conv1d_forward :: "Conv1d \<Rightarrow> tensor3 \<Rightarrow> py_error + tensor3" where
  "conv1d_forward cv xs = map_err (conv1d_example cv) xs"

text \<open>
  The gate nonlinearities of the recurrent layer are not rational functions; they are
  parameters of the model.
\<close>

record activation =
  sigmoid :: "rat \<Rightarrow> rat"
  tanh_act :: "rat \<Rightarrow> rat"

record LSTM =
  input_size :: nat
  hidden_size :: nat
  weight_ih :: matrix
  weight_hh :: matrix
  bias_ih :: vec
  bias_hh :: vec

definition LSTM_init ::
  "nat \<Rightarrow> nat \<Rightarrow> (nat \<Rightarrow> nat \<Rightarrow> rat) \<Rightarrow> (nat \<Rightarrow> nat \<Rightarrow> rat) \<Rightarrow> (nat \<Rightarrow> rat) \<Rightarrow> (nat \<Rightarrow> rat) \<Rightarrow> LSTM" where
  "LSTM_init isz hsz wi0 wh0 bi0 bh0 =
     \<lparr>input_size = isz, hidden_size = hsz,
      weight_ih = map (\<lambda>r. map (wi0 r) [0..<isz]) [0..<4 * hsz],
      weight_hh = map (\<lambda>r. map (wh0 r) [0..<hsz]) [0..<4 * hsz],
      bias_ih = map bi0 [0..<4 * hsz],
      bias_hh = map bh0 [0..<4 * hsz]\<rparr>"

text \<open>
  One time step. The four gates (input, forget, cell, output, in this order) are the
  four blocks of \<open>hidden_size\<close> rows of the weight matrices.
\<close>

definition lstm_cell :: "activation \<Rightarrow> LSTM \<Rightarrow> vec \<Rightarrow> vec \<times> vec \<Rightarrow> vec \<times> vec" where
  "lstm_cell act l x hc =
     (let n = hidden_size l;
          gates = vec_add (vec_add (matvec (weight_ih l) x) (bias_ih l))
                          (vec_add (matvec (weight_hh l) (fst hc)) (bias_hh l));
          gi = map (sigmoid act) (take n gates);
          gf = map (sigmoid act) (take n (drop n gates));
          gg = map (tanh_act act) (take n (drop (2 * n) gates));
          go = map (sigmoid act) (take n (drop (3 * n) gates));
          c' = vec_add (map2 (*) gf (snd hc)) (map2 (*) gi gg);
          h' = map2 (*) go (map (tanh_act act) c')
      in (h', c'))"

fun lstm_steps :: "activation \<Rightarrow> LSTM \<Rightarrow> matrix \<Rightarrow> vec \<times> vec \<Rightarrow> matrix" where
  "lstm_steps act l [] hc = []"
| "lstm_steps act l (x # xs) hc =
     (let hc' = lstm_cell act l x hc in fst hc' # lstm_steps act l xs hc')"

text \<open>
  One batch entry (\<^verbatim>\<open>batch_first=True\<close>): a sequence of feature vectors in, the hidden
  state of every time step out, from a zero initial state. The final state pair that
  the framework returns next to the output is the one the caller discards.
\<close>

definition lstm_example :: "activation \<Rightarrow> LSTM \<Rightarrow> matrix \<Rightarrow> py_error + matrix" where
  "lstm_example act l x =
     (if x = [] then Inl (RuntimeError ''expected sequence length to be larger than 0'')
      else if list_ex (\<lambda>row. length row \<noteq> input_size l) x then
        Inl (RuntimeError ''input.size(-1) must be equal to input_size'')
      else Inr (lstm_steps act l x (replicate (hidden_size l) 0, replicate (hidden_size l) 0)))"

definition lstm_forward :: "activation \<Rightarrow> LSTM \<Rightarrow> tensor3 \<Rightarrow> py_error + tensor3" where
  "lstm_forward act l xs = map_err (lstm_example act l) xs"

record Linear =
  in_features :: nat
  out_features :: nat
  lin_weight :: matrix
  lin_bias :: vec

definition Linear_init :: "nat \<Rightarrow> nat \<Rightarrow> (nat \<Rightarrow> nat \<Rightarrow> rat) \<Rightarrow> (nat \<Rightarrow> rat) \<Rightarrow> Linear" where
  "Linear_init i out w0 b0 =
     \<lparr>in_features = i, out_features = out,
      lin_weight = map (\<lambda>r. map (w0 r) [0..<i]) [0..<out],
      lin_bias = map b0 [0..<out]\<rparr>"

definition linear_example :: "Linear \<Rightarrow> vec \<Rightarrow> py_error + vec" where
  "linear_example l v =
     (if length v \<noteq> in_features l then
        Inl (RuntimeError ''mat1 and mat2 shapes cannot be multiplied'')
      else Inr (vec_add (matvec (lin_weight l) v) (lin_bias l)))"

definition linear_forward :: "Linear \<Rightarrow> matrix \<Rightarrow> py_error + matrix" where
  "linear_forward l vs = map_err (linear_example l) vs"

section \<open>CNNLSTMClassifier\<close>

text \<open>
  A pretrained encoder is a function of its weights, its mode (training or evaluation)
  and a batch of token ids with the attention mask; called with
  \<^verbatim>\<open>output_hidden_states=True\<close> it yields the tuple of its hidden states, each of layout
  (batch, position, feature).
\<close>

record Encoder =
  enc_training :: bool
  enc_params :: vec
  enc_apply :: "vec \<Rightarrow> bool \<Rightarrow> int list list \<Rightarrow> int list list \<Rightarrow> tensor3 list"

definition encoder_call :: "Encoder \<Rightarrow> int list list \<Rightarrow> int list list \<Rightarrow> tensor3 list" where
  "encoder_call e input_ids attention_mask =
     enc_apply e (enc_params e) (enc_training e) input_ids attention_mask"

text \<open>
  Automatic differentiation is modelled by what it records. The parameters of the
  classifier form four groups. A tensor carries the set of groups that its recorded
  graph reaches; the set is empty for a tensor that does not require a gradient. An
  operation run while gradient mode is on records its own parameters and the graphs of
  its inputs; run while gradient mode is off it records nothing.
\<close>

datatype param_group = EncoderParams | CnnParams | LstmParams | FcParams

definition record_op :: "bool \<Rightarrow> param_group set \<Rightarrow> param_group set \<Rightarrow> param_group set" where
  "record_op grad_mode own ins = (if grad_mode then own \<union> ins else {})"

text \<open>
  \<^verbatim>\<open>
  class CNNLSTMClassifier(nn.Module):
      def __init__(self, model_name, bert, in_channels, cnn_out_channels=64,
                   lstm_hidden_dim=64, num_classes=2):
          super(CNNLSTMClassifier, self).__init__()
          self.model_name = model_name
          self.bert = bert
          self.cnn = nn.Conv1d(in_channels=in_channels, out_channels=cnn_out_channels,
                               kernel_size=3, padding=1)
          self.lstm = nn.LSTM(cnn_out_channels, lstm_hidden_dim, batch_first=True)
          self.fc = nn.Linear(lstm_hidden_dim, num_classes)
  \<close>
  A module is created in training mode; the encoder passed in keeps its own mode.
\<close>

record initializer =
  init_conv_w :: "nat \<Rightarrow> nat \<Rightarrow> nat \<Rightarrow> rat"
  init_conv_b :: "nat \<Rightarrow> rat"
  init_lstm_wih :: "nat \<Rightarrow> nat \<Rightarrow> rat"
  init_lstm_whh :: "nat \<Rightarrow> nat \<Rightarrow> rat"
  init_lstm_bih :: "nat \<Rightarrow> rat"
  init_lstm_bhh :: "nat \<Rightarrow> rat"
  init_fc_w :: "nat \<Rightarrow> nat \<Rightarrow> rat"
  init_fc_b :: "nat \<Rightarrow> rat"

record CNNLSTMClassifier =
  model_name :: string
  bert :: Encoder
  cnn :: Conv1d
  lstm :: LSTM
  fc :: Linear
  training :: bool

definition CNNLSTMClassifier_init ::
  "initializer \<Rightarrow> string \<Rightarrow> Encoder \<Rightarrow> nat \<Rightarrow> nat \<Rightarrow> nat \<Rightarrow> nat \<Rightarrow> CNNLSTMClassifier" where
  "CNNLSTMClassifier_init rng name encoder in_ch cnn_out_channels lstm_hidden_dim num_classes =
     \<lparr>model_name = name,
      bert = encoder,
      cnn = Conv1d_init in_ch cnn_out_channels 3 1 (init_conv_w rng) (init_conv_b rng),
      lstm = LSTM_init cnn_out_channels lstm_hidden_dim (init_lstm_wih rng) (init_lstm_whh rng)
               (init_lstm_bih rng) (init_lstm_bhh rng),
      fc = Linear_init lstm_hidden_dim num_classes (init_fc_w rng) (init_fc_b rng),
      training = True\<rparr>"

text \<open>The call with the defaults of the signature, as the notebook makes it.\<close>

definition CNNLSTMClassifier_new ::
  "initializer \<Rightarrow> string \<Rightarrow> Encoder \<Rightarrow> nat \<Rightarrow> CNNLSTMClassifier" where
  "CNNLSTMClassifier_new rng name encoder in_ch =
     CNNLSTMClassifier_init rng name encoder in_ch 64 64 2"

text \<open>
  \<^verbatim>\<open>model.train()\<close> and \<^verbatim>\<open>model.eval()\<close> set the mode of the module and of every
  submodule, hence of the encoder.
\<close>

definition Module_train :: "bool \<Rightarrow> CNNLSTMClassifier \<Rightarrow> CNNLSTMClassifier" where
  "Module_train mode self = self\<lparr>training := mode, bert := (bert self)\<lparr>enc_training := mode\<rparr>\<rparr>"

definition Module_eval :: "CNNLSTMClassifier \<Rightarrow> CNNLSTMClassifier" where
  "Module_eval self = Module_train False self"

text \<open>
  \<^verbatim>\<open>model.parameters()\<close> lists the parameters of all submodules in the order of their
  registration.
\<close>

definition parameters :: "CNNLSTMClassifier \<Rightarrow> param_group list" where
  "parameters self = [EncoderParams, CnnParams, LstmParams, FcParams]"

text \<open>
  \<^verbatim>\<open>
      def forward(self, input_ids, attention_mask):
          with torch.set_grad_enabled(self.bert.training):
              transformer_output = self.bert(input_ids=input_ids,
                  attention_mask=attention_mask, output_hidden_states=True)
              hidden_states = transformer_output.hidden_states
              embeddings = sum_model_layers(self.model_name, hidden_states).permute(0, 2, 1)
          cnn_out = self.cnn(embeddings)
          lstm_out, _ = self.lstm(cnn_out.permute(0, 2, 1))
          logits = self.fc(lstm_out[:, -1, :])
          return logits
  \<close>
  \<open>embeddings_block\<close> is the \<^verbatim>\<open>with\<close> block and \<open>classification_head\<close> the part after it.
  The block sets the gradient mode to the encoder's mode and restores the caller's mode
  \<open>grad_enabled\<close> when it is left, also by an exception. The result is the logits with the graph
  recorded for them.
\<close>

definition classification_head ::
  "activation \<Rightarrow> CNNLSTMClassifier \<Rightarrow> bool \<Rightarrow> tensor3 \<Rightarrow> param_group set
     \<Rightarrow> py_error + (matrix \<times> param_group set)" where
  "classification_head act self grad_enabled embeddings g_emb =
     bind_err (conv1d_forward (cnn self) embeddings) (\<lambda>cnn_out.
     let g_cnn = record_op grad_enabled {CnnParams} g_emb in
     bind_err (lstm_forward act (lstm self) (permute_0_2_1 cnn_out)) (\<lambda>lstm_out.
     let g_lstm = record_op grad_enabled {LstmParams} g_cnn in
     bind_err (map_err (\<lambda>m. py_index m (- 1)) lstm_out) (\<lambda>last_step.
     bind_err (linear_forward (fc self) last_step) (\<lambda>logits.
       Inr (logits, record_op grad_enabled {FcParams} g_lstm)))))"

definition embeddings_block ::
  "CNNLSTMClassifier \<Rightarrow> int list list \<Rightarrow> int list list \<Rightarrow> py_error + (tensor3 \<times> param_group set)" where
  "embeddings_block self input_ids attention_mask =
     (let inside = enc_training (bert self);
          hidden_states = encoder_call (bert self) input_ids attention_mask;
          g_hidden = record_op inside {EncoderParams} {}
      in bind_err (sum_model_layers (model_name self) hidden_states) (\<lambda>summed.
           Inr (permute_0_2_1 summed, record_op inside {} g_hidden)))"

definition forward ::
  "activation \<Rightarrow> CNNLSTMClassifier \<Rightarrow> bool \<Rightarrow> int list list \<Rightarrow> int list list
     \<Rightarrow> py_error + (matrix \<times> param_group set)" where
  "forward act self grad_enabled input_ids attention_mask =
     bind_err (embeddings_block self input_ids attention_mask) (\<lambda>(embeddings, g_emb).
       classification_head act self grad_enabled embeddings g_emb)"

section \<open>train_model\<close>

text \<open>
  A batch is the dictionary that the data loader collates from the items of a
  \<open>CustomDataset\<close>: one row of token ids, one row of mask bits and one label per example.
\<close>

record batch =
  b_input_ids :: "int list list"
  b_attention_mask :: "int list list"
  b_labels :: "int list"

text \<open>
  The \<^verbatim>\<open>.grad\<close> attributes of the parameters that an optimizer holds, in the order of
  its parameter list: \<open>None\<close> for a parameter without gradient. A scalar tensor such as a
  loss carries its value and, for every parameter, its derivative with respect to that
  parameter, \<open>None\<close> where its recorded graph does not reach the parameter.
\<close>

type_synonym grads = "vec option list"

record scalar_tensor =
  item :: rat
  grad_wrt :: grads

text \<open>\<^verbatim>\<open>loss / accumulation_steps\<close>: the value and every derivative are divided.\<close>

definition tensor_div :: "scalar_tensor \<Rightarrow> int \<Rightarrow> scalar_tensor" where
  "tensor_div t a =
     \<lparr>item = item t / of_int a,
      grad_wrt = map (map_option (map (\<lambda>x. x / of_int a))) (grad_wrt t)\<rparr>"

definition accumulate :: "vec option \<Rightarrow> vec option \<Rightarrow> vec option" where
  "accumulate old new =
     (case new of
        None \<Rightarrow> old
      | Some g \<Rightarrow> (case old of None \<Rightarrow> Some g | Some h \<Rightarrow> Some (vec_add h g)))"

text \<open>
  \<^verbatim>\<open>loss.backward()\<close> adds the derivatives of the loss to the \<^verbatim>\<open>.grad\<close> of the parameters;
  it raises \<^verbatim>\<open>RuntimeError\<close> for a tensor that does not require a gradient.
\<close>

definition backward :: "scalar_tensor \<Rightarrow> grads \<Rightarrow> py_error + grads" where
  "backward t gs =
     (if list_all (\<lambda>g. g = None) (grad_wrt t) then
        Inl (RuntimeError ''element 0 of tensors does not require grad'')
      else Inr (map2 accumulate gs (grad_wrt t)))"

text \<open>
  What \<open>train_model\<close> is given from the framework: \<open>loss_of\<close> is
  \<^verbatim>\<open>criterion(model(input_ids, attention_mask), labels)\<close> for the current model, with the
  derivatives that automatic differentiation assigns to it; \<open>opt_update\<close> is the update
  that \<^verbatim>\<open>optimizer.step()\<close> makes from the gradients of its parameters.
\<close>

record ('m, 'b, 'o) framework =
  loss_of :: "'m \<Rightarrow> 'b \<Rightarrow> py_error + scalar_tensor"
  opt_update :: "'o \<Rightarrow> 'm \<Rightarrow> grads \<Rightarrow> 'o \<times> 'm"

text \<open>
  The calls made to the framework are recorded in order: the criterion with the
  1-based index of the batch and the loss tensor it returned, the backward pass,
  the optimizer step with the gradients it applies, and the zeroing of the gradients.
\<close>

datatype event = Criterion nat scalar_tensor | Backward | OptimizerStep grads | ZeroGrad

record ('m, 'o) train_state =
  ts_model :: 'm
  ts_optimizer :: 'o
  ts_grads :: grads
  ts_trace :: "event list"

definition log_event :: "event \<Rightarrow> ('m, 'o) train_state \<Rightarrow> ('m, 'o) train_state" where
  "log_event e st = st\<lparr>ts_trace := ts_trace st @ [e]\<rparr>"

text \<open>\<^verbatim>\<open>optimizer.zero_grad()\<close> resets the gradient of every parameter to \<open>None\<close>.\<close>

definition optimizer_zero_grad :: "('m, 'o) train_state \<Rightarrow> ('m, 'o) train_state" where
  "optimizer_zero_grad st = log_event ZeroGrad (st\<lparr>ts_grads := map (\<lambda>_. None) (ts_grads st)\<rparr>)"

definition optimizer_step ::
  "('m, 'b, 'o) framework \<Rightarrow> ('m, 'o) train_state \<Rightarrow> ('m, 'o) train_state" where
  "optimizer_step fw st =
     (let (opt', model') = opt_update fw (ts_optimizer st) (ts_model st) (ts_grads st)
      in log_event (OptimizerStep (ts_grads st)) (st\<lparr>ts_model := model', ts_optimizer := opt'\<rparr>))"

text \<open>The remainder \<^verbatim>\<open>x % a\<close> of Python integers: the sign follows the divisor.\<close>

definition py_mod :: "int \<Rightarrow> int \<Rightarrow> py_error + int" where
  "py_mod x a = (if a = 0 then Inl ZeroDivisionError else Inr (x mod a))"

text \<open>
  \<^verbatim>\<open>
  def train_model(model, dataloader, criterion, optimizer, num_epochs=1,
                  accumulation_steps=10, device='cuda'):
      optimizer.zero_grad()
      for epoch in range(num_epochs):
          total_loss = 0
          for i, batches in enumerate(tqdm(dataloader)):
              input_ids = batches['input_ids'].to(device)
              attention_mask = batches['attention_mask'].to(device)
              labels = batches['labels'].to(device)
              outputs = model(input_ids, attention_mask)
              loss = criterion(outputs, labels)
              loss = loss / accumulation_steps
              loss.backward()
              total_loss += loss.item() * accumulation_steps
              if ((i + 1) % accumulation_steps == 0) or (i+1 == len(dataloader)):
                  optimizer.step()
                  optimizer.zero_grad()
          avg_loss = total_loss / len(dataloader)
          print(f'Epoch {epoch + 1}/{num_epochs}, Loss: {avg_loss:.4f}')
      return model
  \<close>
  \<open>train_batches\<close> is the inner loop from index \<open>i\<close> on, with \<open>n = len(dataloader)\<close>;
  \<open>train_epochs\<close> is the outer loop with the number of epochs still to run and the
  average losses printed so far. The data loader is the list of its batches. A division
  of the loss tensor by zero does not raise; the remainder by zero that follows it does.
\<close>

fun train_batches ::
  "('m, 'b, 'o) framework \<Rightarrow> int \<Rightarrow> nat \<Rightarrow> nat \<Rightarrow> 'b list \<Rightarrow> ('m, 'o) train_state \<times> rat
     \<Rightarrow> py_error + (('m, 'o) train_state \<times> rat)" where
  "train_batches fw accumulation_steps n i [] acc = Inr acc"
| "train_batches fw accumulation_steps n i (batches # rest) (st, total_loss) =
     bind_err (loss_of fw (ts_model st) batches) (\<lambda>loss0.
     let st1 = log_event (Criterion (i + 1) loss0) st;
         loss = tensor_div loss0 accumulation_steps
     in bind_err (backward loss (ts_grads st1)) (\<lambda>g.
     let st2 = log_event Backward (st1\<lparr>ts_grads := g\<rparr>);
         total_loss' = total_loss + item loss * of_int accumulation_steps
     in bind_err (py_mod (int (i + 1)) accumulation_steps) (\<lambda>r.
     let st3 = (if r = 0 \<or> i + 1 = n then optimizer_zero_grad (optimizer_step fw st2) else st2)
     in train_batches fw accumulation_steps n (i + 1) rest (st3, total_loss'))))"

fun train_epochs ::
  "('m, 'b, 'o) framework \<Rightarrow> int \<Rightarrow> 'b list \<Rightarrow> nat \<Rightarrow> ('m, 'o) train_state \<times> rat list
     \<Rightarrow> py_error + (('m, 'o) train_state \<times> rat list)" where
  "train_epochs fw accumulation_steps dataloader 0 acc = Inr acc"
| "train_epochs fw accumulation_steps dataloader (Suc k) (st, printed) =
     bind_err (train_batches fw accumulation_steps (length dataloader) 0 dataloader (st, 0))
       (\<lambda>(st', total_loss).
          if length dataloader = 0 then Inl ZeroDivisionError
          else train_epochs fw accumulation_steps dataloader k
                 (st', printed @ [total_loss / of_nat (length dataloader)]))"

text \<open>
  The result is the final state, which holds the trained model that the source returns,
  and the list of the average losses printed, one per epoch. \<open>grads0\<close> are the gradients
  that the parameters hold when \<open>train_model\<close> is called.
\<close>

definition train_model ::
  "('m, 'b, 'o) framework \<Rightarrow> 'm \<Rightarrow> 'b list \<Rightarrow> 'o \<Rightarrow> grads \<Rightarrow> nat \<Rightarrow> int
     \<Rightarrow> py_error + (('m, 'o) train_state \<times> rat list)" where
  "train_model fw model dataloader optimizer grads0 num_epochs accumulation_steps =
     train_epochs fw accumulation_steps dataloader num_epochs
       (optimizer_zero_grad
          \<lparr>ts_model = model, ts_optimizer = optimizer, ts_grads = grads0, ts_trace = []\<rparr>, [])"

section \<open>evaluate_model and test_model\<close>

text \<open>
  What the two functions are given from the framework for a model: \<^verbatim>\<open>model.eval()\<close>, and
  the call \<^verbatim>\<open>model(input_ids, attention_mask)\<close> under a gradient mode, which yields one
  row of logits per example.
\<close>

record 'm evaluator =
  model_eval :: "'m \<Rightarrow> 'm"
  model_call :: "'m \<Rightarrow> bool \<Rightarrow> int list list \<Rightarrow> int list list \<Rightarrow> py_error + matrix"

text \<open>
  \<^verbatim>\<open>torch.max(outputs, dim=1)\<close> yields for every row the maximum and its index, the first
  one where the maximum occurs several times; it raises for rows without entries.
\<close>

fun argmax_from :: "nat \<Rightarrow> nat \<Rightarrow> rat \<Rightarrow> vec \<Rightarrow> nat" where
  "argmax_from i best v [] = best"
| "argmax_from i best v (x # xs) =
     (if v < x then argmax_from (i + 1) i x xs else argmax_from (i + 1) best v xs)"

definition argmax_row :: "vec \<Rightarrow> py_error + nat" where
  "argmax_row row =
     (case row of
        [] \<Rightarrow> Inl (RuntimeError ''expected reduction dim 1 to have non-zero size'')
      | x # xs \<Rightarrow> Inr (argmax_from 1 0 x xs))"

definition torch_max_dim1 :: "matrix \<Rightarrow> py_error + nat list" where
  "torch_max_dim1 outputs = map_err argmax_row outputs"

text \<open>
  What the functions print: a line of text, or the report that
  \<^verbatim>\<open>classification_report(true_labels, predictions, digits=4)\<close> makes of its two arguments.
\<close>

datatype printed = Text string | ClassificationReport "int list" "nat list"

text \<open>
  \<^verbatim>\<open>
  def evaluate_model(model, dataloader, device):
      model.eval()
      predictions, true_labels = [], []
      print("Classification Report:\n")
      with torch.no_grad():
          for batches in tqdm(dataloader):
              input_ids = batches['input_ids'].to(device)
              attention_mask = batches['attention_mask'].to(device)
              labels = batches['labels'].to(device)
              outputs = model(input_ids, attention_mask)
              _, preds = torch.max(outputs, dim=1)
              predictions.extend(preds.cpu().numpy())
              true_labels.extend(labels.cpu().numpy())
      report = classification_report(true_labels, predictions, digits=4)
      print(report)
  \<close>
  The result is the model, which \<^verbatim>\<open>eval()\<close> has changed in place, what was printed, and
  the value returned, which is \<^verbatim>\<open>None\<close> here.
\<close>

fun evaluate_model_loop ::
  "'m evaluator \<Rightarrow> 'm \<Rightarrow> batch list \<Rightarrow> nat list \<times> int list \<Rightarrow> py_error + (nat list \<times> int list)" where
  "evaluate_model_loop ev model [] acc = Inr acc"
| "evaluate_model_loop ev model (batches # rest) (predictions, true_labels) =
     bind_err (model_call ev model False (b_input_ids batches) (b_attention_mask batches)) (\<lambda>outputs.
     bind_err (torch_max_dim1 outputs) (\<lambda>preds.
       evaluate_model_loop ev model rest (predictions @ preds, true_labels @ b_labels batches)))"

definition evaluate_model ::
  "'m evaluator \<Rightarrow> 'm \<Rightarrow> batch list \<Rightarrow> py_error + ('m \<times> printed list \<times> unit)" where
  "evaluate_model ev model dataloader =
     (let model' = model_eval ev model;
          out = [Text ''Classification Report:\<newline>'']
      in bind_err (evaluate_model_loop ev model' dataloader ([], [])) (\<lambda>(predictions, true_labels).
           Inr (model', out @ [ClassificationReport true_labels predictions], ())))"

text \<open>
  \<^verbatim>\<open>
  def test_model(model, dataloader, device):
      model.eval()
      predictions, true_labels = [], []
      print("Classification Report:\n")
      with torch.no_grad():
          for batches in tqdm(dataloader):
              input_ids = batches['input_ids'].to(device)
              attention_mask = batches['attention_mask'].to(device)
              labels = batches['labels'].to(device)
              outputs = model(input_ids, attention_mask)
              _, preds = torch.max(outputs, dim=1)
              predictions.extend(preds.cpu().numpy())
              true_labels.extend(labels.cpu().numpy())
      report = classification_report(true_labels, predictions, digits=4)
      print(report)
      return predictions, true_labels
  \<close>
\<close>

fun test_model_loop ::
  "'m evaluator \<Rightarrow> 'm \<Rightarrow> batch list \<Rightarrow> nat list \<times> int list \<Rightarrow> py_error + (nat list \<times> int list)" where
  "test_model_loop ev model [] acc = Inr acc"
| "test_model_loop ev model (batches # rest) (predictions, true_labels) =
     bind_err (model_call ev model False (b_input_ids batches) (b_attention_mask batches)) (\<lambda>outputs.
     bind_err (torch_max_dim1 outputs) (\<lambda>preds.
       test_model_loop ev model rest (predictions @ preds, true_labels @ b_labels batches)))"

definition test_model ::
  "'m evaluator \<Rightarrow> 'm \<Rightarrow> batch list
     \<Rightarrow> py_error + ('m \<times> printed list \<times> (nat list \<times> int list))" where
  "test_model ev model dataloader =
     (let model' = model_eval ev model;
          out = [Text ''Classification Report:\<newline>'']
      in bind_err (test_model_loop ev model' dataloader ([], [])) (\<lambda>(predictions, true_labels).
           Inr (model', out @ [ClassificationReport true_labels predictions],
                (predictions, true_labels))))"

section \<open>The framework on a classifier\<close>

text \<open>
  The loss of a classifier on a batch, as \<open>train_model\<close> computes it with gradient mode
  on: the criterion applied to the logits, with a derivative for exactly those
  parameters of \<^verbatim>\<open>model.parameters()\<close> that the graph recorded by \<open>forward\<close> reaches. The
  value of the criterion (\<^verbatim>\<open>nn.CrossEntropyLoss\<close>) and the values of the derivatives
  are parameters of the model.
\<close>

record autograd =
  criterion :: "matrix \<Rightarrow> int list \<Rightarrow> rat"
  derivative :: "CNNLSTMClassifier \<Rightarrow> batch \<Rightarrow> param_group \<Rightarrow> vec"

definition classifier_loss ::
  "activation \<Rightarrow> autograd \<Rightarrow> CNNLSTMClassifier \<Rightarrow> batch \<Rightarrow> py_error + scalar_tensor" where
  "classifier_loss act ag self b =
     bind_err (forward act self True (b_input_ids b) (b_attention_mask b)) (\<lambda>(outputs, graph).
       Inr \<lparr>item = criterion ag outputs (b_labels b),
            grad_wrt = map (\<lambda>p. if p \<in> graph then Some (derivative ag self b p) else None)
                         (parameters self)\<rparr>)"

text \<open>
  \<^verbatim>\<open>AdamW(model.parameters(), lr=2e-4)\<close> holds the parameters it was given, the learning
  rate and its running statistics. A step updates every parameter of its list that has
  a gradient and leaves the others as they are. How the statistics evolve and what the
  new weights of a layer are is the optimizer's rule, a parameter of the model.
\<close>

record 's AdamW =
  opt_params :: "param_group list"
  lr :: rat
  opt_state :: 's

record 's optim_rule =
  rule_encoder :: "rat \<Rightarrow> 's \<Rightarrow> vec \<Rightarrow> vec \<Rightarrow> vec"
  rule_cnn :: "rat \<Rightarrow> 's \<Rightarrow> vec \<Rightarrow> Conv1d \<Rightarrow> Conv1d"
  rule_lstm :: "rat \<Rightarrow> 's \<Rightarrow> vec \<Rightarrow> LSTM \<Rightarrow> LSTM"
  rule_fc :: "rat \<Rightarrow> 's \<Rightarrow> vec \<Rightarrow> Linear \<Rightarrow> Linear"
  rule_state :: "'s \<Rightarrow> grads \<Rightarrow> 's"

definition AdamW_init :: "param_group list \<Rightarrow> rat \<Rightarrow> 's \<Rightarrow> 's AdamW" where
  "AdamW_init params rate s0 = \<lparr>opt_params = params, lr = rate, opt_state = s0\<rparr>"

definition apply_update ::
  "'s optim_rule \<Rightarrow> 's AdamW \<Rightarrow> param_group \<times> vec option \<Rightarrow> CNNLSTMClassifier \<Rightarrow> CNNLSTMClassifier" where
  "apply_update rule opt pg self =
     (case snd pg of
        None \<Rightarrow> self
      | Some g \<Rightarrow>
          (case fst pg of
             EncoderParams \<Rightarrow>
               self\<lparr>bert := (bert self)\<lparr>enc_params :=
                 rule_encoder rule (lr opt) (opt_state opt) g (enc_params (bert self))\<rparr>\<rparr>
           | CnnParams \<Rightarrow> self\<lparr>cnn := rule_cnn rule (lr opt) (opt_state opt) g (cnn self)\<rparr>
           | LstmParams \<Rightarrow> self\<lparr>lstm := rule_lstm rule (lr opt) (opt_state opt) g (lstm self)\<rparr>
           | FcParams \<Rightarrow> self\<lparr>fc := rule_fc rule (lr opt) (opt_state opt) g (fc self)\<rparr>))"

definition AdamW_step ::
  "'s optim_rule \<Rightarrow> 's AdamW \<Rightarrow> CNNLSTMClassifier \<Rightarrow> grads \<Rightarrow> 's AdamW \<times> CNNLSTMClassifier" where
  "AdamW_step rule opt self gs =
     (opt\<lparr>opt_state := rule_state rule (opt_state opt) gs\<rparr>,
      fold (apply_update rule opt) (zip (opt_params opt) gs) self)"

definition classifier_framework ::
  "activation \<Rightarrow> autograd \<Rightarrow> 's optim_rule \<Rightarrow> (CNNLSTMClassifier, batch, 's AdamW) framework" where
  "classifier_framework act ag rule =
     \<lparr>loss_of = classifier_loss act ag, opt_update = AdamW_step rule\<rparr>"

definition classifier_evaluator :: "activation \<Rightarrow> CNNLSTMClassifier evaluator" where
  "classifier_evaluator act =
     \<lparr>model_eval = Module_eval,
      model_call = (\<lambda>self grad_enabled input_ids attention_mask.
        map_sum id fst (forward act self grad_enabled input_ids attention_mask))\<rparr>"

text \<open>
  The statistics of the optimizer and the weights of the encoder after optimizer steps
  with the gradients \<open>gss\<close>, one list of gradients per step: a step with a gradient for
  the encoder, the first parameter of the list, applies the rule to the weights; every
  step advances the statistics.
\<close>

fun encoder_replay :: "'s optim_rule \<Rightarrow> rat \<Rightarrow> 's \<times> vec \<Rightarrow> grads list \<Rightarrow> 's \<times> vec" where
  "encoder_replay rule rate sw [] = sw"
| "encoder_replay rule rate (s, w) (gs # gss) =
     encoder_replay rule rate
       (rule_state rule s gs,
        case gs of Some g # rest \<Rightarrow> rule_encoder rule rate s g w | _ \<Rightarrow> w) gss"

section \<open>The notebook\<close>

text \<open>
  The cells of the notebook run in order on the files of the working directory. A file
  holds a dictionary of tokenized tensors, a tensor of labels, a saved model, a saved
  list of predictions, or a table. \<^verbatim>\<open>torch.load\<close> and \<^verbatim>\<open>pd.read_csv\<close> raise
  \<^verbatim>\<open>FileNotFoundError\<close> for a path without file; a file of another kind than the one the
  notebook uses it as is reported as \<^verbatim>\<open>TypeError\<close>.
\<close>

datatype file_content =
    TokenizedInputs "string \<rightharpoonup> int list list"
  | LabelTensor "int list"
  | SavedModel CNNLSTMClassifier
  | SavedPredictions "nat list"
  | CsvTable

type_synonym files = "string \<rightharpoonup> file_content"

definition read_csv :: "files \<Rightarrow> string \<Rightarrow> py_error + unit" where
  "read_csv fs path =
     (case fs path of
        None \<Rightarrow> Inl (FileNotFoundError path)
      | Some CsvTable \<Rightarrow> Inr ()
      | Some _ \<Rightarrow> Inl (TypeError path))"

definition load_inputs :: "files \<Rightarrow> string \<Rightarrow> py_error + (string \<rightharpoonup> int list list)" where
  "load_inputs fs path =
     (case fs path of
        None \<Rightarrow> Inl (FileNotFoundError path)
      | Some (TokenizedInputs d) \<Rightarrow> Inr d
      | Some _ \<Rightarrow> Inl (TypeError path))"

definition load_labels :: "files \<Rightarrow> string \<Rightarrow> py_error + int list" where
  "load_labels fs path =
     (case fs path of
        None \<Rightarrow> Inl (FileNotFoundError path)
      | Some (LabelTensor l) \<Rightarrow> Inr l
      | Some _ \<Rightarrow> Inl (TypeError path))"

definition load_model :: "files \<Rightarrow> string \<Rightarrow> py_error + CNNLSTMClassifier" where
  "load_model fs path =
     (case fs path of
        None \<Rightarrow> Inl (FileNotFoundError path)
      | Some (SavedModel m) \<Rightarrow> Inr m
      | Some _ \<Rightarrow> Inl (TypeError path))"

definition torch_save :: "file_content \<Rightarrow> string \<Rightarrow> files \<Rightarrow> files" where
  "torch_save c path fs = fs(path \<mapsto> c)"

text \<open>
  \<^verbatim>\<open>DataLoader(dataset, batch_size=10)\<close> visits the indices \<open>0, ..., len(dataset) - 1\<close> in
  the order of its sampler, fetches the items of every group of \<open>batch_size\<close> indices
  with \<open>__getitem__\<close> and collates them into a batch, field by field. The sampler of
  a loader with \<^verbatim>\<open>shuffle=True\<close> is a parameter of the model.
\<close>

definition item_row :: "string \<Rightarrow> (string \<rightharpoonup> item_value) \<Rightarrow> py_error + int list" where
  "item_row k d = (case d k of Some (Row r) \<Rightarrow> Inr r | _ \<Rightarrow> Inl (KeyError k))"

definition item_scalar :: "string \<Rightarrow> (string \<rightharpoonup> item_value) \<Rightarrow> py_error + int" where
  "item_scalar k d = (case d k of Some (Scalar x) \<Rightarrow> Inr x | _ \<Rightarrow> Inl (KeyError k))"

definition collate :: "(string \<rightharpoonup> item_value) list \<Rightarrow> py_error + batch" where
  "collate items =
     bind_err (map_err (item_row ''input_ids'') items) (\<lambda>ids.
     bind_err (map_err (item_row ''attention_mask'') items) (\<lambda>mask.
     bind_err (map_err (item_scalar ''labels'') items) (\<lambda>labs.
       Inr \<lparr>b_input_ids = ids, b_attention_mask = mask, b_labels = labs\<rparr>)))"

text \<open>Consecutive groups of \<open>a\<close> elements of a list, the last group taking what is left.\<close>

function chunks :: "nat \<Rightarrow> 'a list \<Rightarrow> 'a list list" where
  "chunks a xs = (if a = 0 \<or> xs = [] then [] else take a xs # chunks a (drop a xs))"
  by pat_completeness auto
termination
  by (relation "measure (\<lambda>(a, xs). length xs)") auto

declare chunks.simps [simp del]

definition sequential_sampler :: "nat \<Rightarrow> nat list" where
  "sequential_sampler n = [0..<n]"

definition DataLoader :: "CustomDataset \<Rightarrow> nat \<Rightarrow> (nat \<Rightarrow> nat list) \<Rightarrow> py_error + batch list" where
  "DataLoader dataset batch_size sampler =
     bind_err (CustomDataset_len dataset) (\<lambda>n.
       map_err (\<lambda>idxs. bind_err (map_err (\<lambda>i. CustomDataset_getitem dataset (int i)) idxs) collate)
         (chunks batch_size (sampler n)))"

text \<open>
  What the notebook takes from outside: the pretrained encoders by their hub names, the
  random initial weights of the head of each model, the order of the shuffling loader,
  and the numerical side of the framework.
\<close>

record 's torch_env =
  env_act :: activation
  env_autograd :: autograd
  env_rule :: "'s optim_rule"
  env_opt_state :: 's
  env_pretrained :: "string \<Rightarrow> Encoder"
  env_rng :: "string \<Rightarrow> initializer"
  env_shuffle :: "nat \<Rightarrow> nat list"

text \<open>
  The notebook has three sections of the same cells, for DistilBert, TinyBert and
  Electra; they differ in the model name, the hub name of the encoder, the number of
  input channels and the prefix of the file names.
\<close>

record section_cfg =
  cfg_model_name :: string
  cfg_pretrained :: string
  cfg_in_channels :: nat
  cfg_prefix :: string

definition DB_cfg :: section_cfg where
  "DB_cfg = \<lparr>cfg_model_name = ''distilbert'', cfg_pretrained = ''distilbert-base-uncased'',
             cfg_in_channels = 768, cfg_prefix = ''DB''\<rparr>"

definition TB_cfg :: section_cfg where
  "TB_cfg = \<lparr>cfg_model_name = ''tinybert'',
             cfg_pretrained = ''huawei-noah/TinyBERT_General_4L_312D'',
             cfg_in_channels = 312, cfg_prefix = ''TB''\<rparr>"

definition EL_cfg :: section_cfg where
  "EL_cfg = \<lparr>cfg_model_name = ''electra'', cfg_pretrained = ''google/electra-small-discriminator'',
             cfg_in_channels = 256, cfg_prefix = ''EL''\<rparr>"

text \<open>
  \<^verbatim>\<open>
  train_DB_inputs = torch.load('intermediates/DB_inputs.pt')
  dev_DB_inputs = torch.load('intermediates/DB_dev_inputs.pt')
  test_DB_inputs = torch.load('intermediates/DB_test_inputs.pt')
  train_labels = torch.load('intermediates/labels.pt')
  dev_labels = torch.load('intermediates/labels_dev.pt')
  test_labels = torch.load('intermediates/labels_test.pt')
  train_custom_dataset = CustomDataset(inputs=train_DB_inputs, labels=train_labels)
  dev_custom_dataset = CustomDataset(inputs=dev_DB_inputs, labels=dev_labels)
  test_custom_dataset = CustomDataset(inputs=test_DB_inputs, labels=test_labels)
  train_dataloader = DataLoader(train_custom_dataset, batch_size=10, shuffle=True)
  dev_dataloader = DataLoader(dev_custom_dataset, batch_size=10)
  test_dataloader = DataLoader(test_custom_dataset, batch_size=10)
  \<close>
\<close>

definition section_data ::
  "'s torch_env \<Rightarrow> section_cfg \<Rightarrow> files \<Rightarrow> py_error + (batch list \<times> batch list \<times> batch list)" where
  "section_data env cfg fs =
     bind_err (load_inputs fs (''intermediates/'' @ cfg_prefix cfg @ ''_inputs.pt'')) (\<lambda>train_inputs.
     bind_err (load_inputs fs (''intermediates/'' @ cfg_prefix cfg @ ''_dev_inputs.pt'')) (\<lambda>dev_inputs.
     bind_err (load_inputs fs (''intermediates/'' @ cfg_prefix cfg @ ''_test_inputs.pt'')) (\<lambda>test_inputs.
     bind_err (load_labels fs ''intermediates/labels.pt'') (\<lambda>train_labels.
     bind_err (load_labels fs ''intermediates/labels_dev.pt'') (\<lambda>dev_labels.
     bind_err (load_labels fs ''intermediates/labels_test.pt'') (\<lambda>test_labels.
     bind_err (DataLoader (CustomDataset_init train_inputs train_labels) 10 (env_shuffle env))
       (\<lambda>train_dataloader.
     bind_err (DataLoader (CustomDataset_init dev_inputs dev_labels) 10 sequential_sampler)
       (\<lambda>dev_dataloader.
     bind_err (DataLoader (CustomDataset_init test_inputs test_labels) 10 sequential_sampler)
       (\<lambda>test_dataloader.
       Inr (train_dataloader, dev_dataloader, test_dataloader))))))))))"

text \<open>
  \<^verbatim>\<open>
  distilbert = DistilBertModel.from_pretrained('distilbert-base-uncased')
  DB_model = CNNLSTMClassifier("distilbert", distilbert, in_channels=768)
  DB_model.train()
  criterion = nn.CrossEntropyLoss()
  optimizer = AdamW(DB_model.parameters(), lr=2e-4)
  \<close>
\<close>

definition section_model :: "'s torch_env \<Rightarrow> section_cfg \<Rightarrow> CNNLSTMClassifier" where
  "section_model env cfg =
     Module_train True
       (CNNLSTMClassifier_new (env_rng env (cfg_model_name cfg)) (cfg_model_name cfg)
          (env_pretrained env (cfg_pretrained cfg)) (cfg_in_channels cfg))"

definition section_optimizer :: "'s torch_env \<Rightarrow> CNNLSTMClassifier \<Rightarrow> 's AdamW" where
  "section_optimizer env model = AdamW_init (parameters model) (2 / 10000) (env_opt_state env)"

text \<open>
  \<^verbatim>\<open>
  DB_model = train_model(DB_model, train_dataloader, criterion, optimizer, num_epochs=1,
                         accumulation_steps=10, device=device)
  torch.save(DB_model, 'models/DB_model.pt')
  DB_model = torch.load('models/DB_model.pt')
  evaluate_model(DB_model, dev_dataloader, device)
  DB_preds, DB_true_labels = test_model(DB_model, test_dataloader, device)
  torch.save(DB_preds, 'predictions/DB_preds.pt')
  \<close>
  The result of a section is the files it leaves and the values of its variables: the
  model as constructed and given to \<open>train_model\<close>, the model that \<open>train_model\<close>
  returned, and the predictions and true labels that \<open>test_model\<close> returned.
\<close>

definition model_path :: "section_cfg \<Rightarrow> string" where
  "model_path cfg = ''models/'' @ cfg_prefix cfg @ ''_model.pt''"

definition preds_path :: "section_cfg \<Rightarrow> string" where
  "preds_path cfg = ''predictions/'' @ cfg_prefix cfg @ ''_preds.pt''"

record section_result =
  sec_constructed :: CNNLSTMClassifier
  sec_trained :: CNNLSTMClassifier
  sec_preds :: "nat list"
  sec_true_labels :: "int list"

definition notebook_section ::
  "'s torch_env \<Rightarrow> section_cfg \<Rightarrow> files \<Rightarrow> py_error + (files \<times> section_result)" where
  "notebook_section env cfg fs =
     bind_err (section_data env cfg fs) (\<lambda>(train_dataloader, dev_dataloader, test_dataloader).
     let model = section_model env cfg;
         optimizer = section_optimizer env model
     in bind_err (train_model (classifier_framework (env_act env) (env_autograd env) (env_rule env))
                    model train_dataloader optimizer (map (\<lambda>_. None) (parameters model)) 1 10)
          (\<lambda>(st, losses).
     let fs1 = torch_save (SavedModel (ts_model st)) (model_path cfg) fs
     in bind_err (load_model fs1 (model_path cfg)) (\<lambda>loaded.
     bind_err (evaluate_model (classifier_evaluator (env_act env)) loaded dev_dataloader)
       (\<lambda>(evaluated, out1, none).
     bind_err (test_model (classifier_evaluator (env_act env)) evaluated test_dataloader)
       (\<lambda>(tested, out2, (preds, true_labels)).
       Inr (torch_save (SavedPredictions preds) (preds_path cfg) fs1,
            \<lparr>sec_constructed = model, sec_trained = ts_model st,
             sec_preds = preds, sec_true_labels = true_labels\<rparr>))))))"

text \<open>
  The whole notebook: the two tables are read, then the three sections run, each on the
  files the one before has left.
\<close>

definition notebook :: "'s torch_env \<Rightarrow> files \<Rightarrow> py_error + (files \<times> section_result list)" where
  "notebook env fs =
     bind_err (read_csv fs ''cleaned_dataset.csv'') (\<lambda>train_dataset.
     bind_err (read_csv fs ''cleaned_dev_dataset.csv'') (\<lambda>dev_dataset.
     bind_err (notebook_section env DB_cfg fs) (\<lambda>(fs1, db).
     bind_err (notebook_section env TB_cfg fs1) (\<lambda>(fs2, tb).
     bind_err (notebook_section env EL_cfg fs2) (\<lambda>(fs3, el).
       Inr (fs3, [db, tb, el]))))))"

section \<open>Gradient accumulation as the specification words it\<close>

text \<open>
  The specification describes \<open>train_model\<close> by groups of mini-batches: the batches of
  an epoch are cut into consecutive groups of \<open>accumulation_steps\<close> batches, the last
  group taking what is left; within a group the gradients of the scaled losses are
  added up, and after the group the optimizer steps and the gradients are zeroed. The
  definitions of this section follow these words; the theorems relate them to the loop
  of the source.
\<close>

text \<open>
  The gradients that hold after the losses \<open>ts\<close> of a group have been scaled by
  \<open>1 / a\<close> and accumulated onto the gradients \<open>g0\<close>.
\<close>

definition scaled_grad_sum :: "int \<Rightarrow> grads \<Rightarrow> scalar_tensor list \<Rightarrow> grads" where
  "scaled_grad_sum a g0 ts = foldl (\<lambda>g t. map2 accumulate g (grad_wrt (tensor_div t a))) g0 ts"

text \<open>The calls recorded for the batches of a group that starts after batch \<open>i\<close>.\<close>

definition batch_events :: "nat \<Rightarrow> scalar_tensor list \<Rightarrow> event list" where
  "batch_events i ts =
     concat (map2 (\<lambda>j t. [Criterion j t, Backward]) [i + 1..<i + 1 + length ts] ts)"

fun spec_chunks ::
  "('m \<Rightarrow> 'b \<Rightarrow> scalar_tensor) \<Rightarrow> ('o \<Rightarrow> 'm \<Rightarrow> grads \<Rightarrow> 'o \<times> 'm) \<Rightarrow> int \<Rightarrow> nat \<Rightarrow> 'b list list
     \<Rightarrow> ('m, 'o) train_state \<times> rat \<Rightarrow> ('m, 'o) train_state \<times> rat" where
  "spec_chunks L upd a i [] acc = acc"
| "spec_chunks L upd a i (c # cs) (st, tot) =
     (let ts = map (L (ts_model st)) c;
          g = scaled_grad_sum a (map (\<lambda>_. None) (ts_grads st)) ts;
          (opt', model') = upd (ts_optimizer st) (ts_model st) g;
          st' = st\<lparr>ts_model := model', ts_optimizer := opt', ts_grads := map (\<lambda>_. None) g,
                   ts_trace := ts_trace st @ batch_events i ts @ [OptimizerStep g, ZeroGrad]\<rparr>
      in spec_chunks L upd a (i + length c) cs (st', tot + sum_list (map item ts)))"

text \<open>The condition under which the source steps after the batch with 1-based index \<open>q\<close>.\<close>

definition step_due :: "int \<Rightarrow> nat \<Rightarrow> nat \<Rightarrow> bool" where
  "step_due a n q = (int q mod a = 0 \<or> q = n)"

text \<open>The state after the batches \<open>p\<close> have been processed without any optimizer step.\<close>

definition acc_state ::
  "('m \<Rightarrow> 'b \<Rightarrow> scalar_tensor) \<Rightarrow> int \<Rightarrow> nat \<Rightarrow> 'b list \<Rightarrow> ('m, 'o) train_state \<times> rat
     \<Rightarrow> ('m, 'o) train_state \<times> rat" where
  "acc_state L a j p acc =
     (let st = fst acc; ts = map (L (ts_model st)) p
      in (st\<lparr>ts_grads := scaled_grad_sum a (ts_grads st) ts,
              ts_trace := ts_trace st @ batch_events j ts\<rparr>,
          snd acc + sum_list (map item ts)))"

text \<open>
  The kind of a recorded call, and the sequence of calls that the specification fixes
  for an epoch over \<open>n\<close> batches: for every batch the criterion and the backward pass,
  followed by a step and a zeroing exactly when the index is a multiple of \<open>a\<close> or the
  last one.
\<close>

datatype call = CriterionCall nat | BackwardCall | StepCall | ZeroGradCall

fun call_of :: "event \<Rightarrow> call" where
  "call_of (Criterion i t) = CriterionCall i"
| "call_of Backward = BackwardCall"
| "call_of (OptimizerStep g) = StepCall"
| "call_of ZeroGrad = ZeroGradCall"

definition schedule :: "int \<Rightarrow> nat \<Rightarrow> call list" where
  "schedule a n =
     concat (map (\<lambda>i. [CriterionCall i, BackwardCall] @
                       (if int i mod a = 0 \<or> i = n then [StepCall, ZeroGradCall] else []))
               [1..<n + 1])"

text \<open>The gradients that the optimizer steps of a trace applied, in order.\<close>

fun applied_grads :: "event list \<Rightarrow> grads list" where
  "applied_grads [] = []"
| "applied_grads (OptimizerStep g # es) = g # applied_grads es"
| "applied_grads (e # es) = applied_grads es"

text \<open>The unscaled losses that the criterion returned, in order.\<close>

fun criterion_values :: "event list \<Rightarrow> rat list" where
  "criterion_values [] = []"
| "criterion_values (Criterion i t # es) = item t # criterion_values es"
| "criterion_values (e # es) = criterion_values es"

text \<open>
  The groups of a trace: for every optimizer step, the losses that the criterion
  returned since the step before it (since the start for the first step), paired with
  the gradients that the step applied. \<open>p\<close> holds the losses seen since the last step;
  \<open>pending\<close> is what is left of them at the end of the trace.
\<close>

fun step_groups :: "scalar_tensor list \<Rightarrow> event list \<Rightarrow> (scalar_tensor list \<times> grads) list" where
  "step_groups p [] = []"
| "step_groups p (Criterion i t # es) = step_groups (p @ [t]) es"
| "step_groups p (OptimizerStep g # es) = (p, g) # step_groups [] es"
| "step_groups p (Backward # es) = step_groups p es"
| "step_groups p (ZeroGrad # es) = step_groups p es"

fun pending :: "scalar_tensor list \<Rightarrow> event list \<Rightarrow> scalar_tensor list" where
  "pending p [] = p"
| "pending p (Criterion i t # es) = pending (p @ [t]) es"
| "pending p (OptimizerStep g # es) = pending [] es"
| "pending p (Backward # es) = pending p es"
| "pending p (ZeroGrad # es) = pending p es"

text \<open>
  What the specification says of the groups: no group is empty, and the gradients that
  a step applies are the scaled gradients of the losses of its group, accumulated from
  gradients that are all \<open>None\<close>: as many of them as the parameters held gradients
  when the group began, which are \<open>prev\<close>, the gradients applied by the step before
  or those that \<open>train_model\<close> was called with.
\<close>

fun accumulated :: "int \<Rightarrow> grads \<Rightarrow> (scalar_tensor list \<times> grads) list \<Rightarrow> bool" where
  "accumulated a prev [] = True"
| "accumulated a prev ((ts, g) # rest) =
     (ts \<noteq> [] \<and> g = scaled_grad_sum a (map (\<lambda>_. None) prev) ts \<and> accumulated a g rest)"

text \<open>The gradients applied by the last step of the groups, \<open>prev\<close> when there is none.\<close>

definition last_applied :: "grads \<Rightarrow> (scalar_tensor list \<times> grads) list \<Rightarrow> grads" where
  "last_applied prev gs = (if gs = [] then prev else snd (last gs))"

fun spec_epochs ::
  "('m \<Rightarrow> 'b \<Rightarrow> scalar_tensor) \<Rightarrow> ('o \<Rightarrow> 'm \<Rightarrow> grads \<Rightarrow> 'o \<times> 'm) \<Rightarrow> int \<Rightarrow> 'b list \<Rightarrow> nat
     \<Rightarrow> ('m, 'o) train_state \<times> rat list \<Rightarrow> ('m, 'o) train_state \<times> rat list" where
  "spec_epochs L upd a dl 0 acc = acc"
| "spec_epochs L upd a dl (Suc k) (st, printed) =
     (let (st', tot) = spec_chunks L upd a 0 (chunks (nat a) dl) (st, 0)
      in spec_epochs L upd a dl k (st', printed @ [tot / of_nat (length dl)]))"

definition spec_train ::
  "('m \<Rightarrow> 'b \<Rightarrow> scalar_tensor) \<Rightarrow> ('o \<Rightarrow> 'm \<Rightarrow> grads \<Rightarrow> 'o \<times> 'm) \<Rightarrow> 'm \<Rightarrow> 'b list \<Rightarrow> 'o \<Rightarrow> grads
     \<Rightarrow> nat \<Rightarrow> int \<Rightarrow> ('m, 'o) train_state \<times> rat list" where
  "spec_train L upd model dl opt g0 num_epochs a =
     spec_epochs L upd a dl num_epochs
       (\<lparr>ts_model = model, ts_optimizer = opt, ts_grads = map (\<lambda>_. None) g0,
         ts_trace = [ZeroGrad]\<rparr>, [])"

section \<open>Example instances\<close>

text \<open>
  A small classifier on which the theorems below are instantiated: one input channel,
  one convolution channel, one hidden unit, two classes, over an encoder that yields
  five hidden states.
\<close>

definition example_rng :: initializer where
  "example_rng =
     \<lparr>init_conv_w = (\<lambda>_ _ _. 1), init_conv_b = (\<lambda>_. 0),
      init_lstm_wih = (\<lambda>_ _. 1), init_lstm_whh = (\<lambda>_ _. 0),
      init_lstm_bih = (\<lambda>_. 0), init_lstm_bhh = (\<lambda>_. 0),
      init_fc_w = (\<lambda>r _. of_nat r + 1), init_fc_b = (\<lambda>_. 0)\<rparr>"

definition example_encoder :: Encoder where
  "example_encoder =
     \<lparr>enc_training = False, enc_params = [1],
      enc_apply = (\<lambda>w tr ids mask.
        map (\<lambda>l. map (map (\<lambda>tok. [of_int tok * l + sum_list w])) ids) [0, 1, 2, 3, 4])\<rparr>"

definition example_act :: activation where
  "example_act = \<lparr>sigmoid = (\<lambda>x. 1), tanh_act = (\<lambda>x. x)\<rparr>"

definition example_classifier :: CNNLSTMClassifier where
  "example_classifier = CNNLSTMClassifier_init example_rng ''tinybert'' example_encoder 1 1 1 2"

text \<open>
  A framework with one weight \<open>m\<close>, the loss \<open>m * b\<close> on a batch \<open>b\<close>, and an optimizer
  that subtracts the gradient from the weight.
\<close>

definition example_loss :: "rat \<Rightarrow> rat \<Rightarrow> scalar_tensor" where
  "example_loss m b = \<lparr>item = m * b, grad_wrt = [Some [b]]\<rparr>"

definition example_framework :: "(rat, rat, unit) framework" where
  "example_framework =
     \<lparr>loss_of = (\<lambda>m b. Inr (example_loss m b)),
      opt_update = (\<lambda>opt m gs. (opt, case gs of [Some [g]] \<Rightarrow> m - g | _ \<Rightarrow> m))\<rparr>"

text \<open>
  Derivatives that are constant, an optimizer rule that moves the weights of the encoder
  against the gradient and leaves the head as it is, and a batch of two examples.
\<close>

definition example_autograd :: autograd where
  "example_autograd = \<lparr>criterion = (\<lambda>outputs labels. 1), derivative = (\<lambda>self b p. [1])\<rparr>"

definition example_rule :: "unit optim_rule" where
  "example_rule =
     \<lparr>rule_encoder = (\<lambda>rate s g w. map2 (\<lambda>wi gi. wi - rate * gi) w g),
      rule_cnn = (\<lambda>rate s g l. l), rule_lstm = (\<lambda>rate s g l. l), rule_fc = (\<lambda>rate s g l. l),
      rule_state = (\<lambda>s gs. s)\<rparr>"

definition example_batch :: batch where
  "example_batch = \<lparr>b_input_ids = [[1, 2], [3, 4]], b_attention_mask = [[1, 1], [1, 1]],
                     b_labels = [0, 1]\<rparr>"

text \<open>
  A criterion that adds up the logits of the labelled classes, with constant
  derivatives; and the run of \<open>train_model\<close> on the example classifier in training mode
  over three copies of the example batch, with one epoch and \<open>accumulation_steps = 2\<close>.
\<close>

definition example_criterion :: autograd where
  "example_criterion =
     \<lparr>criterion = (\<lambda>outputs labels. sum_list (map2 (\<lambda>row l. row ! nat l) outputs labels)),
      derivative = (\<lambda>self b p. [1])\<rparr>"

abbreviation example_run ::
  "py_error + ((CNNLSTMClassifier, unit AdamW) train_state \<times> rat list)" where
  "example_run \<equiv>
     train_model (classifier_framework example_act example_criterion example_rule)
       (Module_train True example_classifier) [example_batch, example_batch, example_batch]
       (AdamW_init (parameters (Module_train True example_classifier)) (1 / 2) ())
       (map (\<lambda>_. None) (parameters (Module_train True example_classifier))) 1 2"

text \<open>A batch whose second example has negative logits under the example classifier.\<close>

definition example_test_batch :: batch where
  "example_test_batch = \<lparr>b_input_ids = [[1, 2], [- 3, - 4]], b_attention_mask = [[1, 1], [1, 1]],
                          b_labels = [1, 0]\<rparr>"

text \<open>
  An environment for the notebook: encoders with one weight that yield thirteen hidden
  states of the width of their model, the example initial weights, activations,
  derivatives and optimizer rule, and a sampler that keeps the order. The files hold
  two tokenized examples with their labels for every split.
\<close>

definition example_hidden :: "nat \<Rightarrow> vec \<Rightarrow> int list list \<Rightarrow> tensor3 list" where
  "example_hidden c w ids =
     replicate 13 (map (map (\<lambda>tok. replicate c (of_int tok * sum_list w))) ids)"

definition example_pretrained :: "string \<Rightarrow> Encoder" where
  "example_pretrained hub =
     \<lparr>enc_training = False, enc_params = [1],
      enc_apply = (\<lambda>w tr ids mask.
        example_hidden (if hub = ''distilbert-base-uncased'' then 768
                        else if hub = ''huawei-noah/TinyBERT_General_4L_312D'' then 312
                        else 256) w ids)\<rparr>"

definition example_env :: "unit torch_env" where
  "example_env =
     \<lparr>env_act = example_act, env_autograd = example_autograd, env_rule = example_rule,
      env_opt_state = (), env_pretrained = example_pretrained, env_rng = (\<lambda>name. example_rng),
      env_shuffle = sequential_sampler\<rparr>"

definition example_inputs :: "string \<rightharpoonup> int list list" where
  "example_inputs =
     [''input_ids'' \<mapsto> [[101, 7, 102], [101, 9, 102]],
      ''attention_mask'' \<mapsto> [[1, 1, 1], [1, 1, 1]]]"

definition example_files :: files where
  "example_files =
     [''cleaned_dataset.csv'' \<mapsto> CsvTable,
      ''cleaned_dev_dataset.csv'' \<mapsto> CsvTable,
      ''intermediates/DB_inputs.pt'' \<mapsto> TokenizedInputs example_inputs,
      ''intermediates/DB_dev_inputs.pt'' \<mapsto> TokenizedInputs example_inputs,
      ''intermediates/DB_test_inputs.pt'' \<mapsto> TokenizedInputs example_inputs,
      ''intermediates/TB_inputs.pt'' \<mapsto> TokenizedInputs example_inputs,
      ''intermediates/TB_dev_inputs.pt'' \<mapsto> TokenizedInputs example_inputs,
      ''intermediates/TB_test_inputs.pt'' \<mapsto> TokenizedInputs example_inputs,
      ''intermediates/EL_inputs.pt'' \<mapsto> TokenizedInputs example_inputs,
      ''intermediates/EL_dev_inputs.pt'' \<mapsto> TokenizedInputs example_inputs,
      ''intermediates/EL_test_inputs.pt'' \<mapsto> TokenizedInputs example_inputs,
      ''intermediates/labels.pt'' \<mapsto> LabelTensor [0, 1],
      ''intermediates/labels_dev.pt'' \<mapsto> LabelTensor [0, 1],
      ''intermediates/labels_test.pt'' \<mapsto> LabelTensor [0, 1]]"

definition example_item :: batch where
  "example_item =
     \<lparr>b_input_ids = [[101, 7, 102], [101, 9, 102]],
      b_attention_mask = [[1, 1, 1], [1, 1, 1]], b_labels = [0, 1]\<rparr>"

section \<open>Properties of CustomDataset\<close>

text \<open>
  Claim C10, as amended. A dataset built from \<open>inp\<close> and \<open>lab\<close> has the length of
  \<open>inp['input_ids']\<close>. For an index \<open>0 \<le> idx < len\<close>, \<open>__getitem__\<close> returns a
  dictionary with exactly the keys \<open>input_ids\<close>, \<open>attention_mask\<close> and \<open>labels\<close>,
  bound to \<open>inp['input_ids'][idx]\<close>, \<open>inp['attention_mask'][idx]\<close> and \<open>lab[idx]\<close>,
  provided that \<open>inp\<close> has the key \<open>attention_mask\<close> and that the mask and the labels
  have more than \<open>idx\<close> entries. The length of the dataset is taken from the token ids
  alone, so an index within it does not suffice: see the counterexample below.
\<close>

theorem CustomDataset_len_getitem:
  assumes "inp ''input_ids'' = Some ids"
  shows "CustomDataset_len (CustomDataset_init inp lab) = Inr (length ids) \<and>
    (0 \<le> idx \<and> idx < int (length ids) \<and> inp ''attention_mask'' = Some am
        \<and> nat idx < length am \<and> nat idx < length lab \<longrightarrow>
      (\<exists>d. CustomDataset_getitem (CustomDataset_init inp lab) idx = Inr d
         \<and> dom d = {''input_ids'', ''attention_mask'', ''labels''}
         \<and> d ''input_ids'' = Some (Row (ids ! nat idx))
         \<and> d ''attention_mask'' = Some (Row (am ! nat idx))
         \<and> d ''labels'' = Some (Scalar (lab ! nat idx))))"
  using assms
  by (auto simp: CustomDataset_len_def CustomDataset_getitem_def CustomDataset_init_def
      bind_err_def py_getitem_def py_index_def Let_def)

theorem CustomDataset_len_getitem_witness:
  "CustomDataset_len (CustomDataset_init
       [''input_ids'' \<mapsto> [[101, 7, 102], [101, 9, 102]],
        ''attention_mask'' \<mapsto> [[1, 1, 1], [1, 1, 0]]] [0, 1]) = Inr 2 \<and>
   (\<exists>d. CustomDataset_getitem (CustomDataset_init
       [''input_ids'' \<mapsto> [[101, 7, 102], [101, 9, 102]],
        ''attention_mask'' \<mapsto> [[1, 1, 1], [1, 1, 0]]] [0, 1]) 1 = Inr d
      \<and> dom d = {''input_ids'', ''attention_mask'', ''labels''}
      \<and> d ''input_ids'' = Some (Row [101, 9, 102])
      \<and> d ''attention_mask'' = Some (Row [1, 1, 0])
      \<and> d ''labels'' = Some (Scalar 1))"
  using CustomDataset_len_getitem [of
       "[''input_ids'' \<mapsto> [[101, 7, 102], [101, 9, 102]],
        ''attention_mask'' \<mapsto> [[1, 1, 1], [1, 1, 0]]]" "[[101, 7, 102], [101, 9, 102]]"
       "[0, 1]" 1 "[[1, 1, 1], [1, 1, 0]]"]
  by simp

text \<open>
  Claim C10 as worded does not hold. With two rows of token ids and a single label the
  dataset has length 2, the index 1 lies within it, and \<open>__getitem__\<close> raises
  \<^verbatim>\<open>IndexError\<close> at \<^verbatim>\<open>self.labels[idx]\<close> instead of returning a dictionary.
\<close>

theorem CustomDataset_getitem_counterexample:
  "CustomDataset_len (CustomDataset_init
       [''input_ids'' \<mapsto> [[101, 7, 102], [101, 9, 102]],
        ''attention_mask'' \<mapsto> [[1, 1, 1], [1, 1, 0]]] [0]) = Inr 2 \<and>
   CustomDataset_getitem (CustomDataset_init
       [''input_ids'' \<mapsto> [[101, 7, 102], [101, 9, 102]],
        ''attention_mask'' \<mapsto> [[1, 1, 1], [1, 1, 0]]] [0]) 1 = Inl IndexError"
  by (simp add: CustomDataset_len_def CustomDataset_getitem_def CustomDataset_init_def
      bind_err_def py_getitem_def py_index_def)

section \<open>Properties of sum_model_layers\<close>

subsection \<open>Adding tensors of one shape\<close>

lemma map2_rows_length:
  "map length b = map length a \<Longrightarrow> map length (map2 (map2 f) a b) = map length a"
proof (induction a arbitrary: b)
  case Nil then show ?case by simp
next
  case (Cons r a)
  then obtain r' b' where "b = r' # b'" by (cases b) auto
  with Cons show ?case by simp
qed

lemma shape_sig_tensor_add:
  "shape_sig y = shape_sig x \<Longrightarrow> shape_sig (tensor_add x y) = shape_sig x"
  unfolding shape_sig_def tensor_add_def
proof (induction x arbitrary: y)
  case Nil then show ?case by simp
next
  case (Cons a x)
  then obtain b y' where y: "y = b # y'" by (cases y) auto
  have "map length (map2 (map2 (+)) a b) = map length a"
    using Cons.prems y by (intro map2_rows_length) simp
  moreover have "map (map length) (map2 (map2 (map2 (+))) x y') = map (map length) x"
    using Cons.prems y by (intro Cons.IH) simp
  ultimately show ?case using y by simp
qed

lemma tensor_add_nth:
  assumes "shape_sig y = shape_sig x" "i < length x" "j < length (x ! i)" "e < length (x ! i ! j)"
  shows "tensor_add x y ! i ! j ! e = x ! i ! j ! e + y ! i ! j ! e"
proof -
  from assms(1) have l: "length y = length x" unfolding shape_sig_def by (metis length_map)
  from assms(1,2) l have l2: "map length (y ! i) = map length (x ! i)"
    unfolding shape_sig_def by (metis nth_map)
  then have l3: "length (y ! i) = length (x ! i)" by (metis length_map)
  from l2 assms(3) l3 have l4: "length (y ! i ! j) = length (x ! i ! j)" by (metis nth_map)
  show ?thesis using assms l l3 l4 by (simp add: tensor_add_def)
qed

lemma foldl_tensor_add:
  assumes "\<forall>u\<in>set ts. shape_sig u = shape_sig t"
  shows "shape_sig (foldl tensor_add t ts) = shape_sig t \<and>
         (i < length t \<longrightarrow> j < length (t ! i) \<longrightarrow> e < length (t ! i ! j) \<longrightarrow>
            foldl tensor_add t ts ! i ! j ! e = t ! i ! j ! e + (\<Sum>u\<leftarrow>ts. u ! i ! j ! e))"
  using assms
proof (induction ts arbitrary: t)
  case Nil then show ?case by simp
next
  case (Cons u ts)
  have su: "shape_sig u = shape_sig t" using Cons.prems by simp
  have st: "shape_sig (tensor_add t u) = shape_sig t" by (rule shape_sig_tensor_add [OF su])
  have all: "\<forall>v\<in>set ts. shape_sig v = shape_sig (tensor_add t u)" using Cons.prems st by simp
  note IH = Cons.IH [OF all]
  have len: "length (tensor_add t u) = length t" using st unfolding shape_sig_def by (metis length_map)
  show ?case
  proof (intro conjI impI)
    show "shape_sig (foldl tensor_add t (u # ts)) = shape_sig t" using IH st by simp
  next
    assume a: "i < length t" "j < length (t ! i)" "e < length (t ! i ! j)"
    have r: "map length (tensor_add t u ! i) = map length (t ! i)"
      using st a(1) len unfolding shape_sig_def by (metis nth_map)
    then have l2: "length (tensor_add t u ! i) = length (t ! i)" by (metis length_map)
    from r a(2) l2 have l3: "length (tensor_add t u ! i ! j) = length (t ! i ! j)" by (metis nth_map)
    have "foldl tensor_add t (u # ts) ! i ! j ! e
            = tensor_add t u ! i ! j ! e + (\<Sum>v\<leftarrow>ts. v ! i ! j ! e)"
      using IH a len l2 l3 by simp
    also have "tensor_add t u ! i ! j ! e = t ! i ! j ! e + u ! i ! j ! e"
      by (rule tensor_add_nth [OF su a])
    finally show "foldl tensor_add t (u # ts) ! i ! j ! e = t ! i ! j ! e + (\<Sum>v\<leftarrow>(u # ts). v ! i ! j ! e)"
      by simp
  qed
qed

lemma sum_dim0_spec:
  assumes "ts \<noteq> []" "\<forall>u\<in>set ts. has_shape b s c u"
  shows "has_shape b s c (sum_dim0 ts) \<and>
         (i < b \<longrightarrow> j < s \<longrightarrow> e < c \<longrightarrow> sum_dim0 ts ! i ! j ! e = (\<Sum>u\<leftarrow>ts. u ! i ! j ! e))"
proof -
  from assms(1) obtain t rest where ts: "ts = t # rest" by (cases ts) auto
  have ht: "has_shape b s c t" using assms(2) ts by simp
  have all: "\<forall>u\<in>set rest. shape_sig u = shape_sig t" using assms(2) ts by (simp add: has_shape_def)
  have lt: "length t = b" using ht unfolding has_shape_def shape_sig_def by (metis length_map length_replicate)
  have li: "i < b \<Longrightarrow> length (t ! i) = s"
    using ht lt unfolding has_shape_def shape_sig_def by (metis length_map length_replicate nth_map nth_replicate)
  have lj: "i < b \<Longrightarrow> j < s \<Longrightarrow> length (t ! i ! j) = c"
    using ht lt li unfolding has_shape_def shape_sig_def by (metis nth_map nth_replicate)
  show ?thesis using foldl_tensor_add [OF all, of i j e] ht lt li lj ts
    by (auto simp: has_shape_def)
qed

lemma torch_stack_ok:
  "ts \<noteq> [] \<Longrightarrow> \<forall>u\<in>set ts. shape_sig u = sg \<Longrightarrow> torch_stack ts = Inr ts"
  by (cases ts) (auto simp: torch_stack_def list_all_iff)

lemma sum_list_drop_nth:
  fixes f :: "'a \<Rightarrow> rat"
  shows "k \<le> length xs \<Longrightarrow> (\<Sum>x\<leftarrow>drop (length xs - k) xs. f x) = (\<Sum>l<k. f (xs ! (length xs - k + l)))"
proof -
  assume k: "k \<le> length xs"
  have "(\<Sum>x\<leftarrow>drop (length xs - k) xs. f x) = (\<Sum>l = 0..<length (drop (length xs - k) xs). f (drop (length xs - k) xs ! l))"
    by (simp add: sum_list_sum_nth)
  also have "\<dots> = (\<Sum>l<k. f (xs ! (length xs - k + l)))"
    using k by (intro sum.cong) auto
  finally show ?thesis .
qed

lemma torch_stack_not_ValueError: "torch_stack ts \<noteq> Inl (ValueError msg)"
  by (simp add: torch_stack_def split: list.splits)

lemma sum_model_layers_value:
  assumes nk: "(name, k) \<in> {(''distilbert'', 6), (''tinybert'', 4), (''electra'', 12)}"
    and k: "k \<le> length hs"
    and sh: "\<forall>h\<in>set hs. has_shape b s c h"
  shows "\<exists>t. sum_model_layers name hs = Inr t \<and> has_shape b s c t \<and>
           (\<forall>i<b. \<forall>j<s. \<forall>e<c. t ! i ! j ! e = (\<Sum>l<k. hs ! (length hs - k + l) ! i ! j ! e))"
proof -
  let ?ts = "drop (length hs - k) hs"
  have k0: "0 < k" using nk by auto
  have sl: "py_slice_last k hs = ?ts" using k0 by (simp add: py_slice_last_def)
  have ne: "?ts \<noteq> []" using k k0 by simp
  have all: "\<forall>u\<in>set ?ts. has_shape b s c u" using sh by (auto dest: in_set_dropD)
  then have "\<forall>u\<in>set ?ts. shape_sig u = replicate b (replicate s c)" by (simp add: has_shape_def)
  with ne have st: "torch_stack ?ts = Inr ?ts" by (rule torch_stack_ok)
  from nk consider "name = ''distilbert''" "k = 6" | "name = ''tinybert''" "k = 4"
    | "name = ''electra''" "k = 12" by auto
  then have eq: "sum_model_layers name hs = Inr (sum_dim0 ?ts)"
  proof cases
    case 1
    with sl st show ?thesis by (simp add: sum_model_layers_def bind_err_def)
  next
    case 2
    with sl st show ?thesis by (simp add: sum_model_layers_def bind_err_def)
  next
    case 3
    with sl st show ?thesis by (simp add: sum_model_layers_def bind_err_def)
  qed
  have "has_shape b s c (sum_dim0 ?ts)" using sum_dim0_spec [OF ne all] by simp
  moreover have "\<forall>i<b. \<forall>j<s. \<forall>e<c. sum_dim0 ?ts ! i ! j ! e = (\<Sum>l<k. hs ! (length hs - k + l) ! i ! j ! e)"
  proof (intro allI impI)
    fix i j e assume a: "i < b" "j < s" "e < c"
    have "sum_dim0 ?ts ! i ! j ! e = (\<Sum>u\<leftarrow>?ts. u ! i ! j ! e)"
      using sum_dim0_spec [OF ne all, of i j e] a by simp
    also have "\<dots> = (\<Sum>l<k. hs ! (length hs - k + l) ! i ! j ! e)"
      by (rule sum_list_drop_nth [OF k])
    finally show "sum_dim0 ?ts ! i ! j ! e = (\<Sum>l<k. hs ! (length hs - k + l) ! i ! j ! e)" .
  qed
  ultimately show ?thesis using eq by blast
qed

text \<open>
  Claim C5, as amended. \<open>sum_model_layers\<close> raises \<^verbatim>\<open>ValueError\<close> exactly when the name
  is none of \<open>distilbert\<close>, \<open>tinybert\<close>, \<open>electra\<close>; for each of the three names it returns
  normally whenever the hidden states are a non-empty sequence of tensors of one shape.
\<close>

theorem sum_model_layers_raises:
  "((\<exists>msg. sum_model_layers name hs = Inl (ValueError msg))
       \<longleftrightarrow> name \<notin> {''distilbert'', ''tinybert'', ''electra''}) \<and>
   (name \<in> {''distilbert'', ''tinybert'', ''electra''} \<longrightarrow> hs \<noteq> [] \<longrightarrow>
      (\<forall>h\<in>set hs. shape_sig h = shape_sig (hd hs)) \<longrightarrow>
      (\<exists>t. sum_model_layers name hs = Inr t))"
proof (intro conjI impI)
  show "(\<exists>msg. sum_model_layers name hs = Inl (ValueError msg))
       \<longleftrightarrow> name \<notin> {''distilbert'', ''tinybert'', ''electra''}"
  proof (cases "name \<in> {''distilbert'', ''tinybert'', ''electra''}")
    case True
    have "\<And>k msg. bind_err (torch_stack (py_slice_last k hs)) (\<lambda>st. Inr (sum_dim0 st)) \<noteq> Inl (ValueError msg)"
      using torch_stack_not_ValueError by (auto simp: bind_err_def split: sum.splits)
    with True show ?thesis by (auto simp: sum_model_layers_def)
  next
    case False
    then show ?thesis by (simp add: sum_model_layers_def)
  qed
next
  assume n: "name \<in> {''distilbert'', ''tinybert'', ''electra''}" and ne: "hs \<noteq> []"
    and sh: "\<forall>h\<in>set hs. shape_sig h = shape_sig (hd hs)"
  have "\<And>k. torch_stack (py_slice_last k hs) = Inr (py_slice_last k hs)"
  proof -
    fix k
    have "py_slice_last k hs \<noteq> []" using ne by (cases hs) (auto simp: py_slice_last_def)
    moreover have "\<forall>u\<in>set (py_slice_last k hs). shape_sig u = shape_sig (hd hs)"
      using sh by (auto simp: py_slice_last_def dest: in_set_dropD)
    ultimately show "torch_stack (py_slice_last k hs) = Inr (py_slice_last k hs)"
      by (rule torch_stack_ok)
  qed
  then show "\<exists>t. sum_model_layers name hs = Inr t"
    using n by (auto simp: sum_model_layers_def bind_err_def)
qed

theorem sum_model_layers_raises_witness:
  "''tinybert'' \<in> {''distilbert'', ''tinybert'', ''electra''} \<and>
   [[[[1, 2]]], [[[3, 4 :: rat]]]] \<noteq> [] \<and>
   list_all (\<lambda>h. shape_sig h = shape_sig (hd [[[[1, 2]]], [[[3, 4]]]])) [[[[1, 2]]], [[[3, 4 :: rat]]]] \<and>
   (\<exists>t. sum_model_layers ''tinybert'' [[[[1, 2]]], [[[3, 4]]]] = Inr t)"
  using sum_model_layers_raises [of "''tinybert''" "[[[[1, 2]]], [[[3, 4]]]]"]
  by (simp add: shape_sig_def)


text \<open>
  Counterexample to claim C5 as stated: for a supported name and the empty tuple of
  hidden states the call does not return; \<^verbatim>\<open>torch.stack\<close> raises \<^verbatim>\<open>RuntimeError\<close>.
\<close>

theorem sum_model_layers_empty_counterexample:
  "sum_model_layers ''distilbert'' [] = Inl (RuntimeError ''stack expects a non-empty TensorList'')"
  by (simp add: sum_model_layers_def py_slice_last_def torch_stack_def bind_err_def)


section \<open>Properties of the classifier\<close>

subsection \<open>Shapes through the layers\<close>

lemma map_err_Inr:
  "(\<And>x. x \<in> set xs \<Longrightarrow> f x = Inr (g x)) \<Longrightarrow> map_err f xs = Inr (map g xs)"
  by (induction xs) auto

lemma has_shape_length: "has_shape b s c t \<Longrightarrow> length t = b"
  unfolding has_shape_def shape_sig_def by (metis length_map length_replicate)

lemma has_shape_rows:
  assumes "has_shape b s c t" "m \<in> set t"
  shows "length m = s \<and> (\<forall>r\<in>set m. length r = c)"
proof -
  from assms(2) obtain i where i: "i < length t" "t ! i = m" by (auto simp: in_set_conv_nth)
  have lt: "length t = b" by (rule has_shape_length [OF assms(1)])
  have "map length m = replicate s c"
    using assms(1) i lt unfolding has_shape_def shape_sig_def by (metis nth_map nth_replicate)
  then show ?thesis
    by (metis length_map length_replicate in_set_conv_nth nth_map nth_replicate)
qed

lemma has_shapeI:
  assumes "length t = b" "\<And>m. m \<in> set t \<Longrightarrow> length m = s \<and> (\<forall>r\<in>set m. length r = c)"
  shows "has_shape b s c t"
proof -
  have "\<And>m. m \<in> set t \<Longrightarrow> map length m = replicate s c"
  proof -
    fix m assume "m \<in> set t"
    then have "length m = s" "\<forall>r\<in>set m. length r = c" using assms(2) by auto
    then show "map length m = replicate s c"
      by (intro nth_equalityI) auto
  qed
  then show ?thesis unfolding has_shape_def shape_sig_def
    using assms(1) by (intro nth_equalityI) auto
qed

lemma transpose_rect:
  assumes "length m = s" "\<forall>r\<in>set m. length r = c" "0 < s"
  shows "transpose m = map (\<lambda>e. map (\<lambda>j. m ! j ! e) [0..<s]) [0..<c]"
  using transpose_rectangle [of m c] assms by auto

lemma permute_has_shape:
  assumes "has_shape b s c t" "0 < s"
  shows "has_shape b c s (permute_0_2_1 t)"
proof (rule has_shapeI)
  show "length (permute_0_2_1 t) = b" using has_shape_length [OF assms(1)] by (simp add: permute_0_2_1_def)
next
  fix m' assume "m' \<in> set (permute_0_2_1 t)"
  then obtain m where m: "m \<in> set t" "m' = transpose m" by (auto simp: permute_0_2_1_def)
  from has_shape_rows [OF assms(1) m(1)] have "length m = s" "\<forall>r\<in>set m. length r = c" by auto
  from transpose_rect [OF this assms(2)] m(2)
  show "length m' = c \<and> (\<forall>r\<in>set m'. length r = s)" by auto
qed

lemma permute_nth:
  assumes "has_shape b s c t" "0 < s" "i < b" "e < c" "j < s"
  shows "permute_0_2_1 t ! i ! e ! j = t ! i ! j ! e"
proof -
  have lt: "length t = b" by (rule has_shape_length [OF assms(1)])
  then have "t ! i \<in> set t" using assms(3) by simp
  from has_shape_rows [OF assms(1) this] have "length (t ! i) = s" "\<forall>r\<in>set (t ! i). length r = c" by auto
  from transpose_rect [OF this assms(2)] show ?thesis
    using assms lt by (simp add: permute_0_2_1_def)
qed

lemma conv1d_example_shape:
  assumes "length x = ic" "0 < ic" "\<forall>r\<in>set x. length r = s" "0 < s"
  shows "\<exists>y. conv1d_example (Conv1d_init ic oc 3 1 w0 b0) x = Inr y \<and> length y = oc
            \<and> (\<forall>r\<in>set y. length r = s)"
proof -
  from assms(1,2) obtain r rest where x: "x = r # rest" by (cases x) auto
  then have lr: "length r = s" using assms(3) by simp
  let ?cv = "Conv1d_init ic oc 3 1 w0 b0"
  let ?y = "map2 (\<lambda>w_out b_out.
                    map (\<lambda>t. b_out + sum_list (map2 (\<lambda>w_c row.
                                 dot w_c (take (kernel_size ?cv) (drop t row))) w_out
                                 (map (pad_row (padding ?cv)) x)))
                      [0..<(s + 2) + 1 - kernel_size ?cv])
                  (conv_weight ?cv) (conv_bias ?cv)"
  have "conv1d_example ?cv x = Inr ?y"
    using assms(1,4) x lr by (simp add: conv1d_example_def Conv1d_init_def Let_def)
  moreover have "length ?y = oc" by (simp add: Conv1d_init_def)
  moreover have "\<forall>r\<in>set ?y. length r = s"
    by (auto simp: Conv1d_init_def set_zip)
  ultimately show ?thesis by blast
qed

lemma lstm_cell_lengths:
  assumes "length (snd hc) = n"
  shows "length (fst (lstm_cell act (LSTM_init isz n wi wh bi bh) x hc)) = n
       \<and> length (snd (lstm_cell act (LSTM_init isz n wi wh bi bh) x hc)) = n"
  using assms by (simp add: lstm_cell_def LSTM_init_def Let_def vec_add_def matvec_def)

lemma lstm_steps_shape:
  assumes "length (snd hc) = n"
  shows "length (lstm_steps act (LSTM_init isz n wi wh bi bh) xs hc) = length xs
       \<and> (\<forall>h\<in>set (lstm_steps act (LSTM_init isz n wi wh bi bh) xs hc). length h = n)"
  using assms
proof (induction xs arbitrary: hc)
  case Nil then show ?case by simp
next
  case (Cons x xs)
  from lstm_cell_lengths [OF Cons.prems, of act isz wi wh bi bh x]
  have l: "length (fst (lstm_cell act (LSTM_init isz n wi wh bi bh) x hc)) = n"
          "length (snd (lstm_cell act (LSTM_init isz n wi wh bi bh) x hc)) = n" by auto
  from Cons.IH [OF l(2)] l(1) show ?case by (simp add: Let_def)
qed

lemma lstm_example_shape:
  assumes "x \<noteq> []" "\<forall>r\<in>set x. length r = isz"
  shows "\<exists>y. lstm_example act (LSTM_init isz n wi wh bi bh) x = Inr y \<and> length y = length x
            \<and> (\<forall>h\<in>set y. length h = n)"
proof -
  let ?l = "LSTM_init isz n wi wh bi bh"
  have "lstm_example act ?l x = Inr (lstm_steps act ?l x (replicate n 0, replicate n 0))"
    using assms by (simp add: lstm_example_def list_ex_iff) (simp add: LSTM_init_def)
  then show ?thesis using lstm_steps_shape [of "(replicate n 0, replicate n 0)" n act isz wi wh bi bh x]
    by simp
qed

lemma py_index_last: "m \<noteq> [] \<Longrightarrow> py_index m (- 1) = Inr (last m)"
  by (cases m rule: rev_cases) (auto simp: py_index_def nth_append)

lemma linear_example_shape:
  assumes "length v = i"
  shows "linear_example (Linear_init i out w0 b0) v
           = Inr (vec_add (matvec (lin_weight (Linear_init i out w0 b0)) v) (lin_bias (Linear_init i out w0 b0)))
         \<and> length (vec_add (matvec (lin_weight (Linear_init i out w0 b0)) v) (lin_bias (Linear_init i out w0 b0))) = out"
  using assms by (simp add: linear_example_def Linear_init_def vec_add_def matvec_def)

lemma map_err_all:
  "(\<And>x. x \<in> set xs \<Longrightarrow> \<exists>y. f x = Inr y \<and> P y)
     \<Longrightarrow> \<exists>ys. map_err f xs = Inr ys \<and> length ys = length xs \<and> (\<forall>y\<in>set ys. P y)"
proof (induction xs)
  case Nil then show ?case by simp
next
  case (Cons x xs)
  from Cons.prems [of x] obtain y where y: "f x = Inr y" "P y" by auto
  from Cons.IH Cons.prems obtain ys where ys: "map_err f xs = Inr ys" "length ys = length xs" "\<forall>y\<in>set ys. P y"
    by auto
  show ?case using y ys by simp
qed

lemma classification_head_shape:
  assumes cnn: "cnn self = Conv1d_init ic oc 3 1 cw cb"
    and lstm: "lstm self = LSTM_init oc hid wi wh bi bh"
    and fc: "fc self = Linear_init hid nc fw fb"
    and emb: "has_shape b ic s emb"
    and pos: "0 < ic" "0 < oc" "0 < s"
  shows "\<exists>cnn_out lstm_out logits.
           conv1d_forward (cnn self) emb = Inr cnn_out \<and> has_shape b oc s cnn_out \<and>
           lstm_forward act (lstm self) (permute_0_2_1 cnn_out) = Inr lstm_out \<and>
           has_shape b s hid lstm_out \<and>
           logits = map (\<lambda>m. vec_add (matvec (lin_weight (fc self)) (last m)) (lin_bias (fc self))) lstm_out \<and>
           classification_head act self ge emb g
             = Inr (logits, record_op ge {FcParams} (record_op ge {LstmParams} (record_op ge {CnnParams} g))) \<and>
           length logits = b \<and> (\<forall>row\<in>set logits. length row = nc)"
proof -
  have lb: "length emb = b" by (rule has_shape_length [OF emb])
  have "\<And>x. x \<in> set emb \<Longrightarrow> \<exists>y. conv1d_example (cnn self) x = Inr y \<and> (length y = oc \<and> (\<forall>r\<in>set y. length r = s))"
  proof -
    fix x assume "x \<in> set emb"
    from has_shape_rows [OF emb this] have "length x = ic" "\<forall>r\<in>set x. length r = s" by auto
    from conv1d_example_shape [OF this(1) pos(1) this(2) pos(3)] show "\<exists>y. conv1d_example (cnn self) x = Inr y \<and> (length y = oc \<and> (\<forall>r\<in>set y. length r = s))"
      unfolding cnn by simp
  qed
  from map_err_all [of emb "conv1d_example (cnn self)" "\<lambda>y. length y = oc \<and> (\<forall>r\<in>set y. length r = s)", OF this]
  obtain cnn_out where co: "conv1d_forward (cnn self) emb = Inr cnn_out" "length cnn_out = b"
      "\<forall>y\<in>set cnn_out. length y = oc \<and> (\<forall>r\<in>set y. length r = s)"
    using lb by (auto simp: conv1d_forward_def)
  have sc: "has_shape b oc s cnn_out" using co(2,3) by (intro has_shapeI) auto
  have sp: "has_shape b s oc (permute_0_2_1 cnn_out)" by (rule permute_has_shape [OF sc pos(2)])
  have "\<And>x. x \<in> set (permute_0_2_1 cnn_out) \<Longrightarrow>
          \<exists>y. lstm_example act (lstm self) x = Inr y \<and> (length y = s \<and> (\<forall>h\<in>set y. length h = hid))"
  proof -
    fix x assume "x \<in> set (permute_0_2_1 cnn_out)"
    from has_shape_rows [OF sp this] have x: "length x = s" "\<forall>r\<in>set x. length r = oc" by auto
    then have "x \<noteq> []" using pos(3) by auto
    from lstm_example_shape [OF this x(2), of act hid wi wh bi bh] x(1)
    show "\<exists>y. lstm_example act (lstm self) x = Inr y \<and> (length y = s \<and> (\<forall>h\<in>set y. length h = hid))"
      unfolding lstm by auto
  qed
  from map_err_all [of "permute_0_2_1 cnn_out" "lstm_example act (lstm self)"
      "\<lambda>y. length y = s \<and> (\<forall>h\<in>set y. length h = hid)", OF this]
  obtain lstm_out where lo: "lstm_forward act (lstm self) (permute_0_2_1 cnn_out) = Inr lstm_out"
      "length lstm_out = b" "\<forall>y\<in>set lstm_out. length y = s \<and> (\<forall>h\<in>set y. length h = hid)"
    using has_shape_length [OF sp] by (auto simp: lstm_forward_def)
  have sl: "has_shape b s hid lstm_out" using lo(2,3) by (intro has_shapeI) auto
  have ne: "\<And>m. m \<in> set lstm_out \<Longrightarrow> m \<noteq> [] \<and> length (last m) = hid"
  proof -
    fix m assume "m \<in> set lstm_out"
    with lo(3) have "length m = s" "\<forall>h\<in>set m. length h = hid" by auto
    with pos(3) show "m \<noteq> [] \<and> length (last m) = hid" by (cases m rule: rev_cases) auto
  qed
  have li: "map_err (\<lambda>m. py_index m (- 1)) lstm_out = Inr (map last lstm_out)"
    using ne by (intro map_err_Inr) (simp add: py_index_last)
  let ?lin = "\<lambda>v. vec_add (matvec (lin_weight (fc self)) v) (lin_bias (fc self))"
  have lin: "\<And>v. v \<in> set (map last lstm_out) \<Longrightarrow> linear_example (fc self) v = Inr (?lin v) \<and> length (?lin v) = nc"
  proof -
    fix v assume "v \<in> set (map last lstm_out)"
    then have "length v = hid" using ne by auto
    from linear_example_shape [OF this, of nc fw fb] show "linear_example (fc self) v = Inr (?lin v) \<and> length (?lin v) = nc"
      unfolding fc by simp
  qed
  have lf: "linear_forward (fc self) (map last lstm_out) = Inr (map ?lin (map last lstm_out))"
    unfolding linear_forward_def using lin by (intro map_err_Inr) simp
  let ?logits = "map (\<lambda>m. ?lin (last m)) lstm_out"
  have head: "classification_head act self ge emb g
             = Inr (?logits, record_op ge {FcParams} (record_op ge {LstmParams} (record_op ge {CnnParams} g)))"
    using co(1) lo(1) li lf by (simp add: classification_head_def bind_err_def Let_def comp_def)
  have "length ?logits = b" using lo(2) by simp
  moreover have "\<forall>row\<in>set ?logits. length row = nc" using lin by auto
  ultimately show ?thesis using co(1) sc lo(1) sl head by blast
qed


lemma sum_model_layers_shape:
  assumes n: "name \<in> {''distilbert'', ''tinybert'', ''electra''}" and ne: "hs \<noteq> []"
    and sh: "\<forall>h\<in>set hs. has_shape b s c h"
  shows "\<exists>t. sum_model_layers name hs = Inr t \<and> has_shape b s c t"
proof -
  have *: "\<And>k. bind_err (torch_stack (py_slice_last k hs)) (\<lambda>st. Inr (sum_dim0 st))
               = Inr (sum_dim0 (py_slice_last k hs)) \<and> has_shape b s c (sum_dim0 (py_slice_last k hs))"
  proof -
    fix k
    have ne': "py_slice_last k hs \<noteq> []" using ne by (cases hs) (auto simp: py_slice_last_def)
    have all: "\<forall>u\<in>set (py_slice_last k hs). has_shape b s c u"
      using sh by (auto simp: py_slice_last_def dest: in_set_dropD)
    then have "\<forall>u\<in>set (py_slice_last k hs). shape_sig u = replicate b (replicate s c)"
      by (simp add: has_shape_def)
    with ne' have "torch_stack (py_slice_last k hs) = Inr (py_slice_last k hs)" by (rule torch_stack_ok)
    then show "bind_err (torch_stack (py_slice_last k hs)) (\<lambda>st. Inr (sum_dim0 st))
               = Inr (sum_dim0 (py_slice_last k hs)) \<and> has_shape b s c (sum_dim0 (py_slice_last k hs))"
      using sum_dim0_spec [OF ne' all] by (simp add: bind_err_def)
  qed
  from n consider "name = ''distilbert''" | "name = ''tinybert''" | "name = ''electra''" by auto
  then show ?thesis
  proof cases
    case 1 with * [of 6] show ?thesis by (simp add: sum_model_layers_def)
  next
    case 2 with * [of 4] show ?thesis by (simp add: sum_model_layers_def)
  next
    case 3 with * [of 12] show ?thesis by (simp add: sum_model_layers_def)
  qed
qed

subsection \<open>The logits\<close>

lemma forward_returns:
  assumes name: "model_name self \<in> {''distilbert'', ''tinybert'', ''electra''}"
    and cnn: "cnn self = Conv1d_init ic oc 3 1 cw cb"
    and lstm: "lstm self = LSTM_init oc hid wi wh bi bh"
    and fc: "fc self = Linear_init hid nc fw fb"
    and hs: "encoder_call (bert self) input_ids attention_mask \<noteq> []"
            "\<forall>h\<in>set (encoder_call (bert self) input_ids attention_mask).
                has_shape (length input_ids) s ic h"
    and pos: "0 < s" "0 < ic" "0 < oc"
  shows "\<exists>logits g emb cnn_out lstm_out.
           forward act self grad_enabled input_ids attention_mask = Inr (logits, g) \<and>
           length logits = length input_ids \<and> (\<forall>row\<in>set logits. length row = nc) \<and>
           embeddings_block self input_ids attention_mask = Inr emb \<and>
           conv1d_forward (cnn self) (fst emb) = Inr cnn_out \<and>
           lstm_forward act (lstm self) (permute_0_2_1 cnn_out) = Inr lstm_out \<and>
           has_shape (length input_ids) s hid lstm_out \<and>
           logits = map (\<lambda>m. vec_add (matvec (lin_weight (fc self)) (last m)) (lin_bias (fc self))) lstm_out"
proof -
  let ?hs = "encoder_call (bert self) input_ids attention_mask"
  let ?b = "length input_ids"
  from sum_model_layers_shape [OF name hs(1) hs(2)]
  obtain t where t: "sum_model_layers (model_name self) ?hs = Inr t" "has_shape ?b s ic t" by blast
  let ?g = "record_op (enc_training (bert self)) {} (record_op (enc_training (bert self)) {EncoderParams} {})"
  have eb: "embeddings_block self input_ids attention_mask = Inr (permute_0_2_1 t, ?g)"
    using t(1) by (simp add: embeddings_block_def bind_err_def Let_def)
  have pe: "has_shape ?b ic s (permute_0_2_1 t)" by (rule permute_has_shape [OF t(2) pos(1)])
  from classification_head_shape [OF cnn lstm fc pe pos(2) pos(3) pos(1), of act grad_enabled ?g]
  obtain cnn_out lstm_out logits where h:
    "conv1d_forward (cnn self) (permute_0_2_1 t) = Inr cnn_out"
    "lstm_forward act (lstm self) (permute_0_2_1 cnn_out) = Inr lstm_out"
    "has_shape ?b s hid lstm_out"
    "logits = map (\<lambda>m. vec_add (matvec (lin_weight (fc self)) (last m)) (lin_bias (fc self))) lstm_out"
    "classification_head act self grad_enabled (permute_0_2_1 t) ?g
       = Inr (logits, record_op grad_enabled {FcParams} (record_op grad_enabled {LstmParams}
                (record_op grad_enabled {CnnParams} ?g)))"
    "length logits = ?b" "\<forall>row\<in>set logits. length row = nc"
    by blast
  have "forward act self grad_enabled input_ids attention_mask
          = Inr (logits, record_op grad_enabled {FcParams} (record_op grad_enabled {LstmParams}
                (record_op grad_enabled {CnnParams} ?g)))"
    using eb h(5) by (simp add: forward_def bind_err_def)
  with eb h show ?thesis by (metis fst_conv)
qed

text \<open>
  Claim C3. For a classifier with a supported name and a head as the constructor builds
  it with two classes, and an encoder that yields hidden states of layout
  (batch, position, \<open>in_channels\<close>) for sequences of at least one token, \<open>forward\<close>
  returns one row of two logits per input sequence, and the logits are the final linear
  layer applied to the last time step of the recurrent layer's output.
\<close>

theorem forward_logits_shape:
  assumes name: "model_name self \<in> {''distilbert'', ''tinybert'', ''electra''}"
    and cnn: "cnn self = Conv1d_init ic oc 3 1 cw cb"
    and lstm: "lstm self = LSTM_init oc hid wi wh bi bh"
    and fc: "fc self = Linear_init hid 2 fw fb"
    and hs: "encoder_call (bert self) input_ids attention_mask \<noteq> []"
            "\<forall>h\<in>set (encoder_call (bert self) input_ids attention_mask).
                has_shape (length input_ids) s ic h"
    and pos: "0 < s" "0 < ic" "0 < oc"
  shows "\<exists>logits g emb cnn_out lstm_out.
           forward act self grad_enabled input_ids attention_mask = Inr (logits, g) \<and>
           length logits = length input_ids \<and> (\<forall>row\<in>set logits. length row = 2) \<and>
           embeddings_block self input_ids attention_mask = Inr emb \<and>
           conv1d_forward (cnn self) (fst emb) = Inr cnn_out \<and>
           lstm_forward act (lstm self) (permute_0_2_1 cnn_out) = Inr lstm_out \<and>
           has_shape (length input_ids) s hid lstm_out \<and>
           logits = map (\<lambda>m. vec_add (matvec (lin_weight (fc self)) (last m)) (lin_bias (fc self))) lstm_out"
  using assms by (rule forward_returns)

theorem forward_logits_shape_witness:
  "model_name example_classifier \<in> {''distilbert'', ''tinybert'', ''electra''} \<and>
   list_all (has_shape (length [[1, 2], [3, 4 :: int]]) 2 1)
     (encoder_call (bert example_classifier) [[1, 2], [3, 4]] [[1, 1], [1, 1]]) \<and>
   (\<exists>logits g emb cnn_out lstm_out.
      forward example_act example_classifier True [[1, 2], [3, 4]] [[1, 1], [1, 1]] = Inr (logits, g) \<and>
      length logits = length [[1, 2], [3, 4 :: int]] \<and> (\<forall>row\<in>set logits. length row = 2) \<and>
      embeddings_block example_classifier [[1, 2], [3, 4]] [[1, 1], [1, 1]] = Inr emb \<and>
      conv1d_forward (cnn example_classifier) (fst emb) = Inr cnn_out \<and>
      lstm_forward example_act (lstm example_classifier) (permute_0_2_1 cnn_out) = Inr lstm_out \<and>
      has_shape (length [[1, 2], [3, 4 :: int]]) 2 1 lstm_out \<and>
      logits = map (\<lambda>m. vec_add (matvec (lin_weight (fc example_classifier)) (last m))
                                (lin_bias (fc example_classifier))) lstm_out)"
proof -
  have name: "model_name example_classifier \<in> {''distilbert'', ''tinybert'', ''electra''}"
    by (simp add: example_classifier_def CNNLSTMClassifier_init_def)
  have cnn: "cnn example_classifier
      = Conv1d_init 1 1 3 1 (init_conv_w example_rng) (init_conv_b example_rng)"
    by (simp add: example_classifier_def CNNLSTMClassifier_init_def)
  have lstm: "lstm example_classifier
      = LSTM_init 1 1 (init_lstm_wih example_rng) (init_lstm_whh example_rng)
          (init_lstm_bih example_rng) (init_lstm_bhh example_rng)"
    by (simp add: example_classifier_def CNNLSTMClassifier_init_def)
  have fc: "fc example_classifier = Linear_init 1 2 (init_fc_w example_rng) (init_fc_b example_rng)"
    by (simp add: example_classifier_def CNNLSTMClassifier_init_def)
  have ne: "encoder_call (bert example_classifier) [[1, 2], [3, 4]] [[1, 1], [1, 1]] \<noteq> []"
    by (simp add: example_classifier_def CNNLSTMClassifier_init_def example_encoder_def
          encoder_call_def)
  have sh: "\<forall>h\<in>set (encoder_call (bert example_classifier) [[1, 2], [3, 4]] [[1, 1], [1, 1]]).
       has_shape (length [[1, 2], [3, 4 :: int]]) 2 1 h"
    by (simp add: example_classifier_def CNNLSTMClassifier_init_def example_encoder_def
          encoder_call_def has_shape_def shape_sig_def eval_nat_numeral)
  show ?thesis
    using forward_logits_shape [OF name cnn lstm fc ne sh, of example_act True] name sh
    by (simp add: list_all_iff)
qed

text \<open>
  Claim C4. The tensor that \<open>sum_model_layers\<close> returns is the element-wise sum of the
  last \<open>k\<close> hidden states, with \<open>k = 6\<close> for \<open>distilbert\<close>, \<open>k = 4\<close> for \<open>tinybert\<close> and
  \<open>k = 12\<close> for \<open>electra\<close>, and \<open>forward\<close> is the classification head applied to this
  sum with its last two dimensions exchanged.
\<close>

theorem sum_model_layers_feeds_head:
  assumes nk: "(model_name self, k) \<in> {(''distilbert'', 6), (''tinybert'', 4), (''electra'', 12)}"
    and hs: "hs = encoder_call (bert self) input_ids attention_mask"
    and k: "k \<le> length hs"
    and sh: "\<forall>h\<in>set hs. has_shape b s c h"
  shows "\<exists>t. sum_model_layers (model_name self) hs = Inr t \<and> has_shape b s c t \<and>
           (\<forall>i<b. \<forall>j<s. \<forall>e<c. t ! i ! j ! e = (\<Sum>l<k. hs ! (length hs - k + l) ! i ! j ! e)) \<and>
           (\<forall>i<b. \<forall>j<s. \<forall>e<c. permute_0_2_1 t ! i ! e ! j = t ! i ! j ! e) \<and>
           forward act self grad_enabled input_ids attention_mask
             = classification_head act self grad_enabled (permute_0_2_1 t)
                 (record_op (enc_training (bert self)) {}
                    (record_op (enc_training (bert self)) {EncoderParams} {}))"
proof -
  from sum_model_layers_value [OF nk k sh]
  obtain t where t: "sum_model_layers (model_name self) hs = Inr t" "has_shape b s c t"
    "\<forall>i<b. \<forall>j<s. \<forall>e<c. t ! i ! j ! e = (\<Sum>l<k. hs ! (length hs - k + l) ! i ! j ! e)"
    by blast
  have p: "\<forall>i<b. \<forall>j<s. \<forall>e<c. permute_0_2_1 t ! i ! e ! j = t ! i ! j ! e"
  proof (intro allI impI)
    fix i j e assume a: "i < b" "j < s" "e < c"
    then have "0 < s" by simp
    from permute_nth [OF t(2) this a(1) a(3) a(2)] show "permute_0_2_1 t ! i ! e ! j = t ! i ! j ! e" .
  qed
  have "forward act self grad_enabled input_ids attention_mask
             = classification_head act self grad_enabled (permute_0_2_1 t)
                 (record_op (enc_training (bert self)) {}
                    (record_op (enc_training (bert self)) {EncoderParams} {}))"
    using t(1) hs by (simp add: forward_def embeddings_block_def bind_err_def Let_def)
  with t p show ?thesis by blast
qed

theorem sum_model_layers_feeds_head_witness:
  "(model_name example_classifier, 4 :: nat)
      \<in> {(''distilbert'', 6), (''tinybert'', 4), (''electra'', 12)} \<and>
   4 \<le> length (encoder_call (bert example_classifier) [[1, 2], [3, 4]] [[1, 1], [1, 1]]) \<and>
   (\<exists>t. sum_model_layers (model_name example_classifier)
           (encoder_call (bert example_classifier) [[1, 2], [3, 4]] [[1, 1], [1, 1]]) = Inr t \<and>
        has_shape 2 2 1 t \<and>
        (\<forall>i<2. \<forall>j<2. \<forall>e<1. t ! i ! j ! e =
           (\<Sum>l<4. encoder_call (bert example_classifier) [[1, 2], [3, 4]] [[1, 1], [1, 1]]
                     ! (length (encoder_call (bert example_classifier) [[1, 2], [3, 4]] [[1, 1], [1, 1]]) - 4 + l) ! i ! j ! e)) \<and>
        (\<forall>i<2. \<forall>j<2. \<forall>e<1. permute_0_2_1 t ! i ! e ! j = t ! i ! j ! e) \<and>
        forward example_act example_classifier True [[1, 2], [3, 4]] [[1, 1], [1, 1]]
          = classification_head example_act example_classifier True (permute_0_2_1 t)
              (record_op (enc_training (bert example_classifier)) {}
                 (record_op (enc_training (bert example_classifier)) {EncoderParams} {})))"
proof -
  have nk: "(model_name example_classifier, 4 :: nat)
      \<in> {(''distilbert'', 6), (''tinybert'', 4), (''electra'', 12)}"
    by (simp add: example_classifier_def CNNLSTMClassifier_init_def)
  have k: "4 \<le> length (encoder_call (bert example_classifier) [[1, 2], [3, 4]] [[1, 1], [1, 1]])"
    by (simp add: example_classifier_def CNNLSTMClassifier_init_def example_encoder_def
          encoder_call_def)
  have sh: "\<forall>h\<in>set (encoder_call (bert example_classifier) [[1, 2], [3, 4]] [[1, 1], [1, 1]]).
       has_shape 2 2 1 h"
    by (simp add: example_classifier_def CNNLSTMClassifier_init_def example_encoder_def
          encoder_call_def has_shape_def shape_sig_def eval_nat_numeral)
  show ?thesis
    using sum_model_layers_feeds_head [OF nk refl k sh, of example_act True] nk k by simp
qed


section \<open>Properties of train_model\<close>

subsection \<open>The loop of the source against the groups of the specification\<close>

lemma item_div_mul: "a \<noteq> 0 \<Longrightarrow> item (tensor_div t a) * of_int a = item t"
  by (simp add: tensor_div_def)

lemma requires_grad_div:
  "list_all (\<lambda>g. g = None) (grad_wrt (tensor_div t a)) = list_all (\<lambda>g. g = None) (grad_wrt t)"
  by (simp add: tensor_div_def list_all_iff)

lemma batch_events_Cons:
  "batch_events j (t # ts) = [Criterion (j + 1) t, Backward] @ batch_events (j + 1) ts"
proof -
  have "[j + 1..<j + 1 + length (t # ts)] = (j + 1) # [j + 1 + 1..<j + 1 + 1 + length ts]"
    by (subst upt_rec) simp
  then show ?thesis by (simp add: batch_events_def)
qed

lemma acc_state_Nil: "acc_state L a j [] acc = acc"
  by (cases acc) (simp add: acc_state_def scaled_grad_sum_def batch_events_def)

lemma train_batches_no_step:
  assumes ok: "\<And>m b. loss_of fw m b = Inr (L m b)"
    and rg: "\<And>m b. \<not> list_all (\<lambda>g. g = None) (grad_wrt (L m b))"
    and a: "a \<noteq> 0"
  shows "(\<And>q. j < q \<Longrightarrow> q \<le> j + length p \<Longrightarrow> \<not> step_due a n q) \<Longrightarrow>
     train_batches fw a n j (p @ rest) (st, tot)
       = train_batches fw a n (j + length p) rest (acc_state L a j p (st, tot))"
proof (induction p arbitrary: j st tot)
  case Nil
  then show ?case by (simp add: acc_state_Nil)
next
  case (Cons b p)
  have nd: "\<not> step_due a n (j + 1)" using Cons.prems [of "j + 1"] by simp
  let ?t = "L (ts_model st) b"
  let ?st2 = "log_event Backward ((log_event (Criterion (j + 1) ?t) st)
                 \<lparr>ts_grads := map2 accumulate (ts_grads st) (grad_wrt (tensor_div ?t a))\<rparr>)"
  have one: "train_batches fw a n j ((b # p) @ rest) (st, tot)
      = train_batches fw a n (j + 1) (p @ rest) (?st2, tot + item ?t)"
    using ok rg a nd item_div_mul [OF a, of ?t]
    by (simp add: bind_err_def backward_def requires_grad_div py_mod_def step_due_def
          Let_def log_event_def)
  have "train_batches fw a n (j + 1) (p @ rest) (?st2, tot + item ?t)
      = train_batches fw a n (j + 1 + length p) rest (acc_state L a (j + 1) p (?st2, tot + item ?t))"
    by (rule Cons.IH) (use Cons.prems in auto)
  moreover have "acc_state L a (j + 1) p (?st2, tot + item ?t) = acc_state L a j (b # p) (st, tot)"
    by (simp add: acc_state_def Let_def log_event_def scaled_grad_sum_def batch_events_Cons)
  ultimately show ?case using one by simp
qed

lemma batch_events_append:
  "batch_events j (xs @ ys) = batch_events j xs @ batch_events (j + length xs) ys"
proof (induction xs arbitrary: j)
  case Nil
  then show ?case by (simp add: batch_events_def)
next
  case (Cons x xs)
  show ?case using Cons.IH [of "j + 1"] by (simp add: batch_events_Cons)
qed

lemma acc_state_append:
  "acc_state L a (j + length p) q (acc_state L a j p acc) = acc_state L a j (p @ q) acc"
  by (cases acc) (simp add: acc_state_def Let_def scaled_grad_sum_def batch_events_append)

lemma train_batches_step:
  assumes ok: "\<And>m b. loss_of fw m b = Inr (L m b)"
    and rg: "\<And>m b. \<not> list_all (\<lambda>g. g = None) (grad_wrt (L m b))"
    and a: "a \<noteq> 0"
    and due: "step_due a n (j + 1)"
  shows "train_batches fw a n j (b # rest) (st, tot)
       = train_batches fw a n (j + 1) rest
           (optimizer_zero_grad (optimizer_step fw (fst (acc_state L a j [b] (st, tot)))),
            snd (acc_state L a j [b] (st, tot)))"
proof -
  let ?t = "L (ts_model st) b"
  let ?st2 = "log_event Backward ((log_event (Criterion (j + 1) ?t) st)
                 \<lparr>ts_grads := map2 accumulate (ts_grads st) (grad_wrt (tensor_div ?t a))\<rparr>)"
  have one: "train_batches fw a n j (b # rest) (st, tot)
      = train_batches fw a n (j + 1) rest (optimizer_zero_grad (optimizer_step fw ?st2), tot + item ?t)"
    using ok rg a due item_div_mul [OF a, of ?t]
    by (simp add: bind_err_def backward_def requires_grad_div py_mod_def step_due_def
          Let_def log_event_def)
  have "acc_state L a j [b] (st, tot) = (?st2, tot + item ?t)"
    by (simp add: acc_state_def Let_def log_event_def scaled_grad_sum_def batch_events_Cons
          batch_events_def)
  with one show ?thesis by simp
qed

lemma train_batches_chunk:
  assumes ok: "\<And>m b. loss_of fw m b = Inr (L m b)"
    and rg: "\<And>m b. \<not> list_all (\<lambda>g. g = None) (grad_wrt (L m b))"
    and a: "a \<noteq> 0"
    and ne: "c \<noteq> []"
    and quiet: "\<And>q. j < q \<Longrightarrow> q < j + length c \<Longrightarrow> \<not> step_due a n q"
    and due: "step_due a n (j + length c)"
  shows "train_batches fw a n j (c @ rest) (st, tot)
       = train_batches fw a n (j + length c) rest
           (optimizer_zero_grad (optimizer_step fw (fst (acc_state L a j c (st, tot)))),
            snd (acc_state L a j c (st, tot)))"
proof -
  from ne obtain p b where c: "c = p @ [b]" by (cases c rule: rev_cases) auto
  obtain st1 tot1 where s1: "acc_state L a j p (st, tot) = (st1, tot1)" by (cases "acc_state L a j p (st, tot)")
  have "train_batches fw a n j (p @ (b # rest)) (st, tot)
      = train_batches fw a n (j + length p) (b # rest) (acc_state L a j p (st, tot))"
    by (rule train_batches_no_step [OF ok rg a]) (use quiet c in auto)
  also have "\<dots> = train_batches fw a n (j + length p + 1) rest
           (optimizer_zero_grad (optimizer_step fw (fst (acc_state L a (j + length p) [b] (st1, tot1)))),
            snd (acc_state L a (j + length p) [b] (st1, tot1)))"
    unfolding s1 by (rule train_batches_step [OF ok rg a]) (use due c in simp)
  also have "acc_state L a (j + length p) [b] (st1, tot1) = acc_state L a j c (st, tot)"
    using acc_state_append [of L a j p "[b]" "(st, tot)"] s1 c by simp
  finally show ?thesis using c by simp
qed

lemma all_None_map: "list_all (\<lambda>g. g = None) gs \<Longrightarrow> map (\<lambda>_. None) gs = gs"
  by (induction gs) auto

lemma spec_chunks_Cons_acc:
  assumes "list_all (\<lambda>g. g = None) (ts_grads st)"
  shows "spec_chunks L (opt_update fw) a j (c # cs) (st, tot)
     = spec_chunks L (opt_update fw) a (j + length c) cs
         (optimizer_zero_grad (optimizer_step fw (fst (acc_state L a j c (st, tot)))),
          snd (acc_state L a j c (st, tot)))"
  using all_None_map [OF assms]
  by (simp add: acc_state_def Let_def optimizer_zero_grad_def optimizer_step_def log_event_def
        split: prod.splits)

lemma zero_grad_all_None: "list_all (\<lambda>g. g = None) (ts_grads (optimizer_zero_grad st))"
  by (simp add: optimizer_zero_grad_def log_event_def list_all_iff)

lemma train_batches_spec:
  assumes ok: "\<And>m b. loss_of fw m b = Inr (L m b)"
    and rg: "\<And>m b. \<not> list_all (\<lambda>g. g = None) (grad_wrt (L m b))"
    and a: "0 < a"
  shows "int j mod a = 0 \<Longrightarrow> n = j + length bs \<Longrightarrow> list_all (\<lambda>g. g = None) (ts_grads st) \<Longrightarrow>
     train_batches fw a n j bs (st, tot)
       = Inr (spec_chunks L (opt_update fw) a j (chunks (nat a) bs) (st, tot))"
proof (induction bs arbitrary: j st tot rule: length_induct)
  case (1 bs)
  show ?case
  proof (cases "bs = []")
    case True
    then show ?thesis by (simp add: chunks.simps)
  next
    case False
    let ?c = "take (nat a) bs" and ?rest = "drop (nat a) bs"
    have a0: "a \<noteq> 0" using a by simp
    have cne: "?c \<noteq> []" using False a by (cases bs) auto
    have lc: "length ?c = min (nat a) (length bs)" by simp
    have ch: "chunks (nat a) bs = ?c # chunks (nat a) ?rest"
      using False a by (subst chunks.simps) simp
    have quiet: "\<And>q. j < q \<Longrightarrow> q < j + length ?c \<Longrightarrow> \<not> step_due a n q"
    proof -
      fix q assume q: "j < q" "q < j + length ?c"
      define r where "r = q - j"
      have r: "0 < r" "r < nat a" "q = j + r" using q lc by (auto simp: r_def)
      have "int q mod a = (int j mod a + int r mod a) mod a" using r(3) by (simp add: mod_add_eq)
      also have "\<dots> = int r" using "1.prems"(1) r(2) by simp
      finally have "int q mod a \<noteq> 0" using r(1) by simp
      moreover have "q \<noteq> n" using q "1.prems"(2) lc by simp
      ultimately show "\<not> step_due a n q" by (simp add: step_due_def)
    qed
    have due: "step_due a n (j + length ?c)"
    proof (cases "nat a \<le> length bs")
      case True
      then have "length ?c = nat a" by simp
      then have "int (j + length ?c) = int j + a" using a by simp
      then have "int (j + length ?c) mod a = 0" using "1.prems"(1) by simp
      then show ?thesis by (simp add: step_due_def)
    next
      case False
      then have "length ?c = length bs" by simp
      then show ?thesis using "1.prems"(2) by (simp add: step_due_def)
    qed
    let ?s = "(optimizer_zero_grad (optimizer_step fw (fst (acc_state L a j ?c (st, tot)))),
            snd (acc_state L a j ?c (st, tot)))"
    have step: "train_batches fw a n j bs (st, tot) = train_batches fw a n (j + length ?c) ?rest ?s"
      using train_batches_chunk [OF ok rg a0 cne quiet due, of ?rest st tot] by simp
    have spec: "spec_chunks L (opt_update fw) a j (chunks (nat a) bs) (st, tot)
        = spec_chunks L (opt_update fw) a (j + length ?c) (chunks (nat a) ?rest) ?s"
      unfolding ch by (rule spec_chunks_Cons_acc [OF "1.prems"(3)])
    show ?thesis
    proof (cases "?rest = []")
      case True
      then show ?thesis using step spec by (simp add: chunks.simps)
    next
      case rne: False
      then have full: "length ?c = nat a" by simp
      have shorter: "length ?rest < length bs" using False a by (cases bs) auto
      have m: "int (j + length ?c) mod a = 0" using full "1.prems"(1) a by simp
      have n': "n = j + length ?c + length ?rest" using "1.prems"(2) full rne by simp
      have "train_batches fw a n (j + length ?c) ?rest
               (optimizer_zero_grad (optimizer_step fw (fst (acc_state L a j ?c (st, tot)))),
                snd (acc_state L a j ?c (st, tot)))
          = Inr (spec_chunks L (opt_update fw) a (j + length ?c) (chunks (nat a) ?rest) ?s)"
        by (rule "1.IH" [rule_format, OF shorter m n' zero_grad_all_None])
      then show ?thesis using step spec by simp
    qed
  qed
qed

lemma spec_chunks_grads_None:
  "list_all (\<lambda>g. g = None) (ts_grads (fst acc))
     \<Longrightarrow> list_all (\<lambda>g. g = None) (ts_grads (fst (spec_chunks L upd a j cs acc)))"
proof (induction cs arbitrary: j acc)
  case Nil then show ?case by simp
next
  case (Cons c cs)
  obtain st tot where acc: "acc = (st, tot)" by (cases acc)
  show ?case unfolding acc
  proof (simp add: Let_def split: prod.splits, intro allI impI)
    fix x1 x2
    let ?g = "scaled_grad_sum a (map (\<lambda>_. None) (ts_grads st)) (map (L (ts_model st)) c)"
    let ?acc = "(st\<lparr>ts_model := x2, ts_optimizer := x1, ts_grads := map (\<lambda>_. None) ?g,
                    ts_trace := ts_trace st @ batch_events j (map (L (ts_model st)) c) @
                                  [OptimizerStep ?g, ZeroGrad]\<rparr>,
                 tot + sum_list (map (item \<circ> L (ts_model st)) c))"
    have "list_all (\<lambda>g. g = None) (ts_grads (fst ?acc))" by (simp add: list_all_iff)
    from Cons.IH [OF this]
    show "list_all (\<lambda>g. g = None) (ts_grads (fst (spec_chunks L upd a (j + length c) cs ?acc)))" .
  qed
qed

lemma train_epochs_spec:
  assumes ok: "\<And>m b. loss_of fw m b = Inr (L m b)"
    and rg: "\<And>m b. \<not> list_all (\<lambda>g. g = None) (grad_wrt (L m b))"
    and a: "0 < a" and ne: "dl \<noteq> []"
  shows "list_all (\<lambda>g. g = None) (ts_grads st) \<Longrightarrow>
     train_epochs fw a dl k (st, printed) = Inr (spec_epochs L (opt_update fw) a dl k (st, printed))"
proof (induction k arbitrary: st printed)
  case 0 then show ?case by simp
next
  case (Suc k)
  obtain st' tot where sp: "spec_chunks L (opt_update fw) a 0 (chunks (nat a) dl) (st, 0) = (st', tot)"
    by (cases "spec_chunks L (opt_update fw) a 0 (chunks (nat a) dl) (st, 0)")
  have tb: "train_batches fw a (length dl) 0 dl (st, 0) = Inr (st', tot)"
    using train_batches_spec [OF ok rg a, of 0 "length dl" dl st 0] Suc.prems sp by simp
  have "list_all (\<lambda>g. g = None) (ts_grads st')"
    using spec_chunks_grads_None [of "(st, 0)" L "opt_update fw" a 0 "chunks (nat a) dl"] Suc.prems sp
    by simp
  from Suc.IH [OF this] show ?case using tb sp ne by (simp add: bind_err_def)
qed

lemma train_model_spec:
  assumes ok: "\<And>m b. loss_of fw m b = Inr (L m b)"
    and rg: "\<And>m b. \<not> list_all (\<lambda>g. g = None) (grad_wrt (L m b))"
    and a: "0 < a" and ne: "dl \<noteq> []"
  shows "train_model fw model dl opt g0 num_epochs a
           = Inr (spec_train L (opt_update fw) model dl opt g0 num_epochs a)"
proof -
  let ?st = "optimizer_zero_grad \<lparr>ts_model = model, ts_optimizer = opt, ts_grads = g0, ts_trace = []\<rparr>"
  have "?st = \<lparr>ts_model = model, ts_optimizer = opt, ts_grads = map (\<lambda>_. None) g0, ts_trace = [ZeroGrad]\<rparr>"
    by (simp add: optimizer_zero_grad_def log_event_def)
  moreover have "list_all (\<lambda>g. g = None) (ts_grads ?st)" by (rule zero_grad_all_None)
  ultimately show ?thesis
    using train_epochs_spec [OF ok rg a ne, of ?st num_epochs "[]"]
    by (simp add: train_model_def spec_train_def)
qed


lemma criterion_values_append:
  "criterion_values (xs @ ys) = criterion_values xs @ criterion_values ys"
  by (induction xs rule: criterion_values.induct) auto

lemma applied_grads_append:
  "applied_grads (xs @ ys) = applied_grads xs @ applied_grads ys"
  by (induction xs rule: applied_grads.induct) auto

lemma train_batches_Cons_Inr:
  assumes "train_batches fw a n j (b # bs) (st, tot) = Inr res"
  shows "\<exists>t st3 g. loss_of fw (ts_model st) b = Inr t \<and> a \<noteq> 0 \<and>
           train_batches fw a n (j + 1) bs (st3, tot + item (tensor_div t a) * of_int a) = Inr res \<and>
           ts_trace st3 = ts_trace st @ [Criterion (j + 1) t, Backward] @
              (if step_due a n (j + 1) then [OptimizerStep g, ZeroGrad] else [])"
proof -
  from assms obtain t where t: "loss_of fw (ts_model st) b = Inr t"
    by (cases "loss_of fw (ts_model st) b") (auto simp: bind_err_def)
  let ?st1 = "log_event (Criterion (j + 1) t) st"
  from assms t obtain g where g: "backward (tensor_div t a) (ts_grads ?st1) = Inr g"
    by (cases "backward (tensor_div t a) (ts_grads ?st1)") (auto simp: bind_err_def Let_def)
  let ?st2 = "log_event Backward (?st1\<lparr>ts_grads := g\<rparr>)"
  from assms t g have a: "a \<noteq> 0"
    by (auto simp: bind_err_def Let_def py_mod_def split: if_splits)
  let ?st3 = "if step_due a n (j + 1) then optimizer_zero_grad (optimizer_step fw ?st2) else ?st2"
  have run: "train_batches fw a n (j + 1) bs (?st3, tot + item (tensor_div t a) * of_int a) = Inr res"
  proof (cases "step_due a n (j + 1)")
    case True
    then show ?thesis using assms t g a
      by (simp add: bind_err_def Let_def py_mod_def) (simp add: step_due_def)
  next
    case False
    then show ?thesis using assms t g a
      by (simp add: bind_err_def Let_def py_mod_def) (simp add: step_due_def)
  qed
  have tr: "ts_trace ?st3 = ts_trace st @ [Criterion (j + 1) t, Backward] @
              (if step_due a n (j + 1) then [OptimizerStep g, ZeroGrad] else [])"
    by (simp add: log_event_def optimizer_zero_grad_def optimizer_step_def split: prod.splits)
  from t a run tr show ?thesis by blast
qed

lemma train_batches_calls:
  "train_batches fw a n j bs (st, tot) = Inr (st', tot') \<Longrightarrow>
     map call_of (ts_trace st') = map call_of (ts_trace st) @
       concat (map (\<lambda>i. [CriterionCall i, BackwardCall] @
                         (if int i mod a = 0 \<or> i = n then [StepCall, ZeroGradCall] else []))
                 [j + 1..<j + 1 + length bs])"
proof (induction bs arbitrary: j st tot)
  case Nil then show ?case by simp
next
  case (Cons b bs)
  from train_batches_Cons_Inr [OF Cons.prems]
  obtain t st3 g where h: "train_batches fw a n (j + 1) bs (st3, tot + item (tensor_div t a) * of_int a) = Inr (st', tot')"
     "ts_trace st3 = ts_trace st @ [Criterion (j + 1) t, Backward] @
              (if step_due a n (j + 1) then [OptimizerStep g, ZeroGrad] else [])"
    by blast
  have up: "[j + 1..<j + 1 + length (b # bs)] = (j + 1) # [j + 1 + 1..<j + 1 + 1 + length bs]"
    by (subst upt_rec) simp
  show ?case unfolding up using Cons.IH [OF h(1)] h(2) by (simp add: step_due_def)
qed

lemma train_batches_values:
  "train_batches fw a n j bs (st, tot) = Inr (st', tot') \<Longrightarrow>
     \<exists>vs. criterion_values (ts_trace st') = criterion_values (ts_trace st) @ vs \<and>
          length vs = length bs \<and> tot' = tot + sum_list vs"
proof (induction bs arbitrary: j st tot)
  case Nil then show ?case by simp
next
  case (Cons b bs)
  from train_batches_Cons_Inr [OF Cons.prems]
  obtain t st3 g where h: "a \<noteq> 0"
     "train_batches fw a n (j + 1) bs (st3, tot + item (tensor_div t a) * of_int a) = Inr (st', tot')"
     "ts_trace st3 = ts_trace st @ [Criterion (j + 1) t, Backward] @
              (if step_due a n (j + 1) then [OptimizerStep g, ZeroGrad] else [])"
    by blast
  from Cons.IH [OF h(2)] obtain vs where vs:
    "criterion_values (ts_trace st') = criterion_values (ts_trace st3) @ vs" "length vs = length bs"
    "tot' = tot + item (tensor_div t a) * of_int a + sum_list vs" by blast
  have "criterion_values (ts_trace st3) = criterion_values (ts_trace st) @ [item t]"
    using h(3) by (simp add: criterion_values_append)
  with vs item_div_mul [OF h(1), of t]
  have "criterion_values (ts_trace st') = criterion_values (ts_trace st) @ (item t # vs) \<and>
        length (item t # vs) = length (b # bs) \<and> tot' = tot + sum_list (item t # vs)"
    by simp
  then show ?case by blast
qed

lemma chunks_Nil: "chunks a [] = []"
  by (subst chunks.simps) simp

lemma chunks_Cons: "0 < a \<Longrightarrow> xs \<noteq> [] \<Longrightarrow> chunks a xs = take a xs # chunks a (drop a xs)"
  by (subst chunks.simps) simp

lemma length_chunks: "0 < a \<Longrightarrow> length (chunks a xs) = (length xs + a - 1) div a"
proof (induction xs rule: length_induct)
  case (1 xs)
  show ?case
  proof (cases "xs = []")
    case True
    then show ?thesis using "1.prems" by (simp add: chunks_Nil)
  next
    case False
    have ch: "chunks a xs = take a xs # chunks a (drop a xs)"
      by (rule chunks_Cons [OF "1.prems" False])
    have pos: "0 < length xs" using False by simp
    show ?thesis
    proof (cases "a \<le> length xs")
      case True
      have "length (drop a xs) < length xs" using False "1.prems" by (cases xs) simp_all
      with "1.IH" "1.prems" have IH: "length (chunks a (drop a xs)) = (length (drop a xs) + a - 1) div a"
        by blast
      define m where "m = length xs - 1"
      have e1: "length xs + a - 1 = m + a" using False by (cases xs) (simp_all add: m_def)
      have e2: "length (drop a xs) + a - 1 = m" using True False by (cases xs) (simp_all add: m_def)
      have "length (chunks a xs) = Suc ((length (drop a xs) + a - 1) div a)" using ch IH by simp
      also have "\<dots> = Suc (m div a)" by (simp only: e2)
      also have "\<dots> = (m + a) div a" using "1.prems" by simp
      also have "\<dots> = (length xs + a - 1) div a" by (simp only: e1)
      finally show ?thesis .
    next
      case small: False
      then have "drop a xs = []" by simp
      then have l: "length (chunks a xs) = 1" using ch by (simp add: chunks_Nil)
      have "(length xs + a - 1) div a = 1"
        by (rule div_nat_eqI) (use small False in \<open>cases xs; simp\<close>)+
      with l show ?thesis by simp
    qed
  qed
qed

lemma spec_chunks_steps:
  "length (applied_grads (ts_trace (fst (spec_chunks L upd a j cs acc))))
     = length (applied_grads (ts_trace (fst acc))) + length cs"
proof (induction cs arbitrary: j acc)
  case Nil then show ?case by simp
next
  case (Cons c cs)
  obtain st tot where acc: "acc = (st, tot)" by (cases acc)
  have be: "\<And>i ts. applied_grads (batch_events i ts) = []"
  proof -
    fix i ts show "applied_grads (batch_events i ts) = []"
      by (induction ts arbitrary: i) (simp_all add: batch_events_Cons, simp add: batch_events_def)
  qed
  show ?case unfolding acc
    by (simp add: Let_def Cons.IH applied_grads_append be split: prod.splits)
qed

lemma scaled_grad_sum_Some:
  assumes "\<forall>t\<in>set ts. length (grad_wrt t) = k \<and> (\<exists>v. grad_wrt t ! p = Some v \<and> length v = d)"
    and "length g0 = k" "p < k" "g0 ! p = Some u" "length u = d" "c < d"
  shows "length (scaled_grad_sum a g0 ts) = k \<and>
         (\<exists>w. scaled_grad_sum a g0 ts ! p = Some w \<and> length w = d \<and>
              w ! c = u ! c + (\<Sum>t\<leftarrow>ts. the (grad_wrt t ! p) ! c / of_int a))"
  using assms
proof (induction ts arbitrary: g0 u)
  case Nil
  then show ?case by (simp add: scaled_grad_sum_def)
next
  case (Cons t ts)
  from Cons.prems(1) obtain v where v: "length (grad_wrt t) = k" "grad_wrt t ! p = Some v" "length v = d"
    by auto
  let ?g1 = "map2 accumulate g0 (grad_wrt (tensor_div t a))"
  let ?u1 = "vec_add u (map (\<lambda>x. x / of_int a) v)"
  have l1: "length ?g1 = k" using Cons.prems(2) v(1) by (simp add: tensor_div_def)
  have p1: "?g1 ! p = Some ?u1"
    using Cons.prems(2,3,4) v by (simp add: tensor_div_def accumulate_def)
  have lu: "length ?u1 = d" using Cons.prems(5) v(3) by (simp add: vec_add_def)
  have rest: "\<forall>t\<in>set ts. length (grad_wrt t) = k \<and> (\<exists>v. grad_wrt t ! p = Some v \<and> length v = d)"
    using Cons.prems(1) by simp
  from Cons.IH [OF rest l1 Cons.prems(3) p1 lu Cons.prems(6)]
  obtain w where w: "length (scaled_grad_sum a ?g1 ts) = k" "scaled_grad_sum a ?g1 ts ! p = Some w"
    "length w = d" "w ! c = ?u1 ! c + (\<Sum>t\<leftarrow>ts. the (grad_wrt t ! p) ! c / of_int a)" by blast
  have u1c: "?u1 ! c = u ! c + v ! c / of_int a"
    using Cons.prems(5,6) v(3) by (simp add: vec_add_def)
  have unf: "scaled_grad_sum a g0 (t # ts) = scaled_grad_sum a ?g1 ts"
    by (simp add: scaled_grad_sum_def)
  show ?case unfolding unf using w u1c v(2) by (simp add: add.assoc)
qed

lemma scaled_grad_sum_component:
  assumes ts: "ts \<noteq> []"
    and all: "\<forall>t\<in>set ts. length (grad_wrt t) = k \<and> (\<exists>v. grad_wrt t ! p = Some v \<and> length v = d)"
    and p: "p < k" and c: "c < d"
  shows "\<exists>w. scaled_grad_sum a (replicate k None) ts ! p = Some w \<and> length w = d \<and>
              w ! c = (\<Sum>t\<leftarrow>ts. the (grad_wrt t ! p) ! c / of_int a)"
proof -
  from ts obtain t rest where tr: "ts = t # rest" by (cases ts) auto
  from all tr obtain v where v: "length (grad_wrt t) = k" "grad_wrt t ! p = Some v" "length v = d"
    by auto
  let ?g1 = "map2 accumulate (replicate k None) (grad_wrt (tensor_div t a))"
  let ?u1 = "map (\<lambda>x. x / of_int a) v"
  have l1: "length ?g1 = k" using v(1) by (simp add: tensor_div_def)
  have p1: "?g1 ! p = Some ?u1" using p v by (simp add: tensor_div_def accumulate_def)
  have lu: "length ?u1 = d" using v(3) by simp
  have rest: "\<forall>t\<in>set rest. length (grad_wrt t) = k \<and> (\<exists>v. grad_wrt t ! p = Some v \<and> length v = d)"
    using all tr by simp
  from scaled_grad_sum_Some [OF rest l1 p p1 lu c, of a]
  obtain w where w: "scaled_grad_sum a ?g1 rest ! p = Some w" "length w = d"
    "w ! c = ?u1 ! c + (\<Sum>t\<leftarrow>rest. the (grad_wrt t ! p) ! c / of_int a)" by blast
  have unf: "scaled_grad_sum a (replicate k None) (t # rest) = scaled_grad_sum a ?g1 rest"
    by (simp add: scaled_grad_sum_def)
  have "?u1 ! c = v ! c / of_int a" using c v(3) by simp
  with w v(2) show ?thesis unfolding tr unf by simp
qed

lemma chunks_append:
  "0 < n \<Longrightarrow> length xs = n \<Longrightarrow> chunks n (xs @ ys) = xs # chunks n ys"
  by (subst chunks.simps) auto

lemma train_epochs_calls:
  "train_epochs fw a dl k (st, printed) = Inr (st', printed') \<Longrightarrow>
     map call_of (ts_trace st') = map call_of (ts_trace st) @ concat (replicate k (schedule a (length dl)))"
proof (induction k arbitrary: st printed)
  case 0 then show ?case by simp
next
  case (Suc k)
  from Suc.prems obtain st1 tot where tb: "train_batches fw a (length dl) 0 dl (st, 0) = Inr (st1, tot)"
    by (cases "train_batches fw a (length dl) 0 dl (st, 0)") (auto simp: bind_err_def)
  with Suc.prems have te: "train_epochs fw a dl k (st1, printed @ [tot / of_nat (length dl)]) = Inr (st', printed')"
    by (auto simp: bind_err_def split: if_splits)
  from train_batches_calls [OF tb]
  have "map call_of (ts_trace st1) = map call_of (ts_trace st) @ schedule a (length dl)"
    by (simp add: schedule_def)
  with Suc.IH [OF te] show ?case by simp
qed

lemma train_epochs_printed:
  "train_epochs fw a dl k (st, printed) = Inr (st', printed') \<Longrightarrow>
     \<exists>vs. criterion_values (ts_trace st') = criterion_values (ts_trace st) @ vs \<and>
          length vs = k * length dl \<and>
          printed' = printed @ map (\<lambda>c. sum_list c / of_nat (length dl)) (chunks (length dl) vs)"
proof (induction k arbitrary: st printed)
  case 0 then show ?case by (simp add: chunks_Nil)
next
  case (Suc k)
  from Suc.prems obtain st1 tot where tb: "train_batches fw a (length dl) 0 dl (st, 0) = Inr (st1, tot)"
    by (cases "train_batches fw a (length dl) 0 dl (st, 0)") (auto simp: bind_err_def)
  with Suc.prems have ne: "dl \<noteq> []"
    and te: "train_epochs fw a dl k (st1, printed @ [tot / of_nat (length dl)]) = Inr (st', printed')"
    by (auto simp: bind_err_def split: if_splits)
  from train_batches_values [OF tb] obtain v1 where v1:
    "criterion_values (ts_trace st1) = criterion_values (ts_trace st) @ v1" "length v1 = length dl"
    "tot = sum_list v1" by auto
  from Suc.IH [OF te] obtain vs where vs:
    "criterion_values (ts_trace st') = criterion_values (ts_trace st1) @ vs" "length vs = k * length dl"
    "printed' = (printed @ [tot / of_nat (length dl)]) @ map (\<lambda>c. sum_list c / of_nat (length dl)) (chunks (length dl) vs)"
    by blast
  have "chunks (length dl) (v1 @ vs) = v1 # chunks (length dl) vs"
    using ne v1(2) by (intro chunks_append) simp_all
  then have "criterion_values (ts_trace st') = criterion_values (ts_trace st) @ (v1 @ vs) \<and>
          length (v1 @ vs) = Suc k * length dl \<and>
          printed' = printed @ map (\<lambda>c. sum_list c / of_nat (length dl)) (chunks (length dl) (v1 @ vs))"
    using v1 vs by simp
  then show ?case by blast
qed

lemma spec_epochs_steps:
  "length (applied_grads (ts_trace (fst (spec_epochs L upd a dl k acc))))
     = length (applied_grads (ts_trace (fst acc))) + k * length (chunks (nat a) dl)"
proof (induction k arbitrary: acc)
  case 0 then show ?case by simp
next
  case (Suc k)
  obtain st printed where acc: "acc = (st, printed)" by (cases acc)
  obtain st1 tot where sc: "spec_chunks L upd a 0 (chunks (nat a) dl) (st, 0) = (st1, tot)"
    by (cases "spec_chunks L upd a 0 (chunks (nat a) dl) (st, 0)")
  have "length (applied_grads (ts_trace st1)) = length (applied_grads (ts_trace st)) + length (chunks (nat a) dl)"
    using spec_chunks_steps [of L upd a 0 "chunks (nat a) dl" "(st, 0)"] sc by simp
  then show ?case unfolding acc using Suc.IH [of "(st1, printed @ [tot / of_nat (length dl)])"] sc
    by simp
qed

lemma ceil_div:
  assumes "0 < a"
  shows "\<lceil>(of_nat n :: rat) / of_int a\<rceil> = (int n + a - 1) div a"
proof (rule ceiling_unique)
  let ?z = "(int n + a - 1) div a"
  have m: "a * ?z + (int n + a - 1) mod a = int n + a - 1" by simp
  have r: "0 \<le> (int n + a - 1) mod a" "(int n + a - 1) mod a < a" using assms by simp_all
  from m r have b: "a * ?z \<le> int n + a - 1" "int n + a - 1 < a * ?z + a" by linarith+
  have lo: "(?z - 1) * a < int n" using b(1) by (simp add: algebra_simps)
  have hi: "int n \<le> ?z * a" using b(2) by (simp add: algebra_simps)
  have pa: "(0 :: rat) < of_int a" using assms by simp
  have "(of_int ((?z - 1) * a) :: rat) < of_int (int n)" using lo by (simp only: of_int_less_iff)
  then have "(of_int ?z - 1) * (of_int a :: rat) < of_nat n" by simp
  then show "of_int ?z - 1 < (of_nat n :: rat) / of_int a" using pa by (simp add: pos_less_divide_eq)
  have "(of_int (int n) :: rat) \<le> of_int (?z * a)" using hi by (simp only: of_int_le_iff)
  then have "(of_nat n :: rat) \<le> of_int ?z * of_int a" by simp
  then show "(of_nat n :: rat) / of_int a \<le> of_int ?z" using pa by (simp add: pos_divide_le_eq)
qed

lemma ceil_div_nat:
  assumes "0 < a"
  shows "nat \<lceil>(of_nat n :: rat) / of_int a\<rceil> = (n + nat a - 1) div nat a"
proof -
  have "int ((n + nat a - 1) div nat a) = (int n + a - 1) div a"
    using assms by (simp add: zdiv_int of_nat_diff)
  then show ?thesis using ceil_div [OF assms, of n] by simp
qed

subsection \<open>The groups of a run\<close>

lemma train_batches_Cons_state:
  assumes "train_batches fw a n j (b # bs) (st, tot) = Inr res"
  shows "\<exists>t g st2. loss_of fw (ts_model st) b = Inr t \<and>
           g = map2 accumulate (ts_grads st) (grad_wrt (tensor_div t a)) \<and>
           st2 = log_event Backward ((log_event (Criterion (j + 1) t) st)\<lparr>ts_grads := g\<rparr>) \<and>
           train_batches fw a n (j + 1) bs
             (if step_due a n (j + 1) then optimizer_zero_grad (optimizer_step fw st2) else st2,
              tot + item (tensor_div t a) * of_int a) = Inr res"
proof -
  from assms obtain t where t: "loss_of fw (ts_model st) b = Inr t"
    by (cases "loss_of fw (ts_model st) b") (auto simp: bind_err_def)
  let ?st1 = "log_event (Criterion (j + 1) t) st"
  from assms t obtain g where g: "backward (tensor_div t a) (ts_grads ?st1) = Inr g"
    by (cases "backward (tensor_div t a) (ts_grads ?st1)") (auto simp: bind_err_def Let_def)
  then have g': "g = map2 accumulate (ts_grads st) (grad_wrt (tensor_div t a))"
    by (auto simp: backward_def log_event_def split: if_splits)
  let ?st2 = "log_event Backward (?st1\<lparr>ts_grads := g\<rparr>)"
  from assms t g have a: "a \<noteq> 0"
    by (auto simp: bind_err_def Let_def py_mod_def split: if_splits)
  have "train_batches fw a n (j + 1) bs
             (if step_due a n (j + 1) then optimizer_zero_grad (optimizer_step fw ?st2) else ?st2,
              tot + item (tensor_div t a) * of_int a) = Inr res"
  proof (cases "step_due a n (j + 1)")
    case True
    then show ?thesis using assms t g a
      by (simp add: bind_err_def Let_def py_mod_def) (simp add: step_due_def)
  next
    case False
    then show ?thesis using assms t g a
      by (simp add: bind_err_def Let_def py_mod_def) (simp add: step_due_def)
  qed
  with t g' show ?thesis by blast
qed

lemma step_groups_append:
  "step_groups p (xs @ ys) = step_groups p xs @ step_groups (pending p xs) ys"
  by (induction p xs rule: step_groups.induct) auto

lemma pending_append: "pending p (xs @ ys) = pending (pending p xs) ys"
  by (induction p xs rule: pending.induct) auto

lemma map_snd_step_groups: "map snd (step_groups p es) = applied_grads es"
  by (induction p es rule: step_groups.induct) auto

lemma last_applied_Cons: "last_applied prev ((ts, g) # gs) = last_applied g gs"
  by (simp add: last_applied_def)

lemma accumulated_snoc:
  "accumulated a prev (gs @ [(ts, g)]) \<longleftrightarrow>
     accumulated a prev gs \<and> ts \<noteq> [] \<and>
     g = scaled_grad_sum a (map (\<lambda>_. None) (last_applied prev gs)) ts"
proof (induction gs arbitrary: prev)
  case Nil
  then show ?case by (simp add: last_applied_def)
next
  case (Cons x gs)
  obtain ts' g' where x: "x = (ts', g')" by (cases x)
  show ?case unfolding x using Cons.IH [of g'] by (auto simp: last_applied_Cons)
qed

lemma scaled_grad_sum_snoc:
  "scaled_grad_sum a g0 (ts @ [t]) = map2 accumulate (scaled_grad_sum a g0 ts) (grad_wrt (tensor_div t a))"
  by (simp add: scaled_grad_sum_def)

lemma train_batches_groups:
  "train_batches fw a n j bs (st, tot) = Inr (st', tot') \<Longrightarrow>
   accumulated a g0 (step_groups [] (ts_trace st)) \<Longrightarrow>
   ts_grads st = scaled_grad_sum a (map (\<lambda>_. None) (last_applied g0 (step_groups [] (ts_trace st))))
                   (pending [] (ts_trace st)) \<Longrightarrow>
   accumulated a g0 (step_groups [] (ts_trace st')) \<and>
   ts_grads st' = scaled_grad_sum a (map (\<lambda>_. None) (last_applied g0 (step_groups [] (ts_trace st'))))
                    (pending [] (ts_trace st'))"
proof (induction bs arbitrary: j st tot)
  case Nil
  then show ?case by simp
next
  case (Cons b bs)
  from train_batches_Cons_state [OF Cons.prems(1)]
  obtain t g st2 where h:
    "g = map2 accumulate (ts_grads st) (grad_wrt (tensor_div t a))"
    "st2 = log_event Backward ((log_event (Criterion (j + 1) t) st)\<lparr>ts_grads := g\<rparr>)"
    "train_batches fw a n (j + 1) bs
             (if step_due a n (j + 1) then optimizer_zero_grad (optimizer_step fw st2) else st2,
              tot + item (tensor_div t a) * of_int a) = Inr (st', tot')"
    by blast
  define st3 where "st3 = (if step_due a n (j + 1) then optimizer_zero_grad (optimizer_step fw st2) else st2)"
  have run3: "train_batches fw a n (j + 1) bs (st3, tot + item (tensor_div t a) * of_int a) = Inr (st', tot')"
    using h(3) by (simp only: st3_def)
  let ?G = "step_groups [] (ts_trace st)"
  let ?P = "pending [] (ts_trace st)"
  have tr3: "ts_trace st3 = ts_trace st @ [Criterion (j + 1) t, Backward] @
               (if step_due a n (j + 1) then [OptimizerStep g, ZeroGrad] else [])"
    by (simp add: st3_def h(2) optimizer_zero_grad_def optimizer_step_def log_event_def
          split: prod.splits)
  have gr3: "ts_grads st3 = (if step_due a n (j + 1) then map (\<lambda>_. None) g else g)"
    by (simp add: st3_def h(2) optimizer_zero_grad_def optimizer_step_def log_event_def
          split: prod.splits)
  have G3: "step_groups [] (ts_trace st3) = ?G @ (if step_due a n (j + 1) then [(?P @ [t], g)] else [])"
    unfolding tr3 by (simp add: step_groups_append)
  have P3: "pending [] (ts_trace st3) = (if step_due a n (j + 1) then [] else ?P @ [t])"
    unfolding tr3 by (simp add: pending_append)
  have g: "g = scaled_grad_sum a (map (\<lambda>_. None) (last_applied g0 ?G)) (?P @ [t])"
    unfolding scaled_grad_sum_snoc h(1) using Cons.prems(3) by simp
  have acc3: "accumulated a g0 (step_groups [] (ts_trace st3))"
    unfolding G3 using Cons.prems(2) g by (simp add: accumulated_snoc)
  have inv3: "ts_grads st3 = scaled_grad_sum a
       (map (\<lambda>_. None) (last_applied g0 (step_groups [] (ts_trace st3)))) (pending [] (ts_trace st3))"
  proof (cases "step_due a n (j + 1)")
    case True
    then show ?thesis unfolding G3 P3 gr3
      by (simp add: last_applied_def scaled_grad_sum_def)
  next
    case False
    then show ?thesis unfolding G3 P3 gr3 using g by simp
  qed
  from Cons.IH [OF run3 acc3 inv3] show ?case .
qed

lemma train_epochs_groups:
  "train_epochs fw a dl k (st, printed) = Inr (st', printed') \<Longrightarrow>
   accumulated a g0 (step_groups [] (ts_trace st)) \<Longrightarrow>
   ts_grads st = scaled_grad_sum a (map (\<lambda>_. None) (last_applied g0 (step_groups [] (ts_trace st))))
                   (pending [] (ts_trace st)) \<Longrightarrow>
   accumulated a g0 (step_groups [] (ts_trace st'))"
proof (induction k arbitrary: st printed)
  case 0
  then show ?case by simp
next
  case (Suc k)
  from Suc.prems(1) obtain st1 tot where tb: "train_batches fw a (length dl) 0 dl (st, 0) = Inr (st1, tot)"
    by (cases "train_batches fw a (length dl) 0 dl (st, 0)") (auto simp: bind_err_def)
  with Suc.prems(1) have te: "train_epochs fw a dl k (st1, printed @ [tot / of_nat (length dl)]) = Inr (st', printed')"
    by (auto simp: bind_err_def split: if_splits)
  note B = train_batches_groups [OF tb Suc.prems(2) Suc.prems(3)]
  show ?case by (rule Suc.IH [OF te B [THEN conjunct1] B [THEN conjunct2]])
qed

lemma train_model_groups:
  assumes "train_model fw model dl opt g0 num_epochs a = Inr (st, printed)"
  shows "accumulated a g0 (step_groups [] (ts_trace st))"
proof -
  let ?st0 = "optimizer_zero_grad \<lparr>ts_model = model, ts_optimizer = opt, ts_grads = g0, ts_trace = []\<rparr>"
  have te: "train_epochs fw a dl num_epochs (?st0, []) = Inr (st, printed)"
    using assms by (simp add: train_model_def)
  have tr: "ts_trace ?st0 = [ZeroGrad]" "ts_grads ?st0 = map (\<lambda>_. None) g0"
    by (simp_all add: optimizer_zero_grad_def log_event_def)
  show ?thesis
    by (rule train_epochs_groups [OF te]) (simp_all add: tr last_applied_def scaled_grad_sum_def)
qed

lemma length_scaled_grad_sum:
  "\<forall>t\<in>set ts. length (grad_wrt t) = k \<Longrightarrow> length g0 = k \<Longrightarrow> length (scaled_grad_sum a g0 ts) = k"
  by (induction ts arbitrary: g0) (simp_all add: scaled_grad_sum_def tensor_div_def)

lemma accumulated_uniform:
  "accumulated a prev gs \<Longrightarrow> length prev = k \<Longrightarrow>
   (\<forall>(ts, g)\<in>set gs. \<forall>t\<in>set ts. length (grad_wrt t) = k) \<Longrightarrow>
   (ts, g) \<in> set gs \<Longrightarrow> ts \<noteq> [] \<and> g = scaled_grad_sum a (replicate k None) ts"
proof (induction gs arbitrary: prev)
  case Nil
  then show ?case by simp
next
  case (Cons x gs)
  obtain ts' g' where x: "x = (ts', g')" by (cases x)
  from Cons.prems(1) x have h: "ts' \<noteq> []" "g' = scaled_grad_sum a (map (\<lambda>_. None) prev) ts'"
    "accumulated a g' gs" by auto
  have mp: "(map (\<lambda>_. None) prev :: grads) = replicate k None"
    using Cons.prems(2) by (simp add: map_replicate_const)
  have l: "length g' = k"
    unfolding h(2) using Cons.prems(3) x by (intro length_scaled_grad_sum) (auto simp: Cons.prems(2))
  show ?case
  proof (cases "(ts, g) = (ts', g')")
    case True
    then show ?thesis using h mp by simp
  next
    case False
    with Cons.prems(4) x have m: "(ts, g) \<in> set gs" by auto
    show ?thesis by (rule Cons.IH [OF h(3) l _ m]) (use Cons.prems(3) in auto)
  qed
qed

lemma applied_grads_calls:
  "length (applied_grads es) = length (filter (\<lambda>c. c = StepCall) (map call_of es))"
  by (induction es rule: applied_grads.induct) auto

lemma filter_concat_replicate:
  "length (filter P (concat (replicate k xs))) = k * length (filter P xs)"
  by (induction k) simp_all

lemma spec_train_steps:
  "length (applied_grads (ts_trace (fst (spec_train L upd model dl opt g0 k a))))
     = k * length (chunks (nat a) dl)"
  unfolding spec_train_def by (simp add: spec_epochs_steps)

lemma schedule_steps:
  assumes a: "0 < a"
  shows "length (filter (\<lambda>c. c = StepCall) (schedule a n)) = nat \<lceil>(of_nat n :: rat) / of_int a\<rceil>"
proof (cases "n = 0")
  case True
  then show ?thesis by (simp add: schedule_def)
next
  case False
  let ?dl = "replicate n (0 :: rat)"
  let ?spec = "spec_train example_loss (opt_update example_framework) 0 ?dl () [] 1 a"
  have ne: "?dl \<noteq> []" using False by simp
  have run: "train_model example_framework 0 ?dl () [] 1 a = Inr ?spec"
    by (rule train_model_spec [OF _ _ a ne]) (simp_all add: example_framework_def example_loss_def)
  obtain st printed where sp: "?spec = (st, printed)" by (cases ?spec)
  let ?st0 = "optimizer_zero_grad \<lparr>ts_model = 0 :: rat, ts_optimizer = (), ts_grads = [], ts_trace = []\<rparr>"
  have te: "train_epochs example_framework a ?dl 1 (?st0, []) = Inr (st, printed)"
    using run sp by (simp add: train_model_def)
  have calls: "map call_of (ts_trace st) = ZeroGradCall # schedule a n"
    using train_epochs_calls [OF te] by (simp add: optimizer_zero_grad_def log_event_def)
  have "length (applied_grads (ts_trace st)) = (n + nat a - 1) div nat a"
    using spec_train_steps [of example_loss "opt_update example_framework" 0 ?dl "()" "[]" 1 a] sp a
    by (simp add: length_chunks)
  then have "length (applied_grads (ts_trace st)) = nat \<lceil>(of_nat n :: rat) / of_int a\<rceil>"
    by (simp only: ceil_div_nat [OF a])
  then show ?thesis using applied_grads_calls [of "ts_trace st"] calls by simp
qed

lemma train_model_steps:
  assumes a: "0 < a"
    and run: "train_model fw model dl opt g0 num_epochs a = Inr (st, printed)"
  shows "length (applied_grads (ts_trace st))
           = num_epochs * nat \<lceil>(of_nat (length dl) :: rat) / of_int a\<rceil>"
proof -
  let ?st0 = "optimizer_zero_grad \<lparr>ts_model = model, ts_optimizer = opt, ts_grads = g0, ts_trace = []\<rparr>"
  have te: "train_epochs fw a dl num_epochs (?st0, []) = Inr (st, printed)"
    using run by (simp add: train_model_def)
  have calls: "map call_of (ts_trace st)
      = ZeroGradCall # concat (replicate num_epochs (schedule a (length dl)))"
    using train_epochs_calls [OF te] by (simp add: optimizer_zero_grad_def log_event_def)
  show ?thesis
    unfolding applied_grads_calls calls
    by (simp add: filter_concat_replicate schedule_steps [OF a])
qed

lemma train_model_nonempty:
  assumes "train_model fw model dl opt g0 (Suc k) a = Inr (st, printed)"
  shows "dl \<noteq> []"
  using assms by (auto simp: train_model_def bind_err_def split: sum.splits if_splits)

lemma train_model_one_epoch_steps:
  assumes "train_model fw model dl opt g0 1 10 = Inr (st, printed)"
  shows "applied_grads (ts_trace st) \<noteq> []"
proof -
  have ne: "dl \<noteq> []" using assms train_model_nonempty [of fw model dl opt g0 0 10 st printed] by simp
  have a: "(0 :: int) < 10" by simp
  have "length (applied_grads (ts_trace st)) = (length dl + nat 10 - 1) div nat 10"
    using train_model_steps [OF a assms] by (simp only: ceil_div_nat [OF a] mult_1)
  moreover have "0 < (length dl + nat 10 - 1) div nat 10"
    using ne by (cases dl) (simp_all add: div_greater_zero_iff)
  ultimately show ?thesis by auto
qed

lemma example_run_value:
  "map_sum id (\<lambda>(st, printed). (ts_trace st, printed, enc_params (bert (ts_model st)))) example_run
     = Inr ([ZeroGrad,
             Criterion 1 \<lparr>item = 388, grad_wrt = [Some [1], Some [1], Some [1], Some [1]]\<rparr>, Backward,
             Criterion 2 \<lparr>item = 388, grad_wrt = [Some [1], Some [1], Some [1], Some [1]]\<rparr>, Backward,
             OptimizerStep [Some [1], Some [1], Some [1], Some [1]], ZeroGrad,
             Criterion 3 \<lparr>item = 364, grad_wrt = [Some [1], Some [1], Some [1], Some [1]]\<rparr>, Backward,
             OptimizerStep [Some [1 / 2], Some [1 / 2], Some [1 / 2], Some [1 / 2]], ZeroGrad],
            [380], [1 / 4])"
  by code_simp

subsection \<open>Optimizer steps\<close>

text \<open>
  Claim C1. Let a call of \<open>train_model\<close> with \<open>accumulation_steps = a \<ge> 1\<close> on a data
  loader of \<open>n\<close> batches return, with the trace of calls it made. Then in every epoch
  the criterion and the backward pass are called for each batch, and the optimizer
  steps, followed at once by the zeroing of the gradients, exactly after the batches
  whose 1-based index \<open>i\<close> has \<open>i mod a = 0\<close> or \<open>i = n\<close>; the number of steps is
  \<open>ceil(n / a)\<close> per epoch. The steps of the trace, each with the losses that the
  criterion returned since the step before it, are such that no step is without losses
  and the gradients a step applies are the gradients of these losses, each divided by
  \<open>a\<close>, accumulated from \<open>None\<close>. When every loss has one gradient entry per
  gradient that \<open>train_model\<close> was called with, then at every parameter \<open>p\<close> for which
  the losses of a step have gradients of one length, the applied gradient is component
  by component the sum of the gradients of these losses divided by \<open>a\<close>.
\<close>

theorem train_model_accumulates:
  assumes a: "1 \<le> a"
    and run: "train_model fw model dl opt g0 num_epochs a = Inr (st, printed)"
  shows "map call_of (ts_trace st)
           = ZeroGradCall # concat (replicate num_epochs (schedule a (length dl))) \<and>
         length (applied_grads (ts_trace st))
           = num_epochs * nat \<lceil>(of_nat (length dl) :: rat) / of_int a\<rceil> \<and>
         map snd (step_groups [] (ts_trace st)) = applied_grads (ts_trace st) \<and>
         accumulated a g0 (step_groups [] (ts_trace st)) \<and>
         (\<forall>ts g p c d. (ts, g) \<in> set (step_groups [] (ts_trace st)) \<longrightarrow>
            (\<forall>(ts', g')\<in>set (step_groups [] (ts_trace st)). \<forall>t\<in>set ts'. length (grad_wrt t) = length g0) \<longrightarrow>
            p < length g0 \<longrightarrow> c < d \<longrightarrow>
            (\<forall>t\<in>set ts. \<exists>v. grad_wrt t ! p = Some v \<and> length v = d) \<longrightarrow>
            (\<exists>w. g ! p = Some w \<and> length w = d \<and>
                 w ! c = (\<Sum>t\<leftarrow>ts. the (grad_wrt t ! p) ! c / of_int a)))"
proof -
  have a0: "0 < a" using a by simp
  let ?st0 = "optimizer_zero_grad \<lparr>ts_model = model, ts_optimizer = opt, ts_grads = g0, ts_trace = []\<rparr>"
  have te: "train_epochs fw a dl num_epochs (?st0, []) = Inr (st, printed)"
    using run by (simp add: train_model_def)
  have calls: "map call_of (ts_trace st)
      = ZeroGradCall # concat (replicate num_epochs (schedule a (length dl)))"
    using train_epochs_calls [OF te] by (simp add: optimizer_zero_grad_def log_event_def)
  have steps: "length (applied_grads (ts_trace st))
      = num_epochs * nat \<lceil>(of_nat (length dl) :: rat) / of_int a\<rceil>"
    by (rule train_model_steps [OF a0 run])
  have groups: "map snd (step_groups [] (ts_trace st)) = applied_grads (ts_trace st)"
    by (rule map_snd_step_groups)
  have acc: "accumulated a g0 (step_groups [] (ts_trace st))"
    by (rule train_model_groups [OF run])
  have sums: "\<forall>ts g p c d. (ts, g) \<in> set (step_groups [] (ts_trace st)) \<longrightarrow>
            (\<forall>(ts', g')\<in>set (step_groups [] (ts_trace st)). \<forall>t\<in>set ts'. length (grad_wrt t) = length g0) \<longrightarrow>
            p < length g0 \<longrightarrow> c < d \<longrightarrow>
            (\<forall>t\<in>set ts. \<exists>v. grad_wrt t ! p = Some v \<and> length v = d) \<longrightarrow>
            (\<exists>w. g ! p = Some w \<and> length w = d \<and>
                 w ! c = (\<Sum>t\<leftarrow>ts. the (grad_wrt t ! p) ! c / of_int a))"
  proof (intro allI impI)
    fix ts g p c d
    assume m: "(ts, g) \<in> set (step_groups [] (ts_trace st))"
      and u: "\<forall>(ts', g')\<in>set (step_groups [] (ts_trace st)). \<forall>t\<in>set ts'. length (grad_wrt t) = length g0"
      and p: "p < length g0" and c: "c < d"
      and s: "\<forall>t\<in>set ts. \<exists>v. grad_wrt t ! p = Some v \<and> length v = d"
    from accumulated_uniform [OF acc refl u m]
    have ne: "ts \<noteq> []" and g: "g = scaled_grad_sum a (replicate (length g0) None) ts" by simp_all
    have all: "\<forall>t\<in>set ts. length (grad_wrt t) = length g0 \<and> (\<exists>v. grad_wrt t ! p = Some v \<and> length v = d)"
      using u m s by auto
    from scaled_grad_sum_component [OF ne all p c, of a]
    show "\<exists>w. g ! p = Some w \<and> length w = d \<and>
                 w ! c = (\<Sum>t\<leftarrow>ts. the (grad_wrt t ! p) ! c / of_int a)"
      unfolding g .
  qed
  from calls steps groups acc sums show ?thesis by (intro conjI)
qed

theorem train_model_accumulates_witness:
  "(1 :: int) \<le> 2 \<and>
   (\<exists>st printed.
      example_run = Inr (st, printed) \<and>
      map call_of (ts_trace st)
        = ZeroGradCall # concat (replicate 1 (schedule 2 (length [example_batch, example_batch, example_batch]))) \<and>
      map call_of (ts_trace st)
        = [ZeroGradCall, CriterionCall 1, BackwardCall, CriterionCall 2, BackwardCall, StepCall,
           ZeroGradCall, CriterionCall 3, BackwardCall, StepCall, ZeroGradCall] \<and>
      length (applied_grads (ts_trace st))
        = 1 * nat \<lceil>(of_nat (length [example_batch, example_batch, example_batch]) :: rat) / of_int 2\<rceil> \<and>
      map snd (step_groups [] (ts_trace st)) = applied_grads (ts_trace st) \<and>
      step_groups [] (ts_trace st)
        = [([\<lparr>item = 388, grad_wrt = [Some [1], Some [1], Some [1], Some [1]]\<rparr>,
             \<lparr>item = 388, grad_wrt = [Some [1], Some [1], Some [1], Some [1]]\<rparr>],
            [Some [1], Some [1], Some [1], Some [1]]),
           ([\<lparr>item = 364, grad_wrt = [Some [1], Some [1], Some [1], Some [1]]\<rparr>],
            [Some [1 / 2], Some [1 / 2], Some [1 / 2], Some [1 / 2]])] \<and>
      accumulated 2 (map (\<lambda>_. None) (parameters (Module_train True example_classifier)))
        (step_groups [] (ts_trace st)) \<and>
      (\<exists>w. [Some [1], Some [1], Some [1], Some [1 :: rat]] ! 0 = Some w \<and> length w = 1 \<and>
           w ! 0 = (\<Sum>t\<leftarrow>[\<lparr>item = 388, grad_wrt = [Some [1], Some [1], Some [1], Some [1]]\<rparr>,
                         \<lparr>item = 388, grad_wrt = [Some [1], Some [1], Some [1], Some [1]]\<rparr>].
                      the (grad_wrt t ! 0) ! 0 / of_int 2)))"
proof -
  let ?t = "\<lparr>item = 388, grad_wrt = [Some [1], Some [1], Some [1], Some [1 :: rat]]\<rparr>"
  let ?G = "[([?t, ?t], [Some [1], Some [1], Some [1], Some [1 :: rat]]),
           ([\<lparr>item = 364, grad_wrt = [Some [1], Some [1], Some [1], Some [1]]\<rparr>],
            [Some [1 / 2], Some [1 / 2], Some [1 / 2], Some [1 / 2]])]"
  from example_run_value obtain st printed where run: "example_run = Inr (st, printed)"
    and tr: "ts_trace st = [ZeroGrad,
             Criterion 1 \<lparr>item = 388, grad_wrt = [Some [1], Some [1], Some [1], Some [1]]\<rparr>, Backward,
             Criterion 2 \<lparr>item = 388, grad_wrt = [Some [1], Some [1], Some [1], Some [1]]\<rparr>, Backward,
             OptimizerStep [Some [1], Some [1], Some [1], Some [1]], ZeroGrad,
             Criterion 3 \<lparr>item = 364, grad_wrt = [Some [1], Some [1], Some [1], Some [1]]\<rparr>, Backward,
             OptimizerStep [Some [1 / 2], Some [1 / 2], Some [1 / 2], Some [1 / 2]], ZeroGrad]"
    by (cases example_run) auto
  have c: "map call_of (ts_trace st)
        = [ZeroGradCall, CriterionCall 1, BackwardCall, CriterionCall 2, BackwardCall, StepCall,
           ZeroGradCall, CriterionCall 3, BackwardCall, StepCall, ZeroGradCall]"
    by (simp add: tr)
  have g: "step_groups [] (ts_trace st) = ?G" by (simp add: tr)
  have a: "(1 :: int) \<le> 2" by simp
  note T = train_model_accumulates [OF a run]
  note t1 = T [THEN conjunct1]
  note t2 = T [THEN conjunct2, THEN conjunct1]
  note t3 = T [THEN conjunct2, THEN conjunct2, THEN conjunct1]
  note t4 = T [THEN conjunct2, THEN conjunct2, THEN conjunct2, THEN conjunct1]
  note t5 = T [THEN conjunct2, THEN conjunct2, THEN conjunct2, THEN conjunct2]
  have s: "\<exists>w. [Some [1], Some [1], Some [1], Some [1 :: rat]] ! 0 = Some w \<and> length w = 1 \<and>
           w ! 0 = (\<Sum>t\<leftarrow>[?t, ?t]. the (grad_wrt t ! 0) ! 0 / of_int 2)"
    by (rule t5 [rule_format, of "[?t, ?t]" _ 0 0 1]) (auto simp: g parameters_def)
  have body: "example_run = Inr (st, printed) \<and>
      map call_of (ts_trace st)
        = ZeroGradCall # concat (replicate 1 (schedule 2 (length [example_batch, example_batch, example_batch]))) \<and>
      map call_of (ts_trace st)
        = [ZeroGradCall, CriterionCall 1, BackwardCall, CriterionCall 2, BackwardCall, StepCall,
           ZeroGradCall, CriterionCall 3, BackwardCall, StepCall, ZeroGradCall] \<and>
      length (applied_grads (ts_trace st))
        = 1 * nat \<lceil>(of_nat (length [example_batch, example_batch, example_batch]) :: rat) / of_int 2\<rceil> \<and>
      map snd (step_groups [] (ts_trace st)) = applied_grads (ts_trace st) \<and>
      step_groups [] (ts_trace st) = ?G \<and>
      accumulated 2 (map (\<lambda>_. None) (parameters (Module_train True example_classifier)))
        (step_groups [] (ts_trace st)) \<and>
      (\<exists>w. [Some [1], Some [1], Some [1], Some [1 :: rat]] ! 0 = Some w \<and> length w = 1 \<and>
           w ! 0 = (\<Sum>t\<leftarrow>[?t, ?t]. the (grad_wrt t ! 0) ! 0 / of_int 2))"
    by (intro conjI) (fact run t1 c t2 t3 g t4 s)+
  show ?thesis
    apply (rule conjI [OF a])
    apply (rule exI [of _ st])
    apply (rule exI [of _ printed])
    apply (rule body)
    done
qed

subsection \<open>The reported loss\<close>

text \<open>
  Claim C9, as amended. When a call of \<open>train_model\<close> returns, the criterion has been
  called once for every batch of every epoch, and the average loss reported for an epoch
  is the arithmetic mean of the unscaled losses that the criterion returned for the
  batches of that epoch: the division by \<open>accumulation_steps\<close> before the backward pass
  and the multiplication by it in the running total cancel exactly. The value is not
  independent of \<open>accumulation_steps\<close>: see the counterexample below.
\<close>

theorem train_model_avg_loss:
  assumes "train_model fw model dl opt g0 num_epochs a = Inr (st, printed)"
  shows "length (criterion_values (ts_trace st)) = num_epochs * length dl \<and>
         printed = map (\<lambda>vs. sum_list vs / of_nat (length dl))
                     (chunks (length dl) (criterion_values (ts_trace st)))"
proof -
  let ?st0 = "optimizer_zero_grad \<lparr>ts_model = model, ts_optimizer = opt, ts_grads = g0, ts_trace = []\<rparr>"
  have te: "train_epochs fw a dl num_epochs (?st0, []) = Inr (st, printed)"
    using assms by (simp add: train_model_def)
  from train_epochs_printed [OF te] obtain vs where
    "criterion_values (ts_trace st) = criterion_values (ts_trace ?st0) @ vs"
    "length vs = num_epochs * length dl"
    "printed = [] @ map (\<lambda>c. sum_list c / of_nat (length dl)) (chunks (length dl) vs)" by blast
  moreover have "criterion_values (ts_trace ?st0) = []"
    by (simp add: optimizer_zero_grad_def log_event_def)
  ultimately show ?thesis by simp
qed

theorem train_model_avg_loss_witness:
  "\<exists>st printed.
      example_run = Inr (st, printed) \<and>
      criterion_values (ts_trace st) = [388, 388, 364] \<and>
      printed = [380] \<and>
      length (criterion_values (ts_trace st)) = 1 * length [example_batch, example_batch, example_batch] \<and>
      printed = map (\<lambda>vs. sum_list vs / of_nat (length [example_batch, example_batch, example_batch]))
                  (chunks (length [example_batch, example_batch, example_batch])
                     (criterion_values (ts_trace st)))"
proof -
  from example_run_value obtain st printed where run: "example_run = Inr (st, printed)"
    and tr: "ts_trace st = [ZeroGrad,
             Criterion 1 \<lparr>item = 388, grad_wrt = [Some [1], Some [1], Some [1], Some [1]]\<rparr>, Backward,
             Criterion 2 \<lparr>item = 388, grad_wrt = [Some [1], Some [1], Some [1], Some [1]]\<rparr>, Backward,
             OptimizerStep [Some [1], Some [1], Some [1], Some [1]], ZeroGrad,
             Criterion 3 \<lparr>item = 364, grad_wrt = [Some [1], Some [1], Some [1], Some [1]]\<rparr>, Backward,
             OptimizerStep [Some [1 / 2], Some [1 / 2], Some [1 / 2], Some [1 / 2]], ZeroGrad]"
    and p: "printed = [380]"
    by (cases example_run) auto
  have v: "criterion_values (ts_trace st) = [388, 388, 364]" by (simp add: tr)
  note T = train_model_avg_loss [OF run]
  note t1 = T [THEN conjunct1]
  note t2 = T [THEN conjunct2]
  have body: "example_run = Inr (st, printed) \<and>
      criterion_values (ts_trace st) = [388, 388, 364] \<and>
      printed = [380] \<and>
      length (criterion_values (ts_trace st)) = 1 * length [example_batch, example_batch, example_batch] \<and>
      printed = map (\<lambda>vs. sum_list vs / of_nat (length [example_batch, example_batch, example_batch]))
                  (chunks (length [example_batch, example_batch, example_batch])
                     (criterion_values (ts_trace st)))"
    by (intro conjI) (fact run v p t1 t2)+
  show ?thesis
    apply (rule exI [of _ st])
    apply (rule exI [of _ printed])
    apply (rule body)
    done
qed

text \<open>
  Counterexample to claim C9 as stated: the reported value is not independent of
  \<open>a\<close>. On the same model and the same two batches, \<open>a = 1\<close> steps after the first
  batch, so the second loss is computed with the updated weight and the report is
  \<open>1/2\<close>; \<open>a = 2\<close> steps only after the second batch and the report is \<open>1\<close>.
\<close>

theorem train_model_avg_loss_counterexample:
  "map_sum id snd (train_model example_framework 1 [1, 1] () [None] 1 1) = Inr [1 / 2] \<and>
   map_sum id snd (train_model example_framework 1 [1, 1] () [None] 1 2) = Inr [1]"
  by code_simp


section \<open>Properties of gradient tracking\<close>

lemma embeddings_block_graph:
  "embeddings_block self x y = Inr (emb, g) \<Longrightarrow>
     g = (if enc_training (bert self) then {EncoderParams} else {})"
  by (auto simp: embeddings_block_def bind_err_def Let_def record_op_def split: sum.splits)

lemma classification_head_graph:
  "classification_head act self ge emb g0 = Inr (logits, g) \<Longrightarrow>
     g = (if ge then {FcParams, LstmParams, CnnParams} \<union> g0 else {})"
  by (auto simp: classification_head_def bind_err_def Let_def record_op_def split: sum.splits)

lemma forward_graph:
  assumes "forward act self ge x y = Inr (logits, g)"
  shows "g = (if ge then {FcParams, LstmParams, CnnParams} \<union>
                 (if enc_training (bert self) then {EncoderParams} else {}) else {})"
proof -
  from assms obtain emb g0 where e: "embeddings_block self x y = Inr (emb, g0)"
    and h: "classification_head act self ge emb g0 = Inr (logits, g)"
    by (auto simp: forward_def bind_err_def split: sum.splits)
  from embeddings_block_graph [OF e] classification_head_graph [OF h] show ?thesis by simp
qed

lemma apply_update_head_bert:
  "fst pg \<noteq> EncoderParams \<Longrightarrow> bert (apply_update rule opt pg self) = bert self"
  by (cases pg; cases "fst pg") (auto simp: apply_update_def split: option.splits)

lemma single_batch_update:
  assumes a: "1 \<le> a"
    and run: "train_model (classifier_framework act ag rule) self [b]
               (AdamW_init (parameters self) rate s0) (map (\<lambda>_. None) (parameters self)) 1 a
             = Inr (st, printed)"
  shows "enc_params (bert (ts_model st)) =
           (if enc_training (bert self)
            then rule_encoder rule rate s0 (map (\<lambda>x. x / of_int a) (derivative ag self b EncoderParams))
                   (enc_params (bert self))
            else enc_params (bert self))"
proof -
  have a0: "a \<noteq> 0" using a by simp
  from run obtain outputs graph where f: "forward act self True (b_input_ids b) (b_attention_mask b) = Inr (outputs, graph)"
    by (cases "forward act self True (b_input_ids b) (b_attention_mask b)")
       (auto simp: train_model_def classifier_framework_def classifier_loss_def bind_err_def
          optimizer_zero_grad_def log_event_def One_nat_def)
  from forward_graph [OF f] have g: "graph = {FcParams, LstmParams, CnnParams} \<union>
                 (if enc_training (bert self) then {EncoderParams} else {})" by simp
  show ?thesis
  proof (cases "enc_training (bert self)")
    case True
    with run f g a0 show ?thesis
      by (auto simp: train_model_def classifier_framework_def classifier_loss_def bind_err_def
          optimizer_zero_grad_def optimizer_step_def log_event_def One_nat_def parameters_def
          backward_def tensor_div_def accumulate_def py_mod_def Let_def AdamW_step_def
          AdamW_init_def apply_update_def split: if_splits)
  next
    case False
    with run f g a0 show ?thesis
      by (auto simp: train_model_def classifier_framework_def classifier_loss_def bind_err_def
          optimizer_zero_grad_def optimizer_step_def log_event_def One_nat_def parameters_def
          backward_def tensor_div_def accumulate_def py_mod_def Let_def AdamW_step_def
          AdamW_init_def apply_update_def split: if_splits)
  qed
qed

lemma fold_apply_update_head:
  "\<forall>pg\<in>set pgs. fst pg \<noteq> EncoderParams \<Longrightarrow> bert (fold (apply_update rule opt) pgs self) = bert self"
  by (induction pgs arbitrary: self) (auto simp: apply_update_head_bert)

lemma AdamW_step_training:
  "opt_params opt = [EncoderParams, CnnParams, LstmParams, FcParams] \<Longrightarrow>
     enc_training (bert (snd (AdamW_step rule opt self gs))) = enc_training (bert self)"
proof -
  assume p: "opt_params opt = [EncoderParams, CnnParams, LstmParams, FcParams]"
  have "\<And>pgs m. enc_training (bert (fold (apply_update rule opt) pgs m)) = enc_training (bert m)"
  proof -
    fix pgs m show "enc_training (bert (fold (apply_update rule opt) pgs m)) = enc_training (bert m)"
    proof (induction pgs arbitrary: m)
      case Nil then show ?case by simp
    next
      case (Cons pg pgs)
      have "enc_training (bert (apply_update rule opt pg m)) = enc_training (bert m)"
        by (cases pg; cases "fst pg") (auto simp: apply_update_def split: option.splits)
      with Cons.IH show ?case by simp
    qed
  qed
  then show ?thesis by (simp add: AdamW_step_def)
qed

lemma AdamW_step_frozen:
  assumes "opt_params opt = [EncoderParams, CnnParams, LstmParams, FcParams]" "gs \<noteq> []" "hd gs = None"
  shows "bert (snd (AdamW_step rule opt self gs)) = bert self"
proof -
  from assms(2,3) obtain rest where gs: "gs = None # rest" by (cases gs) auto
  have "\<forall>pg\<in>set (zip [CnnParams, LstmParams, FcParams] rest). fst pg \<noteq> EncoderParams"
    by (auto dest!: set_zip_leftD)
  from fold_apply_update_head [OF this]
  show ?thesis using assms(1) gs by (simp add: AdamW_step_def apply_update_def)
qed

lemma classifier_loss_grads:
  assumes "classifier_loss act ag self b = Inr t"
  shows "length (grad_wrt t) = 4 \<and> (hd (grad_wrt t) \<noteq> None \<longleftrightarrow> enc_training (bert self))"
proof -
  from assms obtain outputs graph where
    f: "forward act self True (b_input_ids b) (b_attention_mask b) = Inr (outputs, graph)"
    and t: "t = \<lparr>item = criterion ag outputs (b_labels b),
            grad_wrt = map (\<lambda>p. if p \<in> graph then Some (derivative ag self b p) else None)
                         (parameters self)\<rparr>"
    by (auto simp: classifier_loss_def bind_err_def split: sum.splits)
  from forward_graph [OF f] show ?thesis unfolding t by (simp add: parameters_def)
qed

lemma train_batches_encoder:
  assumes fw: "fw = classifier_framework act ag rule"
  shows "train_batches fw a n j bs (st, tot) = Inr (st', tot') \<Longrightarrow>
     opt_params (ts_optimizer st) = [EncoderParams, CnnParams, LstmParams, FcParams] \<Longrightarrow>
     length (ts_grads st) = 4 \<Longrightarrow>
     opt_params (ts_optimizer st') = [EncoderParams, CnnParams, LstmParams, FcParams] \<and>
     length (ts_grads st') = 4 \<and>
     enc_training (bert (ts_model st')) = enc_training (bert (ts_model st)) \<and>
     (\<exists>new. applied_grads (ts_trace st') = applied_grads (ts_trace st) @ new \<and>
        (enc_training (bert (ts_model st)) \<longrightarrow> (\<forall>g\<in>set new. g \<noteq> [] \<and> hd g \<noteq> None))) \<and>
     (\<not> enc_training (bert (ts_model st)) \<longrightarrow> hd (ts_grads st) = None \<longrightarrow>
        bert (ts_model st') = bert (ts_model st) \<and> hd (ts_grads st') = None)"
proof (induction bs arbitrary: j st tot)
  case Nil
  then show ?case by simp
next
  case (Cons b bs)
  let ?P = "[EncoderParams, CnnParams, LstmParams, FcParams]"
  from train_batches_Cons_state [OF Cons.prems(1)]
  obtain t g st2 where h: "loss_of fw (ts_model st) b = Inr t"
    "g = map2 accumulate (ts_grads st) (grad_wrt (tensor_div t a))"
    "st2 = log_event Backward ((log_event (Criterion (j + 1) t) st)\<lparr>ts_grads := g\<rparr>)"
    "train_batches fw a n (j + 1) bs
             (if step_due a n (j + 1) then optimizer_zero_grad (optimizer_step fw st2) else st2,
              tot + item (tensor_div t a) * of_int a) = Inr (st', tot')"
    by blast
  from h(1) have cl: "classifier_loss act ag (ts_model st) b = Inr t"
    by (simp add: fw classifier_framework_def)
  from classifier_loss_grads [OF cl]
  have lt: "length (grad_wrt t) = 4" and ht: "hd (grad_wrt t) \<noteq> None \<longleftrightarrow> enc_training (bert (ts_model st))"
    by auto
  from lt obtain t0 trest where gw: "grad_wrt t = t0 # trest" by (cases "grad_wrt t") auto
  from Cons.prems(3) obtain g0 grest where gs: "ts_grads st = g0 # grest" by (cases "ts_grads st") auto
  have lg: "length g = 4" using h(2) lt Cons.prems(3) by (simp add: tensor_div_def)
  have hg: "hd g = accumulate g0 (map_option (map (\<lambda>x. x / of_int a)) t0)"
    using h(2) gw gs by (simp add: tensor_div_def)
  have hg_train: "enc_training (bert (ts_model st)) \<Longrightarrow> hd g \<noteq> None"
    using hg ht gw by (auto simp: accumulate_def split: option.splits)
  have hg_eval: "\<not> enc_training (bert (ts_model st)) \<Longrightarrow> hd (ts_grads st) = None \<Longrightarrow> hd g = None"
    using hg ht gw gs by (auto simp: accumulate_def split: option.splits)
  have gne: "g \<noteq> []" using lg by auto
  define st3 where "st3 = (if step_due a n (j + 1) then optimizer_zero_grad (optimizer_step fw st2) else st2)"
  have run3: "train_batches fw a n (j + 1) bs (st3, tot + item (tensor_div t a) * of_int a) = Inr (st', tot')"
    using h(4) by (simp only: st3_def)
  have s2: "ts_model st2 = ts_model st" "ts_optimizer st2 = ts_optimizer st" "ts_grads st2 = g"
    "ts_trace st2 = ts_trace st @ [Criterion (j + 1) t, Backward]"
    by (simp_all add: h(3) log_event_def)
  have op3: "opt_params (ts_optimizer st3) = ?P"
    using s2 Cons.prems(2)
    by (simp add: st3_def optimizer_zero_grad_def optimizer_step_def log_event_def fw
          classifier_framework_def AdamW_step_def split: prod.splits)
  have lg3: "length (ts_grads st3) = 4"
    using s2 lg
    by (simp add: st3_def optimizer_zero_grad_def optimizer_step_def log_event_def split: prod.splits)
  have m3: "ts_model st3 = (if step_due a n (j + 1)
        then snd (AdamW_step rule (ts_optimizer st) (ts_model st) g) else ts_model st)"
    using s2 by (simp add: st3_def optimizer_zero_grad_def optimizer_step_def log_event_def fw
          classifier_framework_def split: prod.splits)
  have tr3: "enc_training (bert (ts_model st3)) = enc_training (bert (ts_model st))"
    unfolding m3 using AdamW_step_training [OF Cons.prems(2)] by simp
  have ag3: "applied_grads (ts_trace st3) = applied_grads (ts_trace st) @
               (if step_due a n (j + 1) then [g] else [])"
    using s2 by (simp add: st3_def optimizer_zero_grad_def optimizer_step_def log_event_def
          applied_grads_append split: prod.splits)
  have hd3: "\<not> enc_training (bert (ts_model st)) \<Longrightarrow> hd (ts_grads st) = None \<Longrightarrow>
       bert (ts_model st3) = bert (ts_model st) \<and> hd (ts_grads st3) = None"
  proof -
    assume e: "\<not> enc_training (bert (ts_model st))" "hd (ts_grads st) = None"
    from hg_eval [OF e] have hn: "hd g = None" .
    have "bert (ts_model st3) = bert (ts_model st)"
      unfolding m3 using AdamW_step_frozen [OF Cons.prems(2) gne hn] by simp
    moreover have "hd (ts_grads st3) = None"
      using s2 hn gne
      by (cases g) (simp_all add: st3_def optimizer_zero_grad_def optimizer_step_def log_event_def
            split: prod.splits)
    ultimately show ?thesis by simp
  qed
  note IH = Cons.IH [OF run3 op3 lg3]
  have ih1: "opt_params (ts_optimizer st') = ?P" using IH by (rule conjunct1)
  have ih2: "length (ts_grads st') = 4" using IH by (rule conjunct2 [THEN conjunct1])
  have ih3: "enc_training (bert (ts_model st')) = enc_training (bert (ts_model st3))"
    using IH by (rule conjunct2 [THEN conjunct2, THEN conjunct1])
  have ihex: "\<exists>new. applied_grads (ts_trace st') = applied_grads (ts_trace st3) @ new \<and>
        (enc_training (bert (ts_model st3)) \<longrightarrow> (\<forall>g\<in>set new. g \<noteq> [] \<and> hd g \<noteq> None))"
    using IH by (rule conjunct2 [THEN conjunct2, THEN conjunct2, THEN conjunct1])
  have ih6: "\<not> enc_training (bert (ts_model st3)) \<longrightarrow> hd (ts_grads st3) = None \<longrightarrow>
        bert (ts_model st') = bert (ts_model st3) \<and> hd (ts_grads st') = None"
    using IH by (rule conjunct2 [THEN conjunct2, THEN conjunct2, THEN conjunct2])
  from ihex obtain new where ih4: "applied_grads (ts_trace st') = applied_grads (ts_trace st3) @ new"
    and ih5: "enc_training (bert (ts_model st3)) \<longrightarrow> (\<forall>g\<in>set new. g \<noteq> [] \<and> hd g \<noteq> None)"
    by (elim exE conjE)
  let ?new = "(if step_due a n (j + 1) then [g] else []) @ new"
  have "applied_grads (ts_trace st') = applied_grads (ts_trace st) @ ?new"
    using ih4 ag3 by simp
  moreover have "enc_training (bert (ts_model st)) \<longrightarrow> (\<forall>g\<in>set ?new. g \<noteq> [] \<and> hd g \<noteq> None)"
    using ih5 tr3 hg_train gne by auto
  ultimately have ex: "\<exists>new. applied_grads (ts_trace st') = applied_grads (ts_trace st) @ new \<and>
        (enc_training (bert (ts_model st)) \<longrightarrow> (\<forall>g\<in>set new. g \<noteq> [] \<and> hd g \<noteq> None))" by blast
  have fr: "\<not> enc_training (bert (ts_model st)) \<longrightarrow> hd (ts_grads st) = None \<longrightarrow>
        bert (ts_model st') = bert (ts_model st) \<and> hd (ts_grads st') = None"
    using ih6 tr3 hd3 by auto
  have tr: "enc_training (bert (ts_model st')) = enc_training (bert (ts_model st))"
    using ih3 tr3 by simp
  from ih1 ih2 tr ex fr show ?case by (intro conjI)
qed

lemma train_epochs_encoder:
  assumes fw: "fw = classifier_framework act ag rule"
  shows "train_epochs fw a dl k (st, printed) = Inr (st', printed') \<Longrightarrow>
     opt_params (ts_optimizer st) = [EncoderParams, CnnParams, LstmParams, FcParams] \<Longrightarrow>
     length (ts_grads st) = 4 \<Longrightarrow>
     (\<exists>new. applied_grads (ts_trace st') = applied_grads (ts_trace st) @ new \<and>
        (enc_training (bert (ts_model st)) \<longrightarrow> (\<forall>g\<in>set new. g \<noteq> [] \<and> hd g \<noteq> None))) \<and>
     (\<not> enc_training (bert (ts_model st)) \<longrightarrow> hd (ts_grads st) = None \<longrightarrow>
        bert (ts_model st') = bert (ts_model st))"
proof (induction k arbitrary: st printed)
  case 0
  then show ?case by simp
next
  case (Suc k)
  from Suc.prems(1) obtain st1 tot where tb: "train_batches fw a (length dl) 0 dl (st, 0) = Inr (st1, tot)"
    by (cases "train_batches fw a (length dl) 0 dl (st, 0)") (auto simp: bind_err_def)
  with Suc.prems(1) have te: "train_epochs fw a dl k (st1, printed @ [tot / of_nat (length dl)]) = Inr (st', printed')"
    by (auto simp: bind_err_def split: if_splits)
  note B = train_batches_encoder [OF fw tb Suc.prems(2) Suc.prems(3)]
  have b1: "opt_params (ts_optimizer st1) = [EncoderParams, CnnParams, LstmParams, FcParams]"
    using B by (rule conjunct1)
  have b2: "length (ts_grads st1) = 4" using B by (rule conjunct2 [THEN conjunct1])
  have b3: "enc_training (bert (ts_model st1)) = enc_training (bert (ts_model st))"
    using B by (rule conjunct2 [THEN conjunct2, THEN conjunct1])
  have bex: "\<exists>new. applied_grads (ts_trace st1) = applied_grads (ts_trace st) @ new \<and>
        (enc_training (bert (ts_model st)) \<longrightarrow> (\<forall>g\<in>set new. g \<noteq> [] \<and> hd g \<noteq> None))"
    using B by (rule conjunct2 [THEN conjunct2, THEN conjunct2, THEN conjunct1])
  have b6: "\<not> enc_training (bert (ts_model st)) \<longrightarrow> hd (ts_grads st) = None \<longrightarrow>
        bert (ts_model st1) = bert (ts_model st) \<and> hd (ts_grads st1) = None"
    using B by (rule conjunct2 [THEN conjunct2, THEN conjunct2, THEN conjunct2])
  from bex obtain new1 where n1: "applied_grads (ts_trace st1) = applied_grads (ts_trace st) @ new1"
    and n1g: "enc_training (bert (ts_model st)) \<longrightarrow> (\<forall>g\<in>set new1. g \<noteq> [] \<and> hd g \<noteq> None)"
    by (elim exE conjE)
  note IH = Suc.IH [OF te b1 b2]
  have iex: "\<exists>new. applied_grads (ts_trace st') = applied_grads (ts_trace st1) @ new \<and>
        (enc_training (bert (ts_model st1)) \<longrightarrow> (\<forall>g\<in>set new. g \<noteq> [] \<and> hd g \<noteq> None))"
    using IH by (rule conjunct1)
  have i2: "\<not> enc_training (bert (ts_model st1)) \<longrightarrow> hd (ts_grads st1) = None \<longrightarrow>
        bert (ts_model st') = bert (ts_model st1)"
    using IH by (rule conjunct2)
  from iex obtain new2 where n2: "applied_grads (ts_trace st') = applied_grads (ts_trace st1) @ new2"
    and n2g: "enc_training (bert (ts_model st1)) \<longrightarrow> (\<forall>g\<in>set new2. g \<noteq> [] \<and> hd g \<noteq> None)"
    by (elim exE conjE)
  have "applied_grads (ts_trace st') = applied_grads (ts_trace st) @ (new1 @ new2)"
    using n1 n2 by simp
  moreover have "enc_training (bert (ts_model st)) \<longrightarrow> (\<forall>g\<in>set (new1 @ new2). g \<noteq> [] \<and> hd g \<noteq> None)"
    using n1g n2g b3 by auto
  ultimately have ex: "\<exists>new. applied_grads (ts_trace st') = applied_grads (ts_trace st) @ new \<and>
        (enc_training (bert (ts_model st)) \<longrightarrow> (\<forall>g\<in>set new. g \<noteq> [] \<and> hd g \<noteq> None))" by blast
  have fr: "\<not> enc_training (bert (ts_model st)) \<longrightarrow> hd (ts_grads st) = None \<longrightarrow>
        bert (ts_model st') = bert (ts_model st)"
    using b6 i2 b3 by simp
  from ex fr show ?case by (intro conjI)
qed

lemma train_model_encoder:
  assumes "train_model (classifier_framework act ag rule) self dl
             (AdamW_init (parameters self) rate s0) (map (\<lambda>_. None) (parameters self)) num_epochs a
           = Inr (st, printed)"
  shows "(enc_training (bert self) \<longrightarrow> (\<forall>g\<in>set (applied_grads (ts_trace st)). g \<noteq> [] \<and> hd g \<noteq> None)) \<and>
         (\<not> enc_training (bert self) \<longrightarrow> bert (ts_model st) = bert self)"
proof -
  let ?st0 = "optimizer_zero_grad \<lparr>ts_model = self, ts_optimizer = AdamW_init (parameters self) rate s0,
                 ts_grads = map (\<lambda>_. None) (parameters self), ts_trace = []\<rparr>"
  have te: "train_epochs (classifier_framework act ag rule) a dl num_epochs (?st0, []) = Inr (st, printed)"
    using assms by (simp add: train_model_def)
  have p: "opt_params (ts_optimizer ?st0) = [EncoderParams, CnnParams, LstmParams, FcParams]"
    by (simp add: optimizer_zero_grad_def log_event_def AdamW_init_def parameters_def)
  have l: "length (ts_grads ?st0) = 4"
    by (simp add: optimizer_zero_grad_def log_event_def parameters_def)
  have h1: "hd (ts_grads ?st0) = None"
    by (simp add: optimizer_zero_grad_def log_event_def parameters_def)
  have h2: "ts_model ?st0 = self"
    by (simp add: optimizer_zero_grad_def log_event_def)
  have h3: "applied_grads (ts_trace ?st0) = []"
    by (simp add: optimizer_zero_grad_def log_event_def)
  note h = h1 h2 h3
  note E = train_epochs_encoder [OF refl te p l]
  have eex: "\<exists>new. applied_grads (ts_trace st) = applied_grads (ts_trace ?st0) @ new \<and>
        (enc_training (bert (ts_model ?st0)) \<longrightarrow> (\<forall>g\<in>set new. g \<noteq> [] \<and> hd g \<noteq> None))"
    using E by (rule conjunct1)
  have e2: "\<not> enc_training (bert (ts_model ?st0)) \<longrightarrow> hd (ts_grads ?st0) = None \<longrightarrow>
        bert (ts_model st) = bert (ts_model ?st0)"
    using E by (rule conjunct2)
  from eex obtain new where n: "applied_grads (ts_trace st) = applied_grads (ts_trace ?st0) @ new"
    and ng: "enc_training (bert (ts_model ?st0)) \<longrightarrow> (\<forall>g\<in>set new. g \<noteq> [] \<and> hd g \<noteq> None)"
    by (elim exE conjE)
  have "enc_training (bert self) \<longrightarrow> (\<forall>g\<in>set (applied_grads (ts_trace st)). g \<noteq> [] \<and> hd g \<noteq> None)"
    using n ng h by simp
  moreover have "\<not> enc_training (bert self) \<longrightarrow> bert (ts_model st) = bert self"
    using e2 h by simp
  ultimately show ?thesis by (intro conjI)
qed

subsection \<open>The updates of the encoder\<close>

lemma AdamW_step_encoder:
  assumes "opt_params opt = [EncoderParams, CnnParams, LstmParams, FcParams]" "length gs = 4"
  shows "enc_params (bert (snd (AdamW_step rule opt self gs))) =
           (case gs of Some g # rest \<Rightarrow> rule_encoder rule (lr opt) (opt_state opt) g (enc_params (bert self))
            | _ \<Rightarrow> enc_params (bert self))"
proof -
  from assms(2) obtain g0 g1 g2 g3 where gs: "gs = [g0, g1, g2, g3]"
    by (cases gs; cases "tl gs"; cases "tl (tl gs)"; cases "tl (tl (tl gs))") auto
  show ?thesis unfolding gs
    by (simp add: AdamW_step_def assms(1) apply_update_def split: option.splits)
qed

lemma train_batches_replay:
  assumes fw: "fw = classifier_framework act ag rule"
  shows "train_batches fw a n j bs (st, tot) = Inr (st', tot') \<Longrightarrow>
     opt_params (ts_optimizer st) = [EncoderParams, CnnParams, LstmParams, FcParams] \<Longrightarrow>
     length (ts_grads st) = 4 \<Longrightarrow>
     opt_params (ts_optimizer st') = [EncoderParams, CnnParams, LstmParams, FcParams] \<and>
     length (ts_grads st') = 4 \<and>
     lr (ts_optimizer st') = lr (ts_optimizer st) \<and>
     (\<exists>new. applied_grads (ts_trace st') = applied_grads (ts_trace st) @ new \<and>
        (opt_state (ts_optimizer st'), enc_params (bert (ts_model st')))
          = encoder_replay rule (lr (ts_optimizer st))
              (opt_state (ts_optimizer st), enc_params (bert (ts_model st))) new)"
proof (induction bs arbitrary: j st tot)
  case Nil
  then show ?case by simp
next
  case (Cons b bs)
  let ?P = "[EncoderParams, CnnParams, LstmParams, FcParams]"
  from train_batches_Cons_state [OF Cons.prems(1)]
  obtain t g st2 where h: "loss_of fw (ts_model st) b = Inr t"
    "g = map2 accumulate (ts_grads st) (grad_wrt (tensor_div t a))"
    "st2 = log_event Backward ((log_event (Criterion (j + 1) t) st)\<lparr>ts_grads := g\<rparr>)"
    "train_batches fw a n (j + 1) bs
             (if step_due a n (j + 1) then optimizer_zero_grad (optimizer_step fw st2) else st2,
              tot + item (tensor_div t a) * of_int a) = Inr (st', tot')"
    by blast
  from h(1) have cl: "classifier_loss act ag (ts_model st) b = Inr t"
    by (simp add: fw classifier_framework_def)
  from classifier_loss_grads [OF cl] have lt: "length (grad_wrt t) = 4" by simp
  have lg: "length g = 4" using h(2) lt Cons.prems(3) by (simp add: tensor_div_def)
  define st3 where "st3 = (if step_due a n (j + 1) then optimizer_zero_grad (optimizer_step fw st2) else st2)"
  have run3: "train_batches fw a n (j + 1) bs (st3, tot + item (tensor_div t a) * of_int a) = Inr (st', tot')"
    using h(4) by (simp only: st3_def)
  have s2: "ts_model st2 = ts_model st" "ts_optimizer st2 = ts_optimizer st" "ts_grads st2 = g"
    "ts_trace st2 = ts_trace st @ [Criterion (j + 1) t, Backward]"
    by (simp_all add: h(3) log_event_def)
  have o3: "ts_optimizer st3 = (if step_due a n (j + 1)
        then fst (AdamW_step rule (ts_optimizer st) (ts_model st) g) else ts_optimizer st)"
    using s2 by (simp add: st3_def optimizer_zero_grad_def optimizer_step_def log_event_def fw
          classifier_framework_def split: prod.splits)
  have m3: "ts_model st3 = (if step_due a n (j + 1)
        then snd (AdamW_step rule (ts_optimizer st) (ts_model st) g) else ts_model st)"
    using s2 by (simp add: st3_def optimizer_zero_grad_def optimizer_step_def log_event_def fw
          classifier_framework_def split: prod.splits)
  have op3: "opt_params (ts_optimizer st3) = ?P"
    unfolding o3 using Cons.prems(2) by (simp add: AdamW_step_def)
  have lr3: "lr (ts_optimizer st3) = lr (ts_optimizer st)"
    unfolding o3 by (simp add: AdamW_step_def)
  have lg3: "length (ts_grads st3) = 4"
    using s2 lg
    by (simp add: st3_def optimizer_zero_grad_def optimizer_step_def log_event_def split: prod.splits)
  have ag3: "applied_grads (ts_trace st3) = applied_grads (ts_trace st) @
               (if step_due a n (j + 1) then [g] else [])"
    using s2 by (simp add: st3_def optimizer_zero_grad_def optimizer_step_def log_event_def
          applied_grads_append split: prod.splits)
  have rp3: "(opt_state (ts_optimizer st3), enc_params (bert (ts_model st3)))
      = encoder_replay rule (lr (ts_optimizer st))
          (opt_state (ts_optimizer st), enc_params (bert (ts_model st)))
          (if step_due a n (j + 1) then [g] else [])"
  proof (cases "step_due a n (j + 1)")
    case True
    have "opt_state (ts_optimizer st3) = rule_state rule (opt_state (ts_optimizer st)) g"
      unfolding o3 using True by (simp add: AdamW_step_def)
    moreover have "enc_params (bert (ts_model st3)) =
        (case g of Some e # rest \<Rightarrow> rule_encoder rule (lr (ts_optimizer st)) (opt_state (ts_optimizer st)) e
                                   (enc_params (bert (ts_model st)))
         | _ \<Rightarrow> enc_params (bert (ts_model st)))"
      unfolding m3 using True AdamW_step_encoder [OF Cons.prems(2) lg] by simp
    ultimately show ?thesis using True by simp
  next
    case False
    then show ?thesis unfolding o3 m3 by simp
  qed
  note IH = Cons.IH [OF run3 op3 lg3]
  have ih1: "opt_params (ts_optimizer st') = ?P" using IH by (rule conjunct1)
  have ih2: "length (ts_grads st') = 4" using IH by (rule conjunct2 [THEN conjunct1])
  have ih3: "lr (ts_optimizer st') = lr (ts_optimizer st3)"
    using IH by (rule conjunct2 [THEN conjunct2, THEN conjunct1])
  have ihex: "\<exists>new. applied_grads (ts_trace st') = applied_grads (ts_trace st3) @ new \<and>
        (opt_state (ts_optimizer st'), enc_params (bert (ts_model st')))
          = encoder_replay rule (lr (ts_optimizer st3))
              (opt_state (ts_optimizer st3), enc_params (bert (ts_model st3))) new"
    using IH by (rule conjunct2 [THEN conjunct2, THEN conjunct2])
  from ihex obtain new where ih4: "applied_grads (ts_trace st') = applied_grads (ts_trace st3) @ new"
    and ih5: "(opt_state (ts_optimizer st'), enc_params (bert (ts_model st')))
          = encoder_replay rule (lr (ts_optimizer st3))
              (opt_state (ts_optimizer st3), enc_params (bert (ts_model st3))) new"
    by (elim exE conjE)
  let ?new = "(if step_due a n (j + 1) then [g] else []) @ new"
  have e1: "applied_grads (ts_trace st') = applied_grads (ts_trace st) @ ?new"
    using ih4 ag3 by simp
  have e2: "(opt_state (ts_optimizer st'), enc_params (bert (ts_model st')))
          = encoder_replay rule (lr (ts_optimizer st))
              (opt_state (ts_optimizer st), enc_params (bert (ts_model st))) ?new"
    unfolding ih5 lr3 rp3 by (cases "step_due a n (j + 1)") simp_all
  from e1 e2 have ex: "\<exists>new. applied_grads (ts_trace st') = applied_grads (ts_trace st) @ new \<and>
        (opt_state (ts_optimizer st'), enc_params (bert (ts_model st')))
          = encoder_replay rule (lr (ts_optimizer st))
              (opt_state (ts_optimizer st), enc_params (bert (ts_model st))) new" by blast
  have l: "lr (ts_optimizer st') = lr (ts_optimizer st)" using ih3 lr3 by simp
  from ih1 ih2 l ex show ?case by (intro conjI)
qed

lemma encoder_replay_append:
  "encoder_replay rule rate sw (xs @ ys) = encoder_replay rule rate (encoder_replay rule rate sw xs) ys"
  by (induction rule rate sw xs rule: encoder_replay.induct) simp_all

lemma train_epochs_replay:
  assumes fw: "fw = classifier_framework act ag rule"
  shows "train_epochs fw a dl k (st, printed) = Inr (st', printed') \<Longrightarrow>
     opt_params (ts_optimizer st) = [EncoderParams, CnnParams, LstmParams, FcParams] \<Longrightarrow>
     length (ts_grads st) = 4 \<Longrightarrow>
     (\<exists>new. applied_grads (ts_trace st') = applied_grads (ts_trace st) @ new \<and>
        (opt_state (ts_optimizer st'), enc_params (bert (ts_model st')))
          = encoder_replay rule (lr (ts_optimizer st))
              (opt_state (ts_optimizer st), enc_params (bert (ts_model st))) new)"
proof (induction k arbitrary: st printed)
  case 0
  then show ?case by simp
next
  case (Suc k)
  from Suc.prems(1) obtain st1 tot where tb: "train_batches fw a (length dl) 0 dl (st, 0) = Inr (st1, tot)"
    by (cases "train_batches fw a (length dl) 0 dl (st, 0)") (auto simp: bind_err_def)
  with Suc.prems(1) have te: "train_epochs fw a dl k (st1, printed @ [tot / of_nat (length dl)]) = Inr (st', printed')"
    by (auto simp: bind_err_def split: if_splits)
  note B = train_batches_replay [OF fw tb Suc.prems(2) Suc.prems(3)]
  have b1: "opt_params (ts_optimizer st1) = [EncoderParams, CnnParams, LstmParams, FcParams]"
    using B by (rule conjunct1)
  have b2: "length (ts_grads st1) = 4" using B by (rule conjunct2 [THEN conjunct1])
  have b3: "lr (ts_optimizer st1) = lr (ts_optimizer st)"
    using B by (rule conjunct2 [THEN conjunct2, THEN conjunct1])
  have bex: "\<exists>new. applied_grads (ts_trace st1) = applied_grads (ts_trace st) @ new \<and>
        (opt_state (ts_optimizer st1), enc_params (bert (ts_model st1)))
          = encoder_replay rule (lr (ts_optimizer st))
              (opt_state (ts_optimizer st), enc_params (bert (ts_model st))) new"
    using B by (rule conjunct2 [THEN conjunct2, THEN conjunct2])
  from bex obtain new1 where n1: "applied_grads (ts_trace st1) = applied_grads (ts_trace st) @ new1"
    and r1: "(opt_state (ts_optimizer st1), enc_params (bert (ts_model st1)))
          = encoder_replay rule (lr (ts_optimizer st))
              (opt_state (ts_optimizer st), enc_params (bert (ts_model st))) new1"
    by (elim exE conjE)
  from Suc.IH [OF te b1 b2] obtain new2 where n2: "applied_grads (ts_trace st') = applied_grads (ts_trace st1) @ new2"
    and r2: "(opt_state (ts_optimizer st'), enc_params (bert (ts_model st')))
          = encoder_replay rule (lr (ts_optimizer st1))
              (opt_state (ts_optimizer st1), enc_params (bert (ts_model st1))) new2"
    by (elim exE conjE)
  have e1: "applied_grads (ts_trace st') = applied_grads (ts_trace st) @ (new1 @ new2)"
    using n1 n2 by simp
  have e2: "(opt_state (ts_optimizer st'), enc_params (bert (ts_model st')))
          = encoder_replay rule (lr (ts_optimizer st))
              (opt_state (ts_optimizer st), enc_params (bert (ts_model st))) (new1 @ new2)"
    unfolding r2 b3 r1 by (simp add: encoder_replay_append)
  from e1 e2 show ?case by blast
qed

lemma train_model_replay:
  assumes "train_model (classifier_framework act ag rule) self dl
             (AdamW_init (parameters self) rate s0) (map (\<lambda>_. None) (parameters self)) num_epochs a
           = Inr (st, printed)"
  shows "enc_params (bert (ts_model st))
           = snd (encoder_replay rule rate (s0, enc_params (bert self)) (applied_grads (ts_trace st)))"
proof -
  let ?st0 = "optimizer_zero_grad \<lparr>ts_model = self, ts_optimizer = AdamW_init (parameters self) rate s0,
                 ts_grads = map (\<lambda>_. None) (parameters self), ts_trace = []\<rparr>"
  have te: "train_epochs (classifier_framework act ag rule) a dl num_epochs (?st0, []) = Inr (st, printed)"
    using assms by (simp add: train_model_def)
  have p: "opt_params (ts_optimizer ?st0) = [EncoderParams, CnnParams, LstmParams, FcParams]"
    by (simp add: optimizer_zero_grad_def log_event_def AdamW_init_def parameters_def)
  have l: "length (ts_grads ?st0) = 4"
    by (simp add: optimizer_zero_grad_def log_event_def parameters_def)
  have h: "ts_model ?st0 = self" "applied_grads (ts_trace ?st0) = []"
    "lr (ts_optimizer ?st0) = rate" "opt_state (ts_optimizer ?st0) = s0"
    by (simp_all add: optimizer_zero_grad_def log_event_def AdamW_init_def)
  from train_epochs_replay [OF refl te p l] obtain new where
    n: "applied_grads (ts_trace st) = applied_grads (ts_trace ?st0) @ new"
    and r: "(opt_state (ts_optimizer st), enc_params (bert (ts_model st)))
          = encoder_replay rule (lr (ts_optimizer ?st0))
              (opt_state (ts_optimizer ?st0), enc_params (bert (ts_model ?st0))) new"
    by (elim exE conjE)
  from n have n': "new = applied_grads (ts_trace st)" by (simp add: h)
  from r have "enc_params (bert (ts_model st))
      = snd (encoder_replay rule rate (s0, enc_params (bert self)) new)"
    unfolding h by (metis snd_conv)
  then show ?thesis by (simp only: n')
qed

section \<open>Properties of evaluate_model and test_model\<close>

lemma test_loop_eq_evaluate_loop:
  "test_model_loop ev model dl acc = evaluate_model_loop ev model dl acc"
proof (induction dl arbitrary: acc)
  case Nil then show ?case by simp
next
  case (Cons b dl)
  obtain ps ls where acc: "acc = (ps, ls)" by (cases acc)
  show ?case unfolding acc by (simp add: bind_err_def Cons.IH split: sum.splits)
qed

text \<open>
  Claim C8. On the same model and data loader, \<open>evaluate_model\<close> and \<open>test_model\<close> raise
  the same exception or end with the same model and the same output, hence with the
  same predictions and true labels in the report; both leave the model as
  \<^verbatim>\<open>model.eval()\<close> made it and call it with gradient mode off; \<open>test_model\<close> returns the
  pair of the predictions and the true labels that the report shows, \<open>evaluate_model\<close>
  returns \<^verbatim>\<open>None\<close>.
\<close>

theorem evaluate_model_test_model_agree:
  "map_sum id (\<lambda>(model', out, ret). (model', out)) (test_model ev model dataloader)
     = map_sum id (\<lambda>(model', out, ret). (model', out)) (evaluate_model ev model dataloader) \<and>
   (test_model ev model dataloader = Inr (model', out, (predictions, true_labels))
      \<longleftrightarrow> evaluate_model ev model dataloader = Inr (model', out, ()) \<and>
          out = [Text ''Classification Report:\<newline>'', ClassificationReport true_labels predictions]) \<and>
   map_sum id fst (evaluate_model ev model dataloader)
     = map_sum id (\<lambda>_. model_eval ev model) (evaluate_model ev model dataloader)"
  by (auto simp: test_model_def evaluate_model_def test_loop_eq_evaluate_loop bind_err_def Let_def
      split: sum.splits prod.splits)


subsection \<open>What test_model returns\<close>

lemma bind_err_Inr: "bind_err r f = Inr y \<Longrightarrow> \<exists>x. r = Inr x \<and> f x = Inr y"
  by (cases r) (auto simp: bind_err_def)

lemma argmax_from_spec:
  assumes "length pre = i" "best < i" "pre ! best = v" "\<forall>j<i. pre ! j \<le> v" "\<forall>j<best. pre ! j < v"
  shows "argmax_from i best v xs < i + length xs \<and>
         (\<forall>j<i + length xs. (pre @ xs) ! j \<le> (pre @ xs) ! argmax_from i best v xs) \<and>
         (\<forall>j<argmax_from i best v xs. (pre @ xs) ! j < (pre @ xs) ! argmax_from i best v xs)"
  using assms
proof (induction xs arbitrary: i best v pre)
  case Nil
  then show ?case by simp
next
  case (Cons x xs)
  show ?case
  proof (cases "v < x")
    case True
    have 1: "length (pre @ [x]) = i + 1" using Cons.prems(1) by simp
    have 2: "i < i + 1" by simp
    have 3: "(pre @ [x]) ! i = x" using Cons.prems(1) [symmetric] by simp
    have 4: "\<forall>j<i + 1. (pre @ [x]) ! j \<le> x"
    proof (intro allI impI)
      fix j assume "j < i + 1"
      show "(pre @ [x]) ! j \<le> x"
      proof (cases "j = i")
        case True
        then show ?thesis using 3 by simp
      next
        case False
        with \<open>j < i + 1\<close> have ji: "j < i" by simp
        then have "pre ! j \<le> v" using Cons.prems(4) by simp
        then have "pre ! j \<le> x" using \<open>v < x\<close> by simp
        then show ?thesis using ji Cons.prems(1) by (simp add: nth_append)
      qed
    qed
    have 5: "\<forall>j<i. (pre @ [x]) ! j < x"
    proof (intro allI impI)
      fix j assume ji: "j < i"
      then have "pre ! j \<le> v" using Cons.prems(4) by simp
      then have "pre ! j < x" using True by simp
      then show "(pre @ [x]) ! j < x" using ji Cons.prems(1) by (simp add: nth_append)
    qed
    from Cons.IH [OF 1 2 3 4 5] True show ?thesis by simp
  next
    case False
    have 1: "length (pre @ [x]) = i + 1" using Cons.prems(1) by simp
    have 2: "best < i + 1" using Cons.prems(2) by simp
    have 3: "(pre @ [x]) ! best = v" using Cons.prems(1,2,3) by (simp add: nth_append)
    have 4: "\<forall>j<i + 1. (pre @ [x]) ! j \<le> v"
    proof (intro allI impI)
      fix j assume "j < i + 1"
      show "(pre @ [x]) ! j \<le> v"
      proof (cases "j = i")
        case True
        then show ?thesis using Cons.prems(1) [symmetric] False by simp
      next
        case ne: False
        with \<open>j < i + 1\<close> have ji: "j < i" by simp
        then have "pre ! j \<le> v" using Cons.prems(4) by simp
        then show ?thesis using ji Cons.prems(1) by (simp add: nth_append)
      qed
    qed
    have 5: "\<forall>j<best. (pre @ [x]) ! j < v"
      using Cons.prems(1,2,5) by (auto simp: nth_append)
    from Cons.IH [OF 1 2 3 4 5] False show ?thesis by simp
  qed
qed

lemma argmax_row_spec:
  assumes "row \<noteq> []"
  shows "\<exists>k. argmax_row row = Inr k \<and> k < length row \<and> (\<forall>j<length row. row ! j \<le> row ! k) \<and>
             (\<forall>j<k. row ! j < row ! k)"
proof -
  from assms obtain x xs where r: "row = x # xs" by (cases row) auto
  from argmax_from_spec [of "[x]" 1 0 x xs] show ?thesis
    unfolding r by (simp add: argmax_row_def)
qed

lemma argmax_row_two: "argmax_row [l0, l1] = Inr (if l0 < l1 then 1 else 0)"
  by (simp add: argmax_row_def)

lemma torch_max_two:
  assumes "\<forall>row\<in>set outputs. length row = 2"
  shows "torch_max_dim1 outputs = Inr (map (\<lambda>row. if row ! 0 < row ! 1 then 1 else 0) outputs)"
  unfolding torch_max_dim1_def
proof (rule map_err_Inr)
  fix row assume "row \<in> set outputs"
  with assms have "length row = 2" by simp
  then obtain l0 l1 where "row = [l0, l1]"
    by (cases row; cases "tl row") auto
  then show "argmax_row row = Inr (if row ! 0 < row ! 1 then 1 else 0)"
    by (simp add: argmax_row_two)
qed

lemma test_model_loop_two:
  assumes "\<forall>b\<in>set dl. model_call ev m False (b_input_ids b) (b_attention_mask b) = Inr (out b) \<and>
             (\<forall>row\<in>set (out b). length row = 2)"
  shows "test_model_loop ev m dl (ps, ls)
           = Inr (ps @ concat (map (\<lambda>b. map (\<lambda>row. if row ! 0 < row ! 1 then 1 else 0) (out b)) dl),
                  ls @ concat (map b_labels dl))"
  using assms
proof (induction dl arbitrary: ps ls)
  case Nil then show ?case by simp
next
  case (Cons b dl)
  have c: "model_call ev m False (b_input_ids b) (b_attention_mask b) = Inr (out b)"
    and r: "\<forall>row\<in>set (out b). length row = 2" using Cons.prems by auto
  have rest: "\<forall>b\<in>set dl. model_call ev m False (b_input_ids b) (b_attention_mask b) = Inr (out b) \<and>
             (\<forall>row\<in>set (out b). length row = 2)" using Cons.prems by simp
  show ?case using c torch_max_two [OF r] Cons.IH [OF rest] by (simp add: bind_err_def)
qed


lemma map_err_Inr_nth:
  "map_err f xs = Inr ys \<Longrightarrow> length ys = length xs \<and> (\<forall>i<length xs. f (xs ! i) = Inr (ys ! i))"
proof (induction xs arbitrary: ys)
  case Nil
  then show ?case by simp
next
  case (Cons x xs)
  from Cons.prems obtain y ys' where y: "f x = Inr y" "map_err f xs = Inr ys'" "ys = y # ys'"
    by (auto split: sum.splits)
  from Cons.IH [OF y(2)] have ih: "length ys' = length xs" "\<forall>i<length xs. f (xs ! i) = Inr (ys' ! i)"
    by simp_all
  show ?case unfolding y(3) using y(1) ih by (auto simp: nth_Cons split: nat.splits)
qed

lemma test_model_loop_Inr:
  "test_model_loop ev m dl (ps, ls) = Inr (ps', ls') \<Longrightarrow>
     \<exists>outs predss. length outs = length dl \<and> length predss = length dl \<and>
        ps' = ps @ concat predss \<and> ls' = ls @ concat (map b_labels dl) \<and>
        (\<forall>k<length dl.
           model_call ev m False (b_input_ids (dl ! k)) (b_attention_mask (dl ! k)) = Inr (outs ! k) \<and>
           torch_max_dim1 (outs ! k) = Inr (predss ! k))"
proof (induction dl arbitrary: ps ls)
  case Nil
  then show ?case by simp
next
  case (Cons b dl)
  from Cons.prems obtain out preds where
    o: "model_call ev m False (b_input_ids b) (b_attention_mask b) = Inr out"
    and p: "torch_max_dim1 out = Inr preds"
    and r: "test_model_loop ev m dl (ps @ preds, ls @ b_labels b) = Inr (ps', ls')"
    by (auto dest!: bind_err_Inr)
  from Cons.IH [OF r] obtain outs predss where ih:
    "length outs = length dl" "length predss = length dl"
    "ps' = (ps @ preds) @ concat predss" "ls' = (ls @ b_labels b) @ concat (map b_labels dl)"
    "\<forall>k<length dl.
           model_call ev m False (b_input_ids (dl ! k)) (b_attention_mask (dl ! k)) = Inr (outs ! k) \<and>
           torch_max_dim1 (outs ! k) = Inr (predss ! k)"
    by blast
  have "length (out # outs) = length (b # dl) \<and> length (preds # predss) = length (b # dl) \<and>
        ps' = ps @ concat (preds # predss) \<and> ls' = ls @ concat (map b_labels (b # dl)) \<and>
        (\<forall>k<length (b # dl).
           model_call ev m False (b_input_ids ((b # dl) ! k)) (b_attention_mask ((b # dl) ! k))
             = Inr ((out # outs) ! k) \<and>
           torch_max_dim1 ((out # outs) ! k) = Inr ((preds # predss) ! k))"
    using ih o p by (auto simp: nth_Cons split: nat.splits)
  then show ?case by blast
qed

lemma test_model_Inr:
  assumes "test_model ev model dl = Inr (model', out, (preds, true_labels))"
  shows "\<exists>outs predss.
         length outs = length dl \<and> length predss = length dl \<and>
         preds = concat predss \<and> true_labels = concat (map b_labels dl) \<and>
         (\<forall>k<length dl.
            model_call ev (model_eval ev model) False (b_input_ids (dl ! k)) (b_attention_mask (dl ! k))
              = Inr (outs ! k) \<and>
            length (predss ! k) = length (outs ! k) \<and>
            (\<forall>i<length (outs ! k).
               predss ! k ! i < length (outs ! k ! i) \<and>
               (\<forall>j<length (outs ! k ! i). outs ! k ! i ! j \<le> outs ! k ! i ! (predss ! k ! i)) \<and>
               (\<forall>j<predss ! k ! i. outs ! k ! i ! j < outs ! k ! i ! (predss ! k ! i)) \<and>
               (length (outs ! k ! i) = 2 \<longrightarrow> predss ! k ! i \<in> {0, 1}))) \<and>
         ((\<forall>k<length dl. length (outs ! k) = length (b_input_ids (dl ! k)))
            \<longrightarrow> map length predss = map (\<lambda>b. length (b_input_ids b)) dl)"
proof -
  from assms have "test_model_loop ev (model_eval ev model) dl ([], []) = Inr (preds, true_labels)"
    by (auto simp: test_model_def Let_def dest!: bind_err_Inr)
  from test_model_loop_Inr [OF this] obtain outs predss where h:
    "length outs = length dl" "length predss = length dl"
    "preds = concat predss" "true_labels = concat (map b_labels dl)"
    "\<forall>k<length dl.
           model_call ev (model_eval ev model) False (b_input_ids (dl ! k)) (b_attention_mask (dl ! k))
             = Inr (outs ! k) \<and>
           torch_max_dim1 (outs ! k) = Inr (predss ! k)"
    by auto
  have rows: "\<forall>k<length dl. length (predss ! k) = length (outs ! k) \<and>
            (\<forall>i<length (outs ! k).
               predss ! k ! i < length (outs ! k ! i) \<and>
               (\<forall>j<length (outs ! k ! i). outs ! k ! i ! j \<le> outs ! k ! i ! (predss ! k ! i)) \<and>
               (\<forall>j<predss ! k ! i. outs ! k ! i ! j < outs ! k ! i ! (predss ! k ! i)) \<and>
               (length (outs ! k ! i) = 2 \<longrightarrow> predss ! k ! i \<in> {0, 1}))"
  proof (intro allI impI)
    fix k assume k: "k < length dl"
    with h(5) have tm: "torch_max_dim1 (outs ! k) = Inr (predss ! k)" by simp
    from map_err_Inr_nth [OF tm [unfolded torch_max_dim1_def]]
    have l: "length (predss ! k) = length (outs ! k)"
      and a: "\<forall>i<length (outs ! k). argmax_row (outs ! k ! i) = Inr (predss ! k ! i)" by simp_all
    have "\<forall>i<length (outs ! k).
               predss ! k ! i < length (outs ! k ! i) \<and>
               (\<forall>j<length (outs ! k ! i). outs ! k ! i ! j \<le> outs ! k ! i ! (predss ! k ! i)) \<and>
               (\<forall>j<predss ! k ! i. outs ! k ! i ! j < outs ! k ! i ! (predss ! k ! i)) \<and>
               (length (outs ! k ! i) = 2 \<longrightarrow> predss ! k ! i \<in> {0, 1})"
    proof (intro allI impI)
      fix i assume i: "i < length (outs ! k)"
      with a have ar: "argmax_row (outs ! k ! i) = Inr (predss ! k ! i)" by simp
      then have ne: "outs ! k ! i \<noteq> []" by (auto simp: argmax_row_def)
      from argmax_row_spec [OF ne] ar
      have s: "predss ! k ! i < length (outs ! k ! i)"
        "\<forall>j<length (outs ! k ! i). outs ! k ! i ! j \<le> outs ! k ! i ! (predss ! k ! i)"
        "\<forall>j<predss ! k ! i. outs ! k ! i ! j < outs ! k ! i ! (predss ! k ! i)" by auto
      have "length (outs ! k ! i) = 2 \<longrightarrow> predss ! k ! i \<in> {0, 1}" using s(1) by auto
      with s show "predss ! k ! i < length (outs ! k ! i) \<and>
               (\<forall>j<length (outs ! k ! i). outs ! k ! i ! j \<le> outs ! k ! i ! (predss ! k ! i)) \<and>
               (\<forall>j<predss ! k ! i. outs ! k ! i ! j < outs ! k ! i ! (predss ! k ! i)) \<and>
               (length (outs ! k ! i) = 2 \<longrightarrow> predss ! k ! i \<in> {0, 1})" by (intro conjI)
    qed
    with l show "length (predss ! k) = length (outs ! k) \<and>
            (\<forall>i<length (outs ! k).
               predss ! k ! i < length (outs ! k ! i) \<and>
               (\<forall>j<length (outs ! k ! i). outs ! k ! i ! j \<le> outs ! k ! i ! (predss ! k ! i)) \<and>
               (\<forall>j<predss ! k ! i. outs ! k ! i ! j < outs ! k ! i ! (predss ! k ! i)) \<and>
               (length (outs ! k ! i) = 2 \<longrightarrow> predss ! k ! i \<in> {0, 1}))" by (intro conjI)
  qed
  have cnt: "(\<forall>k<length dl. length (outs ! k) = length (b_input_ids (dl ! k)))
            \<longrightarrow> map length predss = map (\<lambda>b. length (b_input_ids b)) dl"
  proof
    assume e: "\<forall>k<length dl. length (outs ! k) = length (b_input_ids (dl ! k))"
    show "map length predss = map (\<lambda>b. length (b_input_ids b)) dl"
      using h(2) rows e by (intro nth_equalityI) auto
  qed
  have calls: "\<forall>k<length dl.
            model_call ev (model_eval ev model) False (b_input_ids (dl ! k)) (b_attention_mask (dl ! k))
              = Inr (outs ! k) \<and>
            length (predss ! k) = length (outs ! k) \<and>
            (\<forall>i<length (outs ! k).
               predss ! k ! i < length (outs ! k ! i) \<and>
               (\<forall>j<length (outs ! k ! i). outs ! k ! i ! j \<le> outs ! k ! i ! (predss ! k ! i)) \<and>
               (\<forall>j<predss ! k ! i. outs ! k ! i ! j < outs ! k ! i ! (predss ! k ! i)) \<and>
               (length (outs ! k ! i) = 2 \<longrightarrow> predss ! k ! i \<in> {0, 1}))"
    using h(5) rows by simp
  from h(1,2,3,4) calls cnt show ?thesis by blast
qed


section \<open>Properties of the notebook\<close>

lemma notebook_Inr:
  assumes "notebook env fs = Inr (fs3, rs)"
  shows "\<exists>fs1 fs2 db tb el. rs = [db, tb, el] \<and>
           notebook_section env DB_cfg fs = Inr (fs1, db) \<and>
           notebook_section env TB_cfg fs1 = Inr (fs2, tb) \<and>
           notebook_section env EL_cfg fs2 = Inr (fs3, el)"
  using assms unfolding notebook_def
  by (auto dest!: bind_err_Inr)

lemma evaluate_model_Inr:
  "evaluate_model ev m dl = Inr (m', out, u) \<Longrightarrow> m' = model_eval ev m"
  by (auto simp: evaluate_model_def Let_def dest!: bind_err_Inr)

lemma notebook_section_Inr:
  assumes "notebook_section env cfg fs = Inr (fs', r)"
  shows "\<exists>train_dl dev_dl test_dl st losses tested out.
           section_data env cfg fs = Inr (train_dl, dev_dl, test_dl) \<and>
           train_model (classifier_framework (env_act env) (env_autograd env) (env_rule env))
             (section_model env cfg) train_dl (section_optimizer env (section_model env cfg))
             (map (\<lambda>_. None) (parameters (section_model env cfg))) 1 10 = Inr (st, losses) \<and>
           test_model (classifier_evaluator (env_act env)) (Module_eval (ts_model st)) test_dl
             = Inr (tested, out, (sec_preds r, sec_true_labels r)) \<and>
           sec_constructed r = section_model env cfg \<and>
           sec_trained r = ts_model st \<and>
           fs' = (fs(model_path cfg \<mapsto> SavedModel (ts_model st)))
                   (preds_path cfg \<mapsto> SavedPredictions (sec_preds r))"
  using assms unfolding notebook_section_def Let_def
  by (auto dest!: bind_err_Inr dest: evaluate_model_Inr
        simp: load_model_def torch_save_def classifier_evaluator_def)

lemma section_predictions:
  assumes "notebook_section env cfg fs = Inr (fs', r)"
  shows "fs' (preds_path cfg) = Some (SavedPredictions (sec_preds r)) \<and>
         (\<forall>p. p \<noteq> model_path cfg \<longrightarrow> p \<noteq> preds_path cfg \<longrightarrow> fs' p = fs p) \<and>
         (\<exists>train_dl dev_dl test_dl tested out.
            section_data env cfg fs = Inr (train_dl, dev_dl, test_dl) \<and>
            test_model (classifier_evaluator (env_act env)) (Module_eval (sec_trained r)) test_dl
              = Inr (tested, out, (sec_preds r, sec_true_labels r)))"
proof -
  from notebook_section_Inr [OF assms] obtain train_dl dev_dl test_dl st losses tested out where
    h: "section_data env cfg fs = Inr (train_dl, dev_dl, test_dl)"
    "test_model (classifier_evaluator (env_act env)) (Module_eval (ts_model st)) test_dl
             = Inr (tested, out, (sec_preds r, sec_true_labels r))"
    "sec_trained r = ts_model st"
    "fs' = (fs(model_path cfg \<mapsto> SavedModel (ts_model st)))
                   (preds_path cfg \<mapsto> SavedPredictions (sec_preds r))"
    and run: "train_model (classifier_framework (env_act env) (env_autograd env) (env_rule env))
             (section_model env cfg) train_dl (section_optimizer env (section_model env cfg))
             (map (\<lambda>_. None) (parameters (section_model env cfg))) 1 10 = Inr (st, losses)"
    and con: "sec_constructed r = section_model env cfg"
    by (elim exE conjE)
  have 1: "fs' (preds_path cfg) = Some (SavedPredictions (sec_preds r))" by (simp add: h(4))
  have 2: "\<forall>p. p \<noteq> model_path cfg \<longrightarrow> p \<noteq> preds_path cfg \<longrightarrow> fs' p = fs p" by (simp add: h(4))
  from h(1) h(2) [folded h(3)] 1 2 show ?thesis by blast
qed

lemma notebook_predictions:
  assumes "notebook env fs0 = Inr (fs3, rs)"
  shows "\<exists>db tb el. rs = [db, tb, el] \<and>
           fs3 ''predictions/DB_preds.pt'' = Some (SavedPredictions (sec_preds db)) \<and>
           fs3 ''predictions/TB_preds.pt'' = Some (SavedPredictions (sec_preds tb)) \<and>
           fs3 ''predictions/EL_preds.pt'' = Some (SavedPredictions (sec_preds el))"
proof -
  from notebook_Inr [OF assms] obtain fs1 fs2 db tb el where h: "rs = [db, tb, el]"
    "notebook_section env DB_cfg fs0 = Inr (fs1, db)"
    "notebook_section env TB_cfg fs1 = Inr (fs2, tb)"
    "notebook_section env EL_cfg fs2 = Inr (fs3, el)" by blast
  note a = section_predictions [OF h(2)] and b = section_predictions [OF h(3)]
    and c = section_predictions [OF h(4)]
  have p: "preds_path DB_cfg = ''predictions/DB_preds.pt''" "preds_path TB_cfg = ''predictions/TB_preds.pt''"
    "preds_path EL_cfg = ''predictions/EL_preds.pt''"
    "model_path TB_cfg = ''models/TB_model.pt''" "model_path EL_cfg = ''models/EL_model.pt''"
    by (simp_all add: preds_path_def model_path_def DB_cfg_def TB_cfg_def EL_cfg_def)
  have el: "fs3 ''predictions/EL_preds.pt'' = Some (SavedPredictions (sec_preds el))"
    using c p by simp
  have tb2: "fs2 ''predictions/TB_preds.pt'' = Some (SavedPredictions (sec_preds tb))"
    using b p by simp
  have tb: "fs3 ''predictions/TB_preds.pt'' = Some (SavedPredictions (sec_preds tb))"
    using c [THEN conjunct2, THEN conjunct1, rule_format, of "''predictions/TB_preds.pt''"] tb2 p
    by simp
  have db1: "fs1 ''predictions/DB_preds.pt'' = Some (SavedPredictions (sec_preds db))"
    using a p by simp
  have db2: "fs2 ''predictions/DB_preds.pt'' = Some (SavedPredictions (sec_preds db))"
    using b [THEN conjunct2, THEN conjunct1, rule_format, of "''predictions/DB_preds.pt''"] db1 p
    by simp
  have db: "fs3 ''predictions/DB_preds.pt'' = Some (SavedPredictions (sec_preds db))"
    using c [THEN conjunct2, THEN conjunct1, rule_format, of "''predictions/DB_preds.pt''"] db2 p
    by simp
  from h(1) db tb el show ?thesis by blast
qed






lemma section_run_encoder:
  assumes "notebook_section env cfg fs = Inr (fs', r)"
  shows "\<exists>dl st printed.
           train_model (classifier_framework (env_act env) (env_autograd env) (env_rule env))
             (section_model env cfg) dl (section_optimizer env (section_model env cfg))
             (map (\<lambda>_. None) (parameters (section_model env cfg))) 1 10 = Inr (st, printed) \<and>
           sec_trained r = ts_model st \<and>
           applied_grads (ts_trace st) \<noteq> [] \<and>
           (\<forall>gs\<in>set (applied_grads (ts_trace st)). gs \<noteq> [] \<and> hd gs \<noteq> None) \<and>
           enc_params (bert (sec_trained r))
             = snd (encoder_replay (env_rule env) (2 / 10000)
                      (env_opt_state env, enc_params (env_pretrained env (cfg_pretrained cfg)))
                      (applied_grads (ts_trace st)))"
proof -
  let ?M = "section_model env cfg"
  from notebook_section_Inr [OF assms] obtain dl st printed where
    run: "train_model (classifier_framework (env_act env) (env_autograd env) (env_rule env))
             ?M dl (section_optimizer env ?M) (map (\<lambda>_. None) (parameters ?M)) 1 10 = Inr (st, printed)"
    and tr: "sec_trained r = ts_model st" by blast
  have run': "train_model (classifier_framework (env_act env) (env_autograd env) (env_rule env))
             ?M dl (AdamW_init (parameters ?M) (2 / 10000) (env_opt_state env))
             (map (\<lambda>_. None) (parameters ?M)) 1 10 = Inr (st, printed)"
    using run by (simp only: section_optimizer_def)
  have tm: "enc_training (bert ?M)" by (simp add: section_model_def Module_train_def)
  have ep: "enc_params (bert ?M) = enc_params (env_pretrained env (cfg_pretrained cfg))"
    by (simp add: section_model_def Module_train_def CNNLSTMClassifier_new_def
          CNNLSTMClassifier_init_def)
  have 1: "applied_grads (ts_trace st) \<noteq> []" by (rule train_model_one_epoch_steps [OF run])
  have 2: "\<forall>gs\<in>set (applied_grads (ts_trace st)). gs \<noteq> [] \<and> hd gs \<noteq> None"
    using train_model_encoder [OF run'] tm by simp
  have 3: "enc_params (bert (sec_trained r))
             = snd (encoder_replay (env_rule env) (2 / 10000)
                      (env_opt_state env, enc_params (env_pretrained env (cfg_pretrained cfg)))
                      (applied_grads (ts_trace st)))"
    unfolding tr using train_model_replay [OF run'] by (simp only: ep)
  from run tr 1 2 3 show ?thesis by blast
qed


subsection \<open>A run of the notebook\<close>

text \<open>
  The notebook returns on the example environment and the example files: every loader
  has one batch, the forward pass returns on it for every model with the head of the
  constructor, and the example rule of the optimizer leaves the head as it is.
\<close>

lemma example_DataLoader:
  "DataLoader (CustomDataset_init example_inputs [0, 1]) 10 sequential_sampler = Inr [example_item]"
proof -
  have c: "chunks 10 [0, Suc 0] = [[0, Suc 0]]"
    by (simp add: chunks_Cons chunks_Nil)
  have u: "[0..<2] = [0, Suc 0]" by (simp add: upt_rec)
  show ?thesis
    by (simp add: DataLoader_def CustomDataset_len_def CustomDataset_init_def example_inputs_def
          bind_err_def py_getitem_def sequential_sampler_def u c CustomDataset_getitem_def
          py_index_def collate_def item_row_def item_scalar_def example_item_def)
qed

lemma example_section_data:
  assumes "fs (''intermediates/'' @ cfg_prefix cfg @ ''_inputs.pt'') = Some (TokenizedInputs example_inputs)"
    "fs (''intermediates/'' @ cfg_prefix cfg @ ''_dev_inputs.pt'') = Some (TokenizedInputs example_inputs)"
    "fs (''intermediates/'' @ cfg_prefix cfg @ ''_test_inputs.pt'') = Some (TokenizedInputs example_inputs)"
    "fs ''intermediates/labels.pt'' = Some (LabelTensor [0, 1])"
    "fs ''intermediates/labels_dev.pt'' = Some (LabelTensor [0, 1])"
    "fs ''intermediates/labels_test.pt'' = Some (LabelTensor [0, 1])"
  shows "section_data example_env cfg fs = Inr ([example_item], [example_item], [example_item])"
proof -
  have 1: "load_inputs fs (''intermediates/'' @ cfg_prefix cfg @ ''_inputs.pt'') = Inr example_inputs"
    and 2: "load_inputs fs (''intermediates/'' @ cfg_prefix cfg @ ''_dev_inputs.pt'') = Inr example_inputs"
    and 3: "load_inputs fs (''intermediates/'' @ cfg_prefix cfg @ ''_test_inputs.pt'') = Inr example_inputs"
    using assms(1,2,3) by (simp_all only: load_inputs_def option.case file_content.case)
  have 4: "load_labels fs ''intermediates/labels.pt'' = Inr [0, 1]"
    and 5: "load_labels fs ''intermediates/labels_dev.pt'' = Inr [0, 1]"
    and 6: "load_labels fs ''intermediates/labels_test.pt'' = Inr [0, 1]"
    using assms(4,5,6) by (simp_all only: load_labels_def option.case file_content.case)
  have sh: "env_shuffle example_env = sequential_sampler" by (simp add: example_env_def)
  show ?thesis
    unfolding section_data_def 1 2 3 4 5 6 sh
    by (simp add: bind_err_def example_DataLoader)
qed

lemma example_hidden_shape:
  assumes "\<forall>r\<in>set ids. length r = s"
  shows "\<forall>h\<in>set (example_hidden c w ids). has_shape (length ids) s c h"
proof
  fix h assume "h \<in> set (example_hidden c w ids)"
  then have h: "h = map (map (\<lambda>tok. replicate c (of_int tok * sum_list w))) ids"
    by (auto simp: example_hidden_def)
  show "has_shape (length ids) s c h"
    unfolding h using assms by (intro has_shapeI) auto
qed

lemma example_forward:
  assumes name: "model_name m \<in> {''distilbert'', ''tinybert'', ''electra''}"
    and cnn: "cnn m = Conv1d_init c 64 3 1 cw cb"
    and lstm: "lstm m = LSTM_init 64 64 wi wh bi bh"
    and fc: "fc m = Linear_init 64 2 fw fb"
    and enc: "enc_apply (bert m) = (\<lambda>w tr ids mask. example_hidden c w ids)"
    and c: "0 < c"
  shows "\<exists>logits g. forward act m ge (b_input_ids example_item) (b_attention_mask example_item)
              = Inr (logits, g) \<and>
           length logits = 2 \<and> (\<forall>row\<in>set logits. length row = 2)"
proof -
  let ?ids = "b_input_ids example_item" and ?mask = "b_attention_mask example_item"
  have call: "encoder_call (bert m) ?ids ?mask = example_hidden c (enc_params (bert m)) ?ids"
    by (simp add: encoder_call_def enc)
  have ne: "encoder_call (bert m) ?ids ?mask \<noteq> []"
    unfolding call by (simp add: example_hidden_def)
  have sh: "\<forall>h\<in>set (encoder_call (bert m) ?ids ?mask). has_shape (length ?ids) 3 c h"
    unfolding call by (rule example_hidden_shape) (simp add: example_item_def)
  from forward_returns [OF name cnn lstm fc ne sh _ c, of act ge]
  show ?thesis by (auto simp: example_item_def)
qed

lemma classifier_loss_requires_grad:
  assumes "classifier_loss act ag self b = Inr t"
  shows "\<not> list_all (\<lambda>g. g = None) (grad_wrt t)"
proof -
  from assms obtain outputs graph where
    f: "forward act self True (b_input_ids b) (b_attention_mask b) = Inr (outputs, graph)"
    and t: "t = \<lparr>item = criterion ag outputs (b_labels b),
            grad_wrt = map (\<lambda>p. if p \<in> graph then Some (derivative ag self b p) else None)
                         (parameters self)\<rparr>"
    by (auto simp: classifier_loss_def bind_err_def split: sum.splits)
  from forward_graph [OF f] show ?thesis unfolding t by (simp add: parameters_def)
qed

lemma train_model_single_batch:
  assumes cl: "classifier_loss act ag self b = Inr t" and a: "a \<noteq> 0"
  shows "\<exists>st. train_model (classifier_framework act ag rule) self [b] opt g0 1 a = Inr (st, [item t]) \<and>
           ts_model st = snd (AdamW_step rule opt self
                               (map2 accumulate (map (\<lambda>_. None) g0) (grad_wrt (tensor_div t a)))) \<and>
           applied_grads (ts_trace st)
             = [map2 accumulate (map (\<lambda>_. None) g0) (grad_wrt (tensor_div t a))]"
proof -
  have rg: "\<not> list_all (\<lambda>g. g = None) (grad_wrt (tensor_div t a))"
    unfolding requires_grad_div by (rule classifier_loss_requires_grad [OF cl])
  have it: "item (tensor_div t a) * of_int a = item t" by (rule item_div_mul [OF a])
  show ?thesis
    using cl rg a it
    by (simp add: train_model_def classifier_framework_def bind_err_def One_nat_def
          optimizer_zero_grad_def optimizer_step_def log_event_def backward_def py_mod_def
          Let_def split: prod.splits)
qed

lemma apply_update_example_rule:
  "model_name (apply_update example_rule opt pg m) = model_name m \<and>
   cnn (apply_update example_rule opt pg m) = cnn m \<and>
   lstm (apply_update example_rule opt pg m) = lstm m \<and>
   fc (apply_update example_rule opt pg m) = fc m \<and>
   enc_apply (bert (apply_update example_rule opt pg m)) = enc_apply (bert m)"
  by (cases pg; cases "fst pg") (auto simp: apply_update_def example_rule_def split: option.splits)

lemma AdamW_step_example_rule:
  "model_name (snd (AdamW_step example_rule opt m gs)) = model_name m \<and>
   cnn (snd (AdamW_step example_rule opt m gs)) = cnn m \<and>
   lstm (snd (AdamW_step example_rule opt m gs)) = lstm m \<and>
   fc (snd (AdamW_step example_rule opt m gs)) = fc m \<and>
   enc_apply (bert (snd (AdamW_step example_rule opt m gs))) = enc_apply (bert m)"
proof -
  have "\<And>pgs m. model_name (fold (apply_update example_rule opt) pgs m) = model_name m \<and>
   cnn (fold (apply_update example_rule opt) pgs m) = cnn m \<and>
   lstm (fold (apply_update example_rule opt) pgs m) = lstm m \<and>
   fc (fold (apply_update example_rule opt) pgs m) = fc m \<and>
   enc_apply (bert (fold (apply_update example_rule opt) pgs m)) = enc_apply (bert m)"
  proof -
    fix pgs m
    show "model_name (fold (apply_update example_rule opt) pgs m) = model_name m \<and>
   cnn (fold (apply_update example_rule opt) pgs m) = cnn m \<and>
   lstm (fold (apply_update example_rule opt) pgs m) = lstm m \<and>
   fc (fold (apply_update example_rule opt) pgs m) = fc m \<and>
   enc_apply (bert (fold (apply_update example_rule opt) pgs m)) = enc_apply (bert m)"
    proof (induction pgs arbitrary: m)
      case Nil then show ?case by simp
    next
      case (Cons pg pgs)
      show ?case using Cons.IH [of "apply_update example_rule opt pg m"]
          apply_update_example_rule [of opt pg m] by simp
    qed
  qed
  then show ?thesis by (simp add: AdamW_step_def)
qed

lemma example_test_loop:
  assumes name: "model_name m \<in> {''distilbert'', ''tinybert'', ''electra''}"
    and cnn: "cnn m = Conv1d_init c 64 3 1 cw cb"
    and lstm: "lstm m = LSTM_init 64 64 wi wh bi bh"
    and fc: "fc m = Linear_init 64 2 fw fb"
    and enc: "enc_apply (bert m) = (\<lambda>w tr ids mask. example_hidden c w ids)"
    and c: "0 < c"
  shows "\<exists>preds. test_model_loop (classifier_evaluator act) m [example_item] ([], [])
                    = Inr (preds, [0, 1]) \<and> length preds = 2"
proof -
  from example_forward [OF name cnn lstm fc enc c, of act False]
  obtain logits g where f: "forward act m False (b_input_ids example_item) (b_attention_mask example_item)
              = Inr (logits, g)" and l: "length logits = 2" and r: "\<forall>row\<in>set logits. length row = 2"
    by blast
  have mc: "model_call (classifier_evaluator act) m False (b_input_ids example_item)
              (b_attention_mask example_item) = Inr logits"
    by (simp add: classifier_evaluator_def f)
  show ?thesis
    using mc torch_max_two [OF r] l
    by (simp add: bind_err_def) (simp add: example_item_def)
qed

lemma example_test_model:
  assumes name: "model_name m \<in> {''distilbert'', ''tinybert'', ''electra''}"
    and cnn: "cnn m = Conv1d_init c 64 3 1 cw cb"
    and lstm: "lstm m = LSTM_init 64 64 wi wh bi bh"
    and fc: "fc m = Linear_init 64 2 fw fb"
    and enc: "enc_apply (bert m) = (\<lambda>w tr ids mask. example_hidden c w ids)"
    and c: "0 < c"
  shows "\<exists>out preds. test_model (classifier_evaluator act) m [example_item]
                    = Inr (Module_eval m, out, (preds, [0, 1])) \<and> length preds = 2"
    and "\<exists>out. evaluate_model (classifier_evaluator act) m [example_item]
                    = Inr (Module_eval m, out, ())"
proof -
  have e: "model_eval (classifier_evaluator act) m = Module_eval m"
    by (simp add: classifier_evaluator_def)
  have n: "model_name (Module_eval m) \<in> {''distilbert'', ''tinybert'', ''electra''}"
    using name by (simp add: Module_eval_def Module_train_def)
  have h: "cnn (Module_eval m) = Conv1d_init c 64 3 1 cw cb"
    "lstm (Module_eval m) = LSTM_init 64 64 wi wh bi bh"
    "fc (Module_eval m) = Linear_init 64 2 fw fb"
    "enc_apply (bert (Module_eval m)) = (\<lambda>w tr ids mask. example_hidden c w ids)"
    using cnn lstm fc enc by (simp_all add: Module_eval_def Module_train_def)
  from example_test_loop [OF n h c, of act] obtain preds where
    p: "test_model_loop (classifier_evaluator act) (Module_eval m) [example_item] ([], [])
                    = Inr (preds, [0, 1])" "length preds = 2" by blast
  show "\<exists>out preds. test_model (classifier_evaluator act) m [example_item]
                    = Inr (Module_eval m, out, (preds, [0, 1])) \<and> length preds = 2"
    using p by (simp add: test_model_def e bind_err_def)
  have "evaluate_model_loop (classifier_evaluator act) (Module_eval m) [example_item] ([], [])
                    = Inr (preds, [0, 1])"
    using p(1) by (simp only: test_loop_eq_evaluate_loop)
  then show "\<exists>out. evaluate_model (classifier_evaluator act) m [example_item]
                    = Inr (Module_eval m, out, ())"
    by (simp add: evaluate_model_def e bind_err_def)
qed

lemma example_notebook_section:
  assumes name: "cfg_model_name cfg \<in> {''distilbert'', ''tinybert'', ''electra''}"
    and enc: "enc_apply (example_pretrained (cfg_pretrained cfg))
                = (\<lambda>w tr ids mask. example_hidden (cfg_in_channels cfg) w ids)"
    and c: "0 < cfg_in_channels cfg"
    and files:
    "fs (''intermediates/'' @ cfg_prefix cfg @ ''_inputs.pt'') = Some (TokenizedInputs example_inputs)"
    "fs (''intermediates/'' @ cfg_prefix cfg @ ''_dev_inputs.pt'') = Some (TokenizedInputs example_inputs)"
    "fs (''intermediates/'' @ cfg_prefix cfg @ ''_test_inputs.pt'') = Some (TokenizedInputs example_inputs)"
    "fs ''intermediates/labels.pt'' = Some (LabelTensor [0, 1])"
    "fs ''intermediates/labels_dev.pt'' = Some (LabelTensor [0, 1])"
    "fs ''intermediates/labels_test.pt'' = Some (LabelTensor [0, 1])"
  shows "\<exists>trained preds. notebook_section example_env cfg fs
           = Inr ((fs(model_path cfg \<mapsto> SavedModel trained))(preds_path cfg \<mapsto> SavedPredictions preds),
                  \<lparr>sec_constructed = section_model example_env cfg, sec_trained = trained,
                   sec_preds = preds, sec_true_labels = [0, 1]\<rparr>) \<and> length preds = 2"
proof -
  let ?M = "section_model example_env cfg"
  let ?fw = "classifier_framework (env_act example_env) (env_autograd example_env) (env_rule example_env)"
  have sd: "section_data example_env cfg fs = Inr ([example_item], [example_item], [example_item])"
    by (rule example_section_data [OF files])
  have M: "model_name ?M \<in> {''distilbert'', ''tinybert'', ''electra''}"
    "cnn ?M = Conv1d_init (cfg_in_channels cfg) 64 3 1 (init_conv_w example_rng) (init_conv_b example_rng)"
    "lstm ?M = LSTM_init 64 64 (init_lstm_wih example_rng) (init_lstm_whh example_rng)
               (init_lstm_bih example_rng) (init_lstm_bhh example_rng)"
    "fc ?M = Linear_init 64 2 (init_fc_w example_rng) (init_fc_b example_rng)"
    "enc_apply (bert ?M) = (\<lambda>w tr ids mask. example_hidden (cfg_in_channels cfg) w ids)"
    using name enc
    by (simp_all add: section_model_def Module_train_def CNNLSTMClassifier_new_def
          CNNLSTMClassifier_init_def example_env_def)
  from example_forward [OF M c, of "env_act example_env" True]
  obtain logits g where f: "forward (env_act example_env) ?M True (b_input_ids example_item)
      (b_attention_mask example_item) = Inr (logits, g)" by blast
  then obtain t where cl: "classifier_loss (env_act example_env) (env_autograd example_env) ?M example_item = Inr t"
    by (simp add: classifier_loss_def bind_err_def)
  have a10: "(10 :: int) \<noteq> 0" by simp
  from train_model_single_batch [OF cl a10, of "env_rule example_env" "section_optimizer example_env ?M"
      "map (\<lambda>_. None) (parameters ?M)"]
  obtain st where tm: "train_model ?fw ?M [example_item] (section_optimizer example_env ?M)
        (map (\<lambda>_. None) (parameters ?M)) 1 10 = Inr (st, [item t])"
    and ms: "ts_model st = snd (AdamW_step (env_rule example_env) (section_optimizer example_env ?M) ?M
               (map2 accumulate (map (\<lambda>_. None) (map (\<lambda>_. None) (parameters ?M) :: grads)) (grad_wrt (tensor_div t 10))))"
    by (elim exE conjE)
  have er: "env_rule example_env = example_rule" by (simp add: example_env_def)
  note P = AdamW_step_example_rule [of "section_optimizer example_env ?M" ?M
      "map2 accumulate (map (\<lambda>_. None) (map (\<lambda>_. None) (parameters ?M) :: grads)) (grad_wrt (tensor_div t 10))"]
  have T: "model_name (ts_model st) \<in> {''distilbert'', ''tinybert'', ''electra''}"
    "cnn (ts_model st) = Conv1d_init (cfg_in_channels cfg) 64 3 1 (init_conv_w example_rng) (init_conv_b example_rng)"
    "lstm (ts_model st) = LSTM_init 64 64 (init_lstm_wih example_rng) (init_lstm_whh example_rng)
               (init_lstm_bih example_rng) (init_lstm_bhh example_rng)"
    "fc (ts_model st) = Linear_init 64 2 (init_fc_w example_rng) (init_fc_b example_rng)"
    "enc_apply (bert (ts_model st)) = (\<lambda>w tr ids mask. example_hidden (cfg_in_channels cfg) w ids)"
    unfolding ms er using P M by simp_all
  from example_test_model(2) [OF T c, of "env_act example_env"]
  obtain out1 where ev: "evaluate_model (classifier_evaluator (env_act example_env)) (ts_model st) [example_item]
                    = Inr (Module_eval (ts_model st), out1, ())" by blast
  have TE: "model_name (Module_eval (ts_model st)) \<in> {''distilbert'', ''tinybert'', ''electra''}"
    "cnn (Module_eval (ts_model st)) = Conv1d_init (cfg_in_channels cfg) 64 3 1 (init_conv_w example_rng) (init_conv_b example_rng)"
    "lstm (Module_eval (ts_model st)) = LSTM_init 64 64 (init_lstm_wih example_rng) (init_lstm_whh example_rng)
               (init_lstm_bih example_rng) (init_lstm_bhh example_rng)"
    "fc (Module_eval (ts_model st)) = Linear_init 64 2 (init_fc_w example_rng) (init_fc_b example_rng)"
    "enc_apply (bert (Module_eval (ts_model st))) = (\<lambda>w tr ids mask. example_hidden (cfg_in_channels cfg) w ids)"
    using T by (simp_all add: Module_eval_def Module_train_def)
  from example_test_model(1) [OF TE c, of "env_act example_env"]
  obtain out2 preds where te: "test_model (classifier_evaluator (env_act example_env)) (Module_eval (ts_model st)) [example_item]
                    = Inr (Module_eval (Module_eval (ts_model st)), out2, (preds, [0, 1]))"
    and lp: "length preds = 2" by blast
  have "notebook_section example_env cfg fs
           = Inr ((fs(model_path cfg \<mapsto> SavedModel (ts_model st)))(preds_path cfg \<mapsto> SavedPredictions preds),
                  \<lparr>sec_constructed = section_model example_env cfg, sec_trained = ts_model st,
                   sec_preds = preds, sec_true_labels = [0, 1]\<rparr>)"
    unfolding notebook_section_def sd
    using tm by (simp add: bind_err_def Let_def torch_save_def load_model_def ev te)
  with lp show ?thesis by blast
qed

lemma example_cfgs:
  assumes "cfg \<in> {DB_cfg, TB_cfg, EL_cfg}"
  shows "cfg_model_name cfg \<in> {''distilbert'', ''tinybert'', ''electra''}"
    and "enc_apply (example_pretrained (cfg_pretrained cfg))
                = (\<lambda>w tr ids mask. example_hidden (cfg_in_channels cfg) w ids)"
    and "0 < cfg_in_channels cfg"
  using assms by (auto simp: DB_cfg_def TB_cfg_def EL_cfg_def example_pretrained_def)

lemma example_files_section:
  assumes "cfg \<in> {DB_cfg, TB_cfg, EL_cfg}"
    and "\<forall>p\<in>{''intermediates/DB_inputs.pt'', ''intermediates/DB_dev_inputs.pt'',
               ''intermediates/DB_test_inputs.pt'', ''intermediates/TB_inputs.pt'',
               ''intermediates/TB_dev_inputs.pt'', ''intermediates/TB_test_inputs.pt'',
               ''intermediates/EL_inputs.pt'', ''intermediates/EL_dev_inputs.pt'',
               ''intermediates/EL_test_inputs.pt'', ''intermediates/labels.pt'',
               ''intermediates/labels_dev.pt'', ''intermediates/labels_test.pt''}.
            fs p = example_files p"
  shows "\<exists>trained preds. notebook_section example_env cfg fs
           = Inr ((fs(model_path cfg \<mapsto> SavedModel trained))(preds_path cfg \<mapsto> SavedPredictions preds),
                  \<lparr>sec_constructed = section_model example_env cfg, sec_trained = trained,
                   sec_preds = preds, sec_true_labels = [0, 1]\<rparr>) \<and> length preds = 2"
proof -
  have f: "fs (''intermediates/'' @ cfg_prefix cfg @ ''_inputs.pt'') = Some (TokenizedInputs example_inputs)"
    "fs (''intermediates/'' @ cfg_prefix cfg @ ''_dev_inputs.pt'') = Some (TokenizedInputs example_inputs)"
    "fs (''intermediates/'' @ cfg_prefix cfg @ ''_test_inputs.pt'') = Some (TokenizedInputs example_inputs)"
    "fs ''intermediates/labels.pt'' = Some (LabelTensor [0, 1])"
    "fs ''intermediates/labels_dev.pt'' = Some (LabelTensor [0, 1])"
    "fs ''intermediates/labels_test.pt'' = Some (LabelTensor [0, 1])"
    using assms by (auto simp: DB_cfg_def TB_cfg_def EL_cfg_def example_files_def)
  show ?thesis
    by (rule example_notebook_section [OF example_cfgs [OF assms(1)] f])
qed

lemma example_files_kept:
  assumes "cfg \<in> {DB_cfg, TB_cfg, EL_cfg}"
    and "\<forall>p\<in>{''intermediates/DB_inputs.pt'', ''intermediates/DB_dev_inputs.pt'',
               ''intermediates/DB_test_inputs.pt'', ''intermediates/TB_inputs.pt'',
               ''intermediates/TB_dev_inputs.pt'', ''intermediates/TB_test_inputs.pt'',
               ''intermediates/EL_inputs.pt'', ''intermediates/EL_dev_inputs.pt'',
               ''intermediates/EL_test_inputs.pt'', ''intermediates/labels.pt'',
               ''intermediates/labels_dev.pt'', ''intermediates/labels_test.pt''}.
            fs p = example_files p"
  shows "\<forall>p\<in>{''intermediates/DB_inputs.pt'', ''intermediates/DB_dev_inputs.pt'',
               ''intermediates/DB_test_inputs.pt'', ''intermediates/TB_inputs.pt'',
               ''intermediates/TB_dev_inputs.pt'', ''intermediates/TB_test_inputs.pt'',
               ''intermediates/EL_inputs.pt'', ''intermediates/EL_dev_inputs.pt'',
               ''intermediates/EL_test_inputs.pt'', ''intermediates/labels.pt'',
               ''intermediates/labels_dev.pt'', ''intermediates/labels_test.pt''}.
            ((fs(model_path cfg \<mapsto> x))(preds_path cfg \<mapsto> y)) p = example_files p"
  using assms by (auto simp: DB_cfg_def TB_cfg_def EL_cfg_def model_path_def preds_path_def)

lemma example_notebook:
  "\<exists>fs3 db tb el. notebook example_env example_files = Inr (fs3, [db, tb, el]) \<and>
      length (sec_preds db) = 2 \<and> length (sec_preds tb) = 2 \<and> length (sec_preds el) = 2"
proof -
  have csv: "read_csv example_files ''cleaned_dataset.csv'' = Inr ()"
    "read_csv example_files ''cleaned_dev_dataset.csv'' = Inr ()"
    by (simp_all add: read_csv_def example_files_def)
  have k0: "\<forall>p\<in>{''intermediates/DB_inputs.pt'', ''intermediates/DB_dev_inputs.pt'',
               ''intermediates/DB_test_inputs.pt'', ''intermediates/TB_inputs.pt'',
               ''intermediates/TB_dev_inputs.pt'', ''intermediates/TB_test_inputs.pt'',
               ''intermediates/EL_inputs.pt'', ''intermediates/EL_dev_inputs.pt'',
               ''intermediates/EL_test_inputs.pt'', ''intermediates/labels.pt'',
               ''intermediates/labels_dev.pt'', ''intermediates/labels_test.pt''}.
            example_files p = example_files p" by simp
  have c: "DB_cfg \<in> {DB_cfg, TB_cfg, EL_cfg}" "TB_cfg \<in> {DB_cfg, TB_cfg, EL_cfg}"
    "EL_cfg \<in> {DB_cfg, TB_cfg, EL_cfg}" by simp_all
  from example_files_section [OF c(1) k0] obtain m1 p1 where
    s1: "notebook_section example_env DB_cfg example_files
           = Inr ((example_files(model_path DB_cfg \<mapsto> SavedModel m1))(preds_path DB_cfg \<mapsto> SavedPredictions p1),
                  \<lparr>sec_constructed = section_model example_env DB_cfg, sec_trained = m1,
                   sec_preds = p1, sec_true_labels = [0, 1]\<rparr>)" and l1: "length p1 = 2"
    by (elim exE conjE)
  let ?fs1 = "(example_files(model_path DB_cfg \<mapsto> SavedModel m1))(preds_path DB_cfg \<mapsto> SavedPredictions p1)"
  note k1 = example_files_kept [OF c(1) k0, of "SavedModel m1" "SavedPredictions p1"]
  from example_files_section [OF c(2) k1] obtain m2 p2 where
    s2: "notebook_section example_env TB_cfg ?fs1
           = Inr ((?fs1(model_path TB_cfg \<mapsto> SavedModel m2))(preds_path TB_cfg \<mapsto> SavedPredictions p2),
                  \<lparr>sec_constructed = section_model example_env TB_cfg, sec_trained = m2,
                   sec_preds = p2, sec_true_labels = [0, 1]\<rparr>)" and l2: "length p2 = 2"
    by (elim exE conjE)
  let ?fs2 = "(?fs1(model_path TB_cfg \<mapsto> SavedModel m2))(preds_path TB_cfg \<mapsto> SavedPredictions p2)"
  note k2 = example_files_kept [OF c(2) k1, of "SavedModel m2" "SavedPredictions p2"]
  from example_files_section [OF c(3) k2] obtain m3 p3 where
    s3: "notebook_section example_env EL_cfg ?fs2
           = Inr ((?fs2(model_path EL_cfg \<mapsto> SavedModel m3))(preds_path EL_cfg \<mapsto> SavedPredictions p3),
                  \<lparr>sec_constructed = section_model example_env EL_cfg, sec_trained = m3,
                   sec_preds = p3, sec_true_labels = [0, 1]\<rparr>)" and l3: "length p3 = 2"
    by (elim exE conjE)
  have "notebook example_env example_files
      = Inr ((?fs2(model_path EL_cfg \<mapsto> SavedModel m3))(preds_path EL_cfg \<mapsto> SavedPredictions p3),
             [\<lparr>sec_constructed = section_model example_env DB_cfg, sec_trained = m1,
                   sec_preds = p1, sec_true_labels = [0, 1]\<rparr>,
              \<lparr>sec_constructed = section_model example_env TB_cfg, sec_trained = m2,
                   sec_preds = p2, sec_true_labels = [0, 1]\<rparr>,
              \<lparr>sec_constructed = section_model example_env EL_cfg, sec_trained = m3,
                   sec_preds = p3, sec_true_labels = [0, 1]\<rparr>])"
    unfolding notebook_def csv s1
    by (simp add: bind_err_def s2 s3)
  then show ?thesis using l1 l2 l3 by auto
qed


subsection \<open>Fine-tuning of the encoders\<close>

text \<open>
  Claim C2. The encoders are fine-tuned, not frozen. The graph recorded for the
  embeddings reaches the parameters of the encoder exactly when the encoder is in
  training mode, whatever the gradient mode of the caller; the graph of the logits
  reaches them exactly when, in addition, the caller's gradient mode is on. The model
  of a section of the notebook has its encoder in training mode, by \<^verbatim>\<open>model.train()\<close>,
  and \<^verbatim>\<open>model.eval()\<close> takes an encoder out of it; the optimizer of the section holds
  the parameters of its model, the encoder's among them. When a section of the
  notebook returns, its call of \<open>train_model\<close> on this model and this optimizer made at
  least one optimizer step, every step was applied with a gradient for the encoder,
  and the weights of the encoder in the trained model are those of the pretrained
  encoder after the optimizer's rule has been applied with the gradients of the steps,
  one after the other. When the notebook returns, its three sections, for DistilBert,
  TinyBert and Electra, have returned. In any run of \<open>train_model\<close> on a classifier with
  an optimizer over its parameters, the weights of the encoder are updated in this way,
  with a gradient for the encoder at every step if the encoder is in training mode;
  if the encoder is in evaluation mode the encoder comes out of the run unchanged.
\<close>

theorem encoder_fine_tuned:
  fixes env :: "'s torch_env" and rule :: "'r optim_rule"
  shows
  "(embeddings_block self input_ids attention_mask = Inr (emb, g)
      \<longrightarrow> (EncoderParams \<in> g \<longleftrightarrow> enc_training (bert self))) \<and>
   (forward act self grad_enabled input_ids attention_mask = Inr (logits, g')
      \<longrightarrow> (EncoderParams \<in> g' \<longleftrightarrow> grad_enabled \<and> enc_training (bert self))) \<and>
   enc_training (bert (section_model env cfg)) \<and>
   \<not> enc_training (bert (Module_eval self)) \<and>
   opt_params (section_optimizer env (section_model env cfg)) = parameters (section_model env cfg) \<and>
   EncoderParams \<in> set (opt_params (section_optimizer env (section_model env cfg))) \<and>
   (notebook_section env cfg fs = Inr (fs', r) \<longrightarrow>
      (\<exists>dl st printed.
         train_model (classifier_framework (env_act env) (env_autograd env) (env_rule env))
           (section_model env cfg) dl (section_optimizer env (section_model env cfg))
           (map (\<lambda>_. None) (parameters (section_model env cfg))) 1 10 = Inr (st, printed) \<and>
         sec_trained r = ts_model st \<and>
         applied_grads (ts_trace st) \<noteq> [] \<and>
         (\<forall>gs\<in>set (applied_grads (ts_trace st)). gs \<noteq> [] \<and> hd gs \<noteq> None) \<and>
         enc_params (bert (sec_trained r))
           = snd (encoder_replay (env_rule env) (2 / 10000)
                    (env_opt_state env, enc_params (env_pretrained env (cfg_pretrained cfg)))
                    (applied_grads (ts_trace st))))) \<and>
   (notebook env fs0 = Inr (fs3, rs) \<longrightarrow>
      (\<exists>fs1 fs2 db tb el. rs = [db, tb, el] \<and>
         notebook_section env DB_cfg fs0 = Inr (fs1, db) \<and>
         notebook_section env TB_cfg fs1 = Inr (fs2, tb) \<and>
         notebook_section env EL_cfg fs2 = Inr (fs3, el))) \<and>
   (train_model (classifier_framework act ag rule) self dl1
        (AdamW_init (parameters self) rate s0) (map (\<lambda>_. None) (parameters self)) num_epochs a
      = Inr (st1, printed1) \<longrightarrow>
      (enc_training (bert self)
         \<longrightarrow> (\<forall>gs\<in>set (applied_grads (ts_trace st1)). gs \<noteq> [] \<and> hd gs \<noteq> None)) \<and>
      (\<not> enc_training (bert self) \<longrightarrow> bert (ts_model st1) = bert self) \<and>
      enc_params (bert (ts_model st1))
        = snd (encoder_replay rule rate (s0, enc_params (bert self)) (applied_grads (ts_trace st1))))"
proof (intro conjI impI)
  assume "embeddings_block self input_ids attention_mask = Inr (emb, g)"
  from embeddings_block_graph [OF this] show "EncoderParams \<in> g \<longleftrightarrow> enc_training (bert self)"
    by simp
next
  assume "forward act self grad_enabled input_ids attention_mask = Inr (logits, g')"
  from forward_graph [OF this] show "EncoderParams \<in> g' \<longleftrightarrow> grad_enabled \<and> enc_training (bert self)"
    by simp
next
  show "enc_training (bert (section_model env cfg))"
    by (simp add: section_model_def Module_train_def)
next
  show "\<not> enc_training (bert (Module_eval self))" by (simp add: Module_eval_def Module_train_def)
next
  show "opt_params (section_optimizer env (section_model env cfg)) = parameters (section_model env cfg)"
    by (simp add: section_optimizer_def AdamW_init_def)
next
  show "EncoderParams \<in> set (opt_params (section_optimizer env (section_model env cfg)))"
    by (simp add: section_optimizer_def AdamW_init_def parameters_def)
next
  assume "notebook_section env cfg fs = Inr (fs', r)"
  then show "\<exists>dl st printed.
         train_model (classifier_framework (env_act env) (env_autograd env) (env_rule env))
           (section_model env cfg) dl (section_optimizer env (section_model env cfg))
           (map (\<lambda>_. None) (parameters (section_model env cfg))) 1 10 = Inr (st, printed) \<and>
         sec_trained r = ts_model st \<and>
         applied_grads (ts_trace st) \<noteq> [] \<and>
         (\<forall>gs\<in>set (applied_grads (ts_trace st)). gs \<noteq> [] \<and> hd gs \<noteq> None) \<and>
         enc_params (bert (sec_trained r))
           = snd (encoder_replay (env_rule env) (2 / 10000)
                    (env_opt_state env, enc_params (env_pretrained env (cfg_pretrained cfg)))
                    (applied_grads (ts_trace st)))"
    by (rule section_run_encoder)
next
  assume "notebook env fs0 = Inr (fs3, rs)"
  then show "\<exists>fs1 fs2 db tb el. rs = [db, tb, el] \<and>
         notebook_section env DB_cfg fs0 = Inr (fs1, db) \<and>
         notebook_section env TB_cfg fs1 = Inr (fs2, tb) \<and>
         notebook_section env EL_cfg fs2 = Inr (fs3, el)"
    by (rule notebook_Inr)
next
  assume run: "train_model (classifier_framework act ag rule) self dl1
        (AdamW_init (parameters self) rate s0) (map (\<lambda>_. None) (parameters self)) num_epochs a
      = Inr (st1, printed1)"
  { assume "enc_training (bert self)"
    with train_model_encoder [OF run]
    show "\<forall>gs\<in>set (applied_grads (ts_trace st1)). gs \<noteq> [] \<and> hd gs \<noteq> None" by simp }
  { assume "\<not> enc_training (bert self)"
    with train_model_encoder [OF run] show "bert (ts_model st1) = bert self" by simp }
  show "enc_params (bert (ts_model st1))
        = snd (encoder_replay rule rate (s0, enc_params (bert self)) (applied_grads (ts_trace st1)))"
    by (rule train_model_replay [OF run])
qed


theorem encoder_fine_tuned_witness:
  "(\<exists>logits g.
      forward example_act (Module_train True example_classifier) True (b_input_ids example_batch)
        (b_attention_mask example_batch) = Inr (logits, g) \<and> EncoderParams \<in> g) \<and>
   (\<exists>fs3 rs fs1 db.
      notebook example_env example_files = Inr (fs3, rs) \<and>
      notebook_section example_env DB_cfg example_files = Inr (fs1, db) \<and>
      (\<exists>dl st printed.
         train_model (classifier_framework (env_act example_env) (env_autograd example_env)
                        (env_rule example_env))
           (section_model example_env DB_cfg) dl
           (section_optimizer example_env (section_model example_env DB_cfg))
           (map (\<lambda>_. None) (parameters (section_model example_env DB_cfg))) 1 10 = Inr (st, printed) \<and>
         sec_trained db = ts_model st \<and>
         applied_grads (ts_trace st) \<noteq> [] \<and>
         (\<forall>gs\<in>set (applied_grads (ts_trace st)). gs \<noteq> [] \<and> hd gs \<noteq> None) \<and>
         enc_params (bert (sec_trained db))
           = snd (encoder_replay (env_rule example_env) (2 / 10000)
                    (env_opt_state example_env,
                     enc_params (env_pretrained example_env (cfg_pretrained DB_cfg)))
                    (applied_grads (ts_trace st))))) \<and>
   (\<exists>st printed.
      example_run = Inr (st, printed) \<and>
      enc_training (bert (Module_train True example_classifier)) \<and>
      applied_grads (ts_trace st)
        = [[Some [1], Some [1], Some [1], Some [1]], [Some [1 / 2], Some [1 / 2], Some [1 / 2], Some [1 / 2]]] \<and>
      enc_params (bert (Module_train True example_classifier)) = [1] \<and>
      enc_params (bert (ts_model st)) = [1 / 4] \<and>
      enc_params (bert (ts_model st))
        = snd (encoder_replay example_rule (1 / 2)
                 ((), enc_params (bert (Module_train True example_classifier)))
                 (applied_grads (ts_trace st))))"
proof -
  let ?M = "Module_train True example_classifier"
  have fv: "map_sum id fst (forward example_act ?M True (b_input_ids example_batch)
      (b_attention_mask example_batch)) = Inr [[76, 152], [156, 312]]"
    by code_simp
  then obtain logits g where f: "forward example_act ?M True (b_input_ids example_batch)
      (b_attention_mask example_batch) = Inr (logits, g)"
    by (cases "forward example_act ?M True (b_input_ids example_batch) (b_attention_mask example_batch)")
       auto
  have tm: "enc_training (bert ?M)" by (simp add: Module_train_def)
  have "EncoderParams \<in> g \<longleftrightarrow> True \<and> enc_training (bert ?M)"
    by (rule encoder_fine_tuned [THEN conjunct2, THEN conjunct1, rule_format, OF f])
  with tm have eg: "EncoderParams \<in> g" by simp
  have w1: "\<exists>logits g.
      forward example_act ?M True (b_input_ids example_batch)
        (b_attention_mask example_batch) = Inr (logits, g) \<and> EncoderParams \<in> g"
    using f eg by (intro exI conjI)
  from example_notebook obtain fs3 db0 tb0 el0 where
    nb: "notebook example_env example_files = Inr (fs3, [db0, tb0, el0])" by blast
  from encoder_fine_tuned [THEN conjunct2, THEN conjunct2, THEN conjunct2, THEN conjunct2,
      THEN conjunct2, THEN conjunct2, THEN conjunct2, THEN conjunct1, rule_format, OF nb]
  obtain fs1 db where s1: "notebook_section example_env DB_cfg example_files = Inr (fs1, db)"
    by (elim exE conjE)
  note S = encoder_fine_tuned [THEN conjunct2, THEN conjunct2, THEN conjunct2, THEN conjunct2,
      THEN conjunct2, THEN conjunct2, THEN conjunct1, rule_format, OF s1]
  have w2: "\<exists>fs3 rs fs1 db.
      notebook example_env example_files = Inr (fs3, rs) \<and>
      notebook_section example_env DB_cfg example_files = Inr (fs1, db) \<and>
      (\<exists>dl st printed.
         train_model (classifier_framework (env_act example_env) (env_autograd example_env)
                        (env_rule example_env))
           (section_model example_env DB_cfg) dl
           (section_optimizer example_env (section_model example_env DB_cfg))
           (map (\<lambda>_. None) (parameters (section_model example_env DB_cfg))) 1 10 = Inr (st, printed) \<and>
         sec_trained db = ts_model st \<and>
         applied_grads (ts_trace st) \<noteq> [] \<and>
         (\<forall>gs\<in>set (applied_grads (ts_trace st)). gs \<noteq> [] \<and> hd gs \<noteq> None) \<and>
         enc_params (bert (sec_trained db))
           = snd (encoder_replay (env_rule example_env) (2 / 10000)
                    (env_opt_state example_env,
                     enc_params (env_pretrained example_env (cfg_pretrained DB_cfg)))
                    (applied_grads (ts_trace st))))"
    apply (rule exI [of _ fs3], rule exI [of _ "[db0, tb0, el0]"], rule exI [of _ fs1],
        rule exI [of _ db])
    apply (intro conjI)
    apply (fact nb s1 S)+
    done
  from example_run_value obtain st printed where run: "example_run = Inr (st, printed)"
    and tr: "ts_trace st = [ZeroGrad,
             Criterion 1 \<lparr>item = 388, grad_wrt = [Some [1], Some [1], Some [1], Some [1]]\<rparr>, Backward,
             Criterion 2 \<lparr>item = 388, grad_wrt = [Some [1], Some [1], Some [1], Some [1]]\<rparr>, Backward,
             OptimizerStep [Some [1], Some [1], Some [1], Some [1]], ZeroGrad,
             Criterion 3 \<lparr>item = 364, grad_wrt = [Some [1], Some [1], Some [1], Some [1]]\<rparr>, Backward,
             OptimizerStep [Some [1 / 2], Some [1 / 2], Some [1 / 2], Some [1 / 2]], ZeroGrad]"
    and ep: "enc_params (bert (ts_model st)) = [1 / 4]"
    by (cases example_run) auto
  have ag: "applied_grads (ts_trace st)
        = [[Some [1], Some [1], Some [1], Some [1]], [Some [1 / 2], Some [1 / 2], Some [1 / 2], Some [1 / 2]]]"
    by (simp add: tr)
  have e0: "enc_params (bert ?M) = [1]"
    by (simp add: Module_train_def example_classifier_def CNNLSTMClassifier_init_def
          example_encoder_def)
  note R = encoder_fine_tuned [THEN conjunct2, THEN conjunct2, THEN conjunct2, THEN conjunct2,
      THEN conjunct2, THEN conjunct2, THEN conjunct2, THEN conjunct2, rule_format, OF run]
  note r3 = R [THEN conjunct2, THEN conjunct2]
  have w3: "\<exists>st printed.
      example_run = Inr (st, printed) \<and>
      enc_training (bert ?M) \<and>
      applied_grads (ts_trace st)
        = [[Some [1], Some [1], Some [1], Some [1]], [Some [1 / 2], Some [1 / 2], Some [1 / 2], Some [1 / 2]]] \<and>
      enc_params (bert ?M) = [1] \<and>
      enc_params (bert (ts_model st)) = [1 / 4] \<and>
      enc_params (bert (ts_model st))
        = snd (encoder_replay example_rule (1 / 2) ((), enc_params (bert ?M))
                 (applied_grads (ts_trace st)))"
    apply (rule exI [of _ st], rule exI [of _ printed])
    apply (intro conjI)
    apply (fact run tm ag e0 ep r3)+
    done
  from w1 w2 w3 show ?thesis by (intro conjI)
qed

subsection \<open>The predictions\<close>

text \<open>
  Claim C6. When \<open>test_model\<close> returns, the true labels are the labels of the batches of
  the data loader in order, and the predictions are, batch after batch in the order of
  the data loader, one prediction per row of the logits that the model, put in
  evaluation mode and called with gradient mode off, returned for the batch; a
  prediction is the index of the first maximal logit of its row, hence 0 or 1 for a row
  of two logits, and when the model returns one row per example there is one
  prediction per example. A classifier with the head of the constructor over an
  encoder with well-shaped hidden states returns one row of two logits per example.
  When a section of the notebook returns, the predictions that its call of
  \<open>test_model\<close> on the test loader returned are in the file \<^verbatim>\<open>predictions/X_preds.pt\<close>
  of the section, and when the notebook returns the three files hold the predictions
  of the three models.
\<close>

theorem test_model_predictions:
  "(test_model ev model dl = Inr (model', out, (preds, true_labels)) \<longrightarrow>
      (\<exists>outs predss.
         length outs = length dl \<and> length predss = length dl \<and>
         preds = concat predss \<and> true_labels = concat (map b_labels dl) \<and>
         (\<forall>k<length dl.
            model_call ev (model_eval ev model) False (b_input_ids (dl ! k)) (b_attention_mask (dl ! k))
              = Inr (outs ! k) \<and>
            length (predss ! k) = length (outs ! k) \<and>
            (\<forall>i<length (outs ! k).
               predss ! k ! i < length (outs ! k ! i) \<and>
               (\<forall>j<length (outs ! k ! i). outs ! k ! i ! j \<le> outs ! k ! i ! (predss ! k ! i)) \<and>
               (\<forall>j<predss ! k ! i. outs ! k ! i ! j < outs ! k ! i ! (predss ! k ! i)) \<and>
               (length (outs ! k ! i) = 2 \<longrightarrow> predss ! k ! i \<in> {0, 1}))) \<and>
         ((\<forall>k<length dl. length (outs ! k) = length (b_input_ids (dl ! k)))
            \<longrightarrow> map length predss = map (\<lambda>b. length (b_input_ids b)) dl))) \<and>
   (model_name self \<in> {''distilbert'', ''tinybert'', ''electra''} \<and>
    cnn self = Conv1d_init ic oc 3 1 cw cb \<and> lstm self = LSTM_init oc hid wi wh bi bh \<and>
    fc self = Linear_init hid 2 fw fb \<and>
    encoder_call (bert self) input_ids attention_mask \<noteq> [] \<and>
    (\<forall>h\<in>set (encoder_call (bert self) input_ids attention_mask). has_shape (length input_ids) s ic h) \<and>
    0 < s \<and> 0 < ic \<and> 0 < oc \<longrightarrow>
      (\<exists>logits. model_call (classifier_evaluator act) self False input_ids attention_mask = Inr logits \<and>
         length logits = length input_ids \<and> (\<forall>row\<in>set logits. length row = 2))) \<and>
   (notebook_section env cfg fs = Inr (fs', r) \<longrightarrow>
      fs' (preds_path cfg) = Some (SavedPredictions (sec_preds r)) \<and>
      (\<exists>train_dl dev_dl test_dl tested out2.
         section_data env cfg fs = Inr (train_dl, dev_dl, test_dl) \<and>
         test_model (classifier_evaluator (env_act env)) (Module_eval (sec_trained r)) test_dl
           = Inr (tested, out2, (sec_preds r, sec_true_labels r)))) \<and>
   (notebook env fs0 = Inr (fs3, rs) \<longrightarrow>
      (\<exists>db tb el. rs = [db, tb, el] \<and>
         fs3 ''predictions/DB_preds.pt'' = Some (SavedPredictions (sec_preds db)) \<and>
         fs3 ''predictions/TB_preds.pt'' = Some (SavedPredictions (sec_preds tb)) \<and>
         fs3 ''predictions/EL_preds.pt'' = Some (SavedPredictions (sec_preds el))))"
proof (intro conjI impI)
  assume "test_model ev model dl = Inr (model', out, (preds, true_labels))"
  then show "\<exists>outs predss.
         length outs = length dl \<and> length predss = length dl \<and>
         preds = concat predss \<and> true_labels = concat (map b_labels dl) \<and>
         (\<forall>k<length dl.
            model_call ev (model_eval ev model) False (b_input_ids (dl ! k)) (b_attention_mask (dl ! k))
              = Inr (outs ! k) \<and>
            length (predss ! k) = length (outs ! k) \<and>
            (\<forall>i<length (outs ! k).
               predss ! k ! i < length (outs ! k ! i) \<and>
               (\<forall>j<length (outs ! k ! i). outs ! k ! i ! j \<le> outs ! k ! i ! (predss ! k ! i)) \<and>
               (\<forall>j<predss ! k ! i. outs ! k ! i ! j < outs ! k ! i ! (predss ! k ! i)) \<and>
               (length (outs ! k ! i) = 2 \<longrightarrow> predss ! k ! i \<in> {0, 1}))) \<and>
         ((\<forall>k<length dl. length (outs ! k) = length (b_input_ids (dl ! k)))
            \<longrightarrow> map length predss = map (\<lambda>b. length (b_input_ids b)) dl)"
    by (rule test_model_Inr)
next
  assume h: "model_name self \<in> {''distilbert'', ''tinybert'', ''electra''} \<and>
    cnn self = Conv1d_init ic oc 3 1 cw cb \<and> lstm self = LSTM_init oc hid wi wh bi bh \<and>
    fc self = Linear_init hid 2 fw fb \<and>
    encoder_call (bert self) input_ids attention_mask \<noteq> [] \<and>
    (\<forall>h\<in>set (encoder_call (bert self) input_ids attention_mask). has_shape (length input_ids) s ic h) \<and>
    0 < s \<and> 0 < ic \<and> 0 < oc"
  then have name: "model_name self \<in> {''distilbert'', ''tinybert'', ''electra''}"
    and cnn: "cnn self = Conv1d_init ic oc 3 1 cw cb" and lstm: "lstm self = LSTM_init oc hid wi wh bi bh"
    and fc: "fc self = Linear_init hid 2 fw fb"
    and ne: "encoder_call (bert self) input_ids attention_mask \<noteq> []"
    and sh: "\<forall>h\<in>set (encoder_call (bert self) input_ids attention_mask). has_shape (length input_ids) s ic h"
    and pos: "0 < s" "0 < ic" "0 < oc" by simp_all
  from forward_returns [OF name cnn lstm fc ne sh pos, of act False]
  obtain logits g where "forward act self False input_ids attention_mask = Inr (logits, g)"
    "length logits = length input_ids" "\<forall>row\<in>set logits. length row = 2" by blast
  then show "\<exists>logits. model_call (classifier_evaluator act) self False input_ids attention_mask = Inr logits \<and>
         length logits = length input_ids \<and> (\<forall>row\<in>set logits. length row = 2)"
    by (simp add: classifier_evaluator_def)
next
  assume "notebook_section env cfg fs = Inr (fs', r)"
  from section_predictions [OF this]
  show "fs' (preds_path cfg) = Some (SavedPredictions (sec_preds r))"
    and "\<exists>train_dl dev_dl test_dl tested out2.
         section_data env cfg fs = Inr (train_dl, dev_dl, test_dl) \<and>
         test_model (classifier_evaluator (env_act env)) (Module_eval (sec_trained r)) test_dl
           = Inr (tested, out2, (sec_preds r, sec_true_labels r))"
    by (rule conjunct1, rule conjunct2 [THEN conjunct2])
next
  assume "notebook env fs0 = Inr (fs3, rs)"
  then show "\<exists>db tb el. rs = [db, tb, el] \<and>
         fs3 ''predictions/DB_preds.pt'' = Some (SavedPredictions (sec_preds db)) \<and>
         fs3 ''predictions/TB_preds.pt'' = Some (SavedPredictions (sec_preds tb)) \<and>
         fs3 ''predictions/EL_preds.pt'' = Some (SavedPredictions (sec_preds el))"
    by (rule notebook_predictions)
qed


theorem test_model_predictions_witness:
  "(\<exists>model' out.
      test_model (classifier_evaluator example_act) example_classifier [example_batch, example_test_batch]
        = Inr (model', out, ([1, 1, 1, 0], [0, 1, 1, 0])) \<and>
      (\<exists>outs predss.
         length outs = length [example_batch, example_test_batch] \<and>
         length predss = length [example_batch, example_test_batch] \<and>
         [1, 1, 1, 0] = concat predss \<and>
         [0, 1, 1, 0] = concat (map b_labels [example_batch, example_test_batch]) \<and>
         (\<forall>k<length [example_batch, example_test_batch].
            model_call (classifier_evaluator example_act)
                (model_eval (classifier_evaluator example_act) example_classifier) False
                (b_input_ids ([example_batch, example_test_batch] ! k))
                (b_attention_mask ([example_batch, example_test_batch] ! k))
              = Inr (outs ! k) \<and>
            length (predss ! k) = length (outs ! k) \<and>
            (\<forall>i<length (outs ! k).
               predss ! k ! i < length (outs ! k ! i) \<and>
               (\<forall>j<length (outs ! k ! i). outs ! k ! i ! j \<le> outs ! k ! i ! (predss ! k ! i)) \<and>
               (\<forall>j<predss ! k ! i. outs ! k ! i ! j < outs ! k ! i ! (predss ! k ! i)) \<and>
               (length (outs ! k ! i) = 2 \<longrightarrow> predss ! k ! i \<in> {0, 1}))) \<and>
         ((\<forall>k<length [example_batch, example_test_batch].
              length (outs ! k) = length (b_input_ids ([example_batch, example_test_batch] ! k)))
            \<longrightarrow> map length predss
                  = map (\<lambda>b. length (b_input_ids b)) [example_batch, example_test_batch]))) \<and>
   model_name (Module_eval example_classifier) \<in> {''distilbert'', ''tinybert'', ''electra''} \<and>
   list_all (has_shape (length (b_input_ids example_test_batch)) 2 1)
     (encoder_call (bert (Module_eval example_classifier)) (b_input_ids example_test_batch)
        (b_attention_mask example_test_batch)) \<and>
   (\<exists>logits.
      model_call (classifier_evaluator example_act) (Module_eval example_classifier) False
        (b_input_ids example_test_batch) (b_attention_mask example_test_batch) = Inr logits \<and>
      length logits = length (b_input_ids example_test_batch) \<and> (\<forall>row\<in>set logits. length row = 2)) \<and>
   (\<exists>fs3 rs fs1 db tb el.
      notebook example_env example_files = Inr (fs3, rs) \<and> rs = [db, tb, el] \<and>
      fs3 ''predictions/DB_preds.pt'' = Some (SavedPredictions (sec_preds db)) \<and>
      fs3 ''predictions/TB_preds.pt'' = Some (SavedPredictions (sec_preds tb)) \<and>
      fs3 ''predictions/EL_preds.pt'' = Some (SavedPredictions (sec_preds el)) \<and>
      notebook_section example_env DB_cfg example_files = Inr (fs1, db) \<and>
      fs1 (preds_path DB_cfg) = Some (SavedPredictions (sec_preds db)) \<and>
      (\<exists>train_dl dev_dl test_dl tested out2.
         section_data example_env DB_cfg example_files = Inr (train_dl, dev_dl, test_dl) \<and>
         test_model (classifier_evaluator (env_act example_env)) (Module_eval (sec_trained db)) test_dl
           = Inr (tested, out2, (sec_preds db, sec_true_labels db))))"
proof -
  let ?dl = "[example_batch, example_test_batch]"
  have ev: "map_sum id (\<lambda>(m, out, r). r)
      (test_model (classifier_evaluator example_act) example_classifier ?dl)
      = Inr ([1, 1, 1, 0], [0, 1, 1, 0])"
    by code_simp
  then obtain model' out where run:
    "test_model (classifier_evaluator example_act) example_classifier ?dl
        = Inr (model', out, ([1, 1, 1, 0], [0, 1, 1, 0]))"
    by (cases "test_model (classifier_evaluator example_act) example_classifier ?dl") auto
  note A = test_model_predictions [THEN conjunct1, rule_format, OF run]
  have w1: "\<exists>model' out.
      test_model (classifier_evaluator example_act) example_classifier ?dl
        = Inr (model', out, ([1, 1, 1, 0], [0, 1, 1, 0])) \<and>
      (\<exists>outs predss.
         length outs = length ?dl \<and>
         length predss = length ?dl \<and>
         [1, 1, 1, 0] = concat predss \<and>
         [0, 1, 1, 0] = concat (map b_labels ?dl) \<and>
         (\<forall>k<length ?dl.
            model_call (classifier_evaluator example_act)
                (model_eval (classifier_evaluator example_act) example_classifier) False
                (b_input_ids (?dl ! k))
                (b_attention_mask (?dl ! k))
              = Inr (outs ! k) \<and>
            length (predss ! k) = length (outs ! k) \<and>
            (\<forall>i<length (outs ! k).
               predss ! k ! i < length (outs ! k ! i) \<and>
               (\<forall>j<length (outs ! k ! i). outs ! k ! i ! j \<le> outs ! k ! i ! (predss ! k ! i)) \<and>
               (\<forall>j<predss ! k ! i. outs ! k ! i ! j < outs ! k ! i ! (predss ! k ! i)) \<and>
               (length (outs ! k ! i) = 2 \<longrightarrow> predss ! k ! i \<in> {0, 1}))) \<and>
         ((\<forall>k<length ?dl.
              length (outs ! k) = length (b_input_ids (?dl ! k)))
            \<longrightarrow> map length predss
                  = map (\<lambda>b. length (b_input_ids b)) ?dl))"
    apply (rule exI [of _ model'], rule exI [of _ out])
    apply (rule conjI [OF run A])
    done
  let ?E = "Module_eval example_classifier"
  have name: "model_name ?E \<in> {''distilbert'', ''tinybert'', ''electra''}"
    by (simp add: Module_eval_def Module_train_def example_classifier_def CNNLSTMClassifier_init_def)
  have cnn: "cnn ?E = Conv1d_init 1 1 3 1 (init_conv_w example_rng) (init_conv_b example_rng)"
    by (simp add: Module_eval_def Module_train_def example_classifier_def CNNLSTMClassifier_init_def)
  have lstm: "lstm ?E = LSTM_init 1 1 (init_lstm_wih example_rng) (init_lstm_whh example_rng)
          (init_lstm_bih example_rng) (init_lstm_bhh example_rng)"
    by (simp add: Module_eval_def Module_train_def example_classifier_def CNNLSTMClassifier_init_def)
  have fc: "fc ?E = Linear_init 1 2 (init_fc_w example_rng) (init_fc_b example_rng)"
    by (simp add: Module_eval_def Module_train_def example_classifier_def CNNLSTMClassifier_init_def)
  have ne: "encoder_call (bert ?E) (b_input_ids example_test_batch)
      (b_attention_mask example_test_batch) \<noteq> []"
    by (simp add: Module_eval_def Module_train_def example_classifier_def CNNLSTMClassifier_init_def
          example_encoder_def encoder_call_def)
  have sh: "\<forall>h\<in>set (encoder_call (bert ?E) (b_input_ids example_test_batch)
                (b_attention_mask example_test_batch)).
       has_shape (length (b_input_ids example_test_batch)) 2 1 h"
    by (simp add: Module_eval_def Module_train_def example_classifier_def CNNLSTMClassifier_init_def
          example_encoder_def encoder_call_def has_shape_def shape_sig_def eval_nat_numeral
          example_test_batch_def)
  have pos: "(0 :: nat) < 2" "(0 :: nat) < 1" by simp_all
  have hyp: "model_name ?E \<in> {''distilbert'', ''tinybert'', ''electra''} \<and>
    cnn ?E = Conv1d_init 1 1 3 1 (init_conv_w example_rng) (init_conv_b example_rng) \<and>
    lstm ?E = LSTM_init 1 1 (init_lstm_wih example_rng) (init_lstm_whh example_rng)
          (init_lstm_bih example_rng) (init_lstm_bhh example_rng) \<and>
    fc ?E = Linear_init 1 2 (init_fc_w example_rng) (init_fc_b example_rng) \<and>
    encoder_call (bert ?E) (b_input_ids example_test_batch) (b_attention_mask example_test_batch) \<noteq> [] \<and>
    (\<forall>h\<in>set (encoder_call (bert ?E) (b_input_ids example_test_batch)
                (b_attention_mask example_test_batch)).
       has_shape (length (b_input_ids example_test_batch)) 2 1 h) \<and>
    (0 :: nat) < 2 \<and> (0 :: nat) < 1 \<and> (0 :: nat) < 1"
    using name cnn lstm fc ne sh pos by (intro conjI)
  note B = test_model_predictions [THEN conjunct2, THEN conjunct1, rule_format, OF hyp]
  have w2b: "list_all (has_shape (length (b_input_ids example_test_batch)) 2 1)
     (encoder_call (bert ?E) (b_input_ids example_test_batch) (b_attention_mask example_test_batch))"
    using sh by (simp add: list_all_iff)
  from example_notebook obtain fs3 db0 tb0 el0 where
    nb: "notebook example_env example_files = Inr (fs3, [db0, tb0, el0])" by blast
  from test_model_predictions [THEN conjunct2, THEN conjunct2, THEN conjunct2, rule_format, OF nb]
  obtain db tb el where rs: "[db0, tb0, el0] = [db, tb, el]"
    and p1: "fs3 ''predictions/DB_preds.pt'' = Some (SavedPredictions (sec_preds db))"
    and p2: "fs3 ''predictions/TB_preds.pt'' = Some (SavedPredictions (sec_preds tb))"
    and p3: "fs3 ''predictions/EL_preds.pt'' = Some (SavedPredictions (sec_preds el))"
    by (elim exE conjE)
  from notebook_Inr [OF nb] rs obtain fs1 where
    s1: "notebook_section example_env DB_cfg example_files = Inr (fs1, db)" by auto
  note S = test_model_predictions [THEN conjunct2, THEN conjunct2, THEN conjunct1, rule_format, OF s1]
  note q1 = S [THEN conjunct1] and q2 = S [THEN conjunct2]
  have w3: "\<exists>fs3 rs fs1 db tb el.
      notebook example_env example_files = Inr (fs3, rs) \<and> rs = [db, tb, el] \<and>
      fs3 ''predictions/DB_preds.pt'' = Some (SavedPredictions (sec_preds db)) \<and>
      fs3 ''predictions/TB_preds.pt'' = Some (SavedPredictions (sec_preds tb)) \<and>
      fs3 ''predictions/EL_preds.pt'' = Some (SavedPredictions (sec_preds el)) \<and>
      notebook_section example_env DB_cfg example_files = Inr (fs1, db) \<and>
      fs1 (preds_path DB_cfg) = Some (SavedPredictions (sec_preds db)) \<and>
      (\<exists>train_dl dev_dl test_dl tested out2.
         section_data example_env DB_cfg example_files = Inr (train_dl, dev_dl, test_dl) \<and>
         test_model (classifier_evaluator (env_act example_env)) (Module_eval (sec_trained db)) test_dl
           = Inr (tested, out2, (sec_preds db, sec_true_labels db)))"
    apply (rule exI [of _ fs3], rule exI [of _ "[db0, tb0, el0]"], rule exI [of _ fs1],
        rule exI [of _ db], rule exI [of _ tb], rule exI [of _ el])
    apply (intro conjI)
    apply (fact nb rs p1 p2 p3 s1 q1 q2)+
    done
  from w1 name w2b B w3 show ?thesis by (intro conjI)
qed

subsection \<open>The three classifiers\<close>



end
